theory Spec2Isabelle
  imports Complex_Main
begin

section \<open>Python values\<close>

text \<open>
  The agents exchange open key/value maps (\<^verbatim>\<open>Dict[str, Any]\<close>) that come from
  \<^verbatim>\<open>json.loads\<close> or from dict literals. A value is one of the JSON shapes; a dict is an
  association list in insertion order, looked up by its first matching key. Numbers are
  exact rationals: the model does not follow the rounding of IEEE doubles.
\<close>

datatype json =
    JNull
  | JBool bool
  | JNum rat
  | JStr string
  | JArr "json list"
  | JObj "(string \<times> json) list"

text \<open>Every exception a modelled operation can raise is a value of this type.\<close>

datatype py_error =
    AttributeError
  | TypeError
  | ValueError string
  | JSONDecodeError
  | ServiceError string

type_synonym 'a result = "py_error + 'a"

text \<open>Sequencing of fallible steps: the first exception ends the computation.\<close>

definition bind_result :: "'a result \<Rightarrow> ('a \<Rightarrow> 'b result) \<Rightarrow> 'b result" where
  "bind_result m f = (case m of Inl e \<Rightarrow> Inl e | Inr v \<Rightarrow> f v)"

text \<open>Python's truth value of an object: \<^verbatim>\<open>if x:\<close>.\<close>

fun truthy :: "json \<Rightarrow> bool" where
  "truthy JNull = False"
| "truthy (JBool b) = b"
| "truthy (JNum r) = (r \<noteq> 0)"
| "truthy (JStr s) = (s \<noteq> [])"
| "truthy (JArr xs) = (xs \<noteq> [])"
| "truthy (JObj kvs) = (kvs \<noteq> [])"

text \<open>\<^verbatim>\<open>d.get(k, default)\<close> on a dict.\<close>

definition dict_get :: "(string \<times> json) list \<Rightarrow> string \<Rightarrow> json \<Rightarrow> json" where
  "dict_get kvs k d = (case map_of kvs k of Some v \<Rightarrow> v | None \<Rightarrow> d)"

text \<open>
  \<^verbatim>\<open>x.get(k, default)\<close> on any value: only a dict has the method, every other value raises
  \<^verbatim>\<open>AttributeError\<close>.
\<close>

fun py_get :: "json \<Rightarrow> string \<Rightarrow> json \<Rightarrow> json result" where
  "py_get (JObj kvs) k d = Inr (dict_get kvs k d)"
| "py_get _ k d = Inl AttributeError"

text \<open>\<^verbatim>\<open>isinstance(x, dict) and k in x\<close>.\<close>

fun has_key :: "json \<Rightarrow> string \<Rightarrow> bool" where
  "has_key (JObj kvs) k = (map_of kvs k \<noteq> None)"
| "has_key _ k = False"

text \<open>
  The numeric value of an operand of \<^verbatim>\<open>+\<close>: numbers, and booleans as 0 and 1. Any other
  operand of an addition with a number raises \<^verbatim>\<open>TypeError\<close>.
\<close>

fun py_number :: "json \<Rightarrow> rat option" where
  "py_number (JNum r) = Some r"
| "py_number (JBool b) = Some (if b then 1 else 0)"
| "py_number _ = None"

text \<open>\<^verbatim>\<open>sum(xs)\<close>: a left fold of \<^verbatim>\<open>+\<close> from 0.\<close>

fun py_sum_from :: "rat \<Rightarrow> json list \<Rightarrow> rat result" where
  "py_sum_from acc [] = Inr acc"
| "py_sum_from acc (x # xs) =
     (case py_number x of
        None \<Rightarrow> Inl TypeError
      | Some r \<Rightarrow> py_sum_from (acc + r) xs)"

definition py_sum :: "json list \<Rightarrow> rat result" where
  "py_sum xs = py_sum_from 0 xs"

text \<open>\<^verbatim>\<open>len(x)\<close>: strings, lists and dicts have a length, nothing else has.\<close>

fun py_len :: "json \<Rightarrow> nat result" where
  "py_len (JStr s) = Inr (length s)"
| "py_len (JArr xs) = Inr (length xs)"
| "py_len (JObj kvs) = Inr (length kvs)"
| "py_len _ = Inl TypeError"

text \<open>
  \<^verbatim>\<open>d.setdefault(k, default)\<close>: a key that is absent is added at the end, a key that is
  present keeps its value. \<^verbatim>\<open>d[k] = v\<close> replaces the value of a present key in place.
\<close>

definition setdefault :: "string \<Rightarrow> json \<Rightarrow> (string \<times> json) list \<Rightarrow> (string \<times> json) list" where
  "setdefault k d kvs = (if map_of kvs k = None then kvs @ [(k, d)] else kvs)"

fun dict_set :: "string \<Rightarrow> json \<Rightarrow> (string \<times> json) list \<Rightarrow> (string \<times> json) list" where
  "dict_set k v [] = [(k, v)]"
| "dict_set k v ((k', v') # kvs) =
     (if k' = k then (k, v) # kvs else (k', v') # dict_set k v kvs)"

text \<open>
  A sequence of \<^verbatim>\<open>setdefault\<close> calls on a value: a value that is not a dict has no such
  method and the first call raises \<^verbatim>\<open>AttributeError\<close>.
\<close>

fun py_setdefaults :: "(string \<times> json) list \<Rightarrow> json \<Rightarrow> json result" where
  "py_setdefaults defaults (JObj kvs) = Inr (JObj (fold (\<lambda>(k, d). setdefault k d) defaults kvs))"
| "py_setdefaults defaults _ = Inl AttributeError"

text \<open>\<^verbatim>\<open>x[k] = v\<close> on any value with a string key: only a dict accepts it.\<close>

fun py_setitem :: "json \<Rightarrow> string \<Rightarrow> json \<Rightarrow> json result" where
  "py_setitem (JObj kvs) k v = Inr (JObj (dict_set k v kvs))"
| "py_setitem _ k v = Inl TypeError"

section \<open>Python strings\<close>

text \<open>
  \<^verbatim>\<open>s.find(sub, start)\<close> and \<^verbatim>\<open>s.rfind(sub)\<close> return the first and the last index at
  which \<^verbatim>\<open>sub\<close> occurs, or -1. The helpers walk the string and carry the index of
  its head.
\<close>

definition starts_with :: "string \<Rightarrow> string \<Rightarrow> bool" where
  "starts_with s sub = (take (length sub) s = sub)"

primrec find_at :: "string \<Rightarrow> string \<Rightarrow> nat \<Rightarrow> nat option" where
  "find_at sub [] i = (if sub = [] then Some i else None)"
| "find_at sub (c # cs) i =
     (if starts_with (c # cs) sub then Some i else find_at sub cs (Suc i))"

primrec rfind_at :: "string \<Rightarrow> string \<Rightarrow> nat \<Rightarrow> nat option" where
  "rfind_at sub [] i = (if sub = [] then Some i else None)"
| "rfind_at sub (c # cs) i =
     (case rfind_at sub cs (Suc i) of
        Some j \<Rightarrow> Some j
      | None \<Rightarrow> if starts_with (c # cs) sub then Some i else None)"

definition py_find :: "string \<Rightarrow> string \<Rightarrow> int \<Rightarrow> int" where
  "py_find s sub start =
     (let i = (if start < 0 then nat (max 0 (int (length s) + start)) else nat start)
      in if length s < i then - 1
         else (case find_at sub (drop i s) i of Some j \<Rightarrow> int j | None \<Rightarrow> - 1))"

definition py_rfind :: "string \<Rightarrow> string \<Rightarrow> int" where
  "py_rfind s sub = (case rfind_at sub s 0 of Some j \<Rightarrow> int j | None \<Rightarrow> - 1)"

text \<open>\<^verbatim>\<open>sub in s\<close>.\<close>

definition py_in :: "string \<Rightarrow> string \<Rightarrow> bool" where
  "py_in sub s = (find_at sub s 0 \<noteq> None)"

text \<open>
  \<^verbatim>\<open>xs[a:b]\<close>: an absent bound is the end of the sequence, a negative bound counts from
  the end, and both are clipped to the sequence.
\<close>

definition slice_bound :: "nat \<Rightarrow> int \<Rightarrow> nat" where
  "slice_bound n i = (if i < 0 then nat (max 0 (int n + i)) else min n (nat i))"

definition py_slice :: "'a list \<Rightarrow> int option \<Rightarrow> int option \<Rightarrow> 'a list" where
  "py_slice xs a b =
     (let i = (case a of None \<Rightarrow> 0 | Some a' \<Rightarrow> slice_bound (length xs) a');
          j = (case b of None \<Rightarrow> length xs | Some b' \<Rightarrow> slice_bound (length xs) b')
      in take (j - i) (drop i xs))"

text \<open>
  \<^verbatim>\<open>s.strip()\<close> removes white space at both ends. The white space of the first 256 code
  points: tab to carriage return, the four separators 28 to 31, space, next line (133)
  and no-break space (160).
\<close>

definition is_space :: "char \<Rightarrow> bool" where
  "is_space c =
     (let n = (of_char c :: nat)
      in (9 \<le> n \<and> n \<le> 13) \<or> (28 \<le> n \<and> n \<le> 32) \<or> n = 133 \<or> n = 160)"

definition py_strip :: "string \<Rightarrow> string" where
  "py_strip s = rev (dropWhile is_space (rev (dropWhile is_space s)))"

text \<open>\<^verbatim>\<open>sep.join(parts)\<close>.\<close>

fun py_join :: "string \<Rightarrow> string list \<Rightarrow> string" where
  "py_join sep [] = []"
| "py_join sep [p] = p"
| "py_join sep (p # q # ps) = p @ sep @ py_join sep (q # ps)"

section \<open>Extraction of the JSON text from a completion\<close>

text \<open>
  The block that \<^verbatim>\<open>_parse_research_response\<close>, \<^verbatim>\<open>_parse_architecture_response\<close>,
  \<^verbatim>\<open>_parse_reasoning_response\<close>, \<^verbatim>\<open>_parse_impact_response\<close>,
  \<^verbatim>\<open>_parse_educational_response\<close> and \<^verbatim>\<open>_parse_documentation_response\<close> all start
  with: the interior of a fenced block tagged json, else the span from the first opening
  brace to the last closing brace, else \<^verbatim>\<open>ValueError\<close>. When the fence is not closed,
  \<^verbatim>\<open>find\<close> gives -1 and the slice ends before the last character.
\<close>

definition extract_json_str :: "string \<Rightarrow> string result" where
  "extract_json_str response =
     (if py_in ''```json'' response then
        (let json_start = py_find response ''```json'' 0 + 7;
             json_end = py_find response ''```'' json_start
         in Inr (py_strip (py_slice response (Some json_start) (Some json_end))))
      else if py_in ''{'' response \<and> py_in ''}'' response then
        (let json_start = py_find response ''{'' 0;
             json_end = py_rfind response ''}'' + 1
         in Inr (py_slice response (Some json_start) (Some json_end)))
      else Inl (ValueError ''No JSON found in response''))"

text \<open>
  \<^verbatim>\<open>re.search(r'\{.*\}', response, re.DOTALL)\<close> of the orchestrator and the requirements
  agent: the greedy match runs from the first opening brace to the last closing brace
  after it, and there is none when no closing brace follows the first opening brace.
\<close>

definition brace_match :: "string \<Rightarrow> string option" where
  "brace_match response =
     (let i = py_find response ''{'' 0; j = py_rfind response ''}''
      in if 0 \<le> i \<and> i < j then Some (py_slice response (Some i) (Some (j + 1))) else None)"

section \<open>Fallback structures\<close>

text \<open>
  Every agent has hard-coded structures that it returns when the completion or its
  parsing fails. They are the dict literals of the source; the larger ones are given
  one constant per top-level key.
\<close>

text \<open>The literal returned by \<^verbatim>\<open>OrchestratorAgent._get_fallback_plan\<close>.\<close>

definition get_fallback_plan :: json where
  "get_fallback_plan =
     JObj
      [(''workflow_type'', JStr ''SEQUENTIAL''),
       (''agents_required'', JArr
          [JStr ''requirements'',
           JStr ''research'',
           JStr ''architecture'',
           JStr ''why_reasoning'',
           JStr ''business_impact'',
           JStr ''educational'']),
       (''estimated_duration_minutes'', JNum 20),
       (''complexity_score'', JNum 3),
       (''justification'', JStr ''Fallback plan due to orchestration error''),
       (''integration_requirements'', JObj
          [(''why_reasoning'', JStr ''mandatory''),
           (''business_impact'', JStr ''mandatory''),
           (''educational_adaptation'', JBool True)])]"


text \<open>The literal returned by \<^verbatim>\<open>OrchestratorAgent._get_default_plan\<close>.\<close>

definition get_default_plan :: json where
  "get_default_plan =
     JObj
      [(''workflow_type'', JStr ''SEQUENTIAL''),
       (''agents_required'', JArr
          [JStr ''requirements'',
           JStr ''architecture'',
           JStr ''why_reasoning'',
           JStr ''business_impact'']),
       (''estimated_duration_minutes'', JNum 15),
       (''complexity_score'', JNum 2),
       (''justification'', JStr ''Default sequential plan'')]"


text \<open>The literal returned by \<^verbatim>\<open>RequirementsAgent._get_fallback_analysis\<close>.\<close>

definition get_fallback_analysis :: json where
  "get_fallback_analysis =
     JObj
      [(''functional_requirements'', JArr
          [JStr ''Core system functionality as described in user query'',
           JStr ''User interface for interaction'',
           JStr ''Data persistence capabilities'']),
       (''non_functional_requirements'', JArr
          [JStr ''System performance and responsiveness'',
           JStr ''Security and data protection'',
           JStr ''Scalability for future growth'']),
       (''business_requirements'', JArr
          [JStr ''Alignment with business objectives'',
           JStr ''Cost-effective implementation'',
           JStr ''Timely delivery'']),
       (''constraints'', JArr
          [JStr ''Budget limitations'',
           JStr ''Timeline constraints'',
           JStr ''Technology stack preferences'']),
       (''risks'', JArr
          [JStr ''Technical implementation complexity'',
           JStr ''Integration challenges'',
           JStr ''Performance bottlenecks'']),
       (''clarification_questions'', JArr
          [JStr ''What is the expected user load?'',
           JStr ''What are the performance requirements?'',
           JStr ''What integrations are needed?'']),
       (''priority_matrix'', JObj
          [(''high'', JArr [JStr ''Core functionality'', JStr ''Security'']),
           (''medium'', JArr [JStr ''Performance optimization'', JStr ''Integrations'']),
           (''low'', JArr [JStr ''Advanced features'', JStr ''UI enhancements''])])]"


text \<open>The literal returned by \<^verbatim>\<open>RequirementsAgent._get_default_analysis\<close>.\<close>

definition get_default_analysis :: json where
  "get_default_analysis =
     JObj
      [(''functional_requirements'', JArr [JStr ''Basic system functionality'']),
       (''non_functional_requirements'', JArr [JStr ''Performance'', JStr ''Security'']),
       (''business_requirements'', JArr [JStr ''Business value delivery'']),
       (''constraints'', JArr [JStr ''Resource limitations'']),
       (''risks'', JArr [JStr ''Implementation complexity'']),
       (''clarification_questions'', JArr [JStr ''Need more details'']),
       (''priority_matrix'', JObj [])]"


definition get_fallback_research_architecture_patterns :: json where
  "get_fallback_research_architecture_patterns =
     JArr
      [JObj
        [(''name'', JStr ''Microservices Architecture''),
         (''description'', JStr ''Distributed architecture pattern with loosely coupled services''),
         (''use_cases'', JArr
            [JStr ''Large scale applications'',
             JStr ''Team autonomy'',
             JStr ''Technology diversity'']),
         (''pros'', JArr
            [JStr ''Scalability'',
             JStr ''Technology flexibility'',
             JStr ''Team independence'']),
         (''cons'', JArr
            [JStr ''Complexity'',
             JStr ''Network overhead'',
             JStr ''Data consistency challenges'']),
         (''complexity'', JStr ''high'')],
       JObj
        [(''name'', JStr ''Layered Architecture''),
         (''description'', JStr ''Traditional n-tier architecture with clear separation of concerns''),
         (''use_cases'', JArr
            [JStr ''Enterprise applications'',
             JStr ''Well-defined domains'',
             JStr ''Team familiarity'']),
         (''pros'', JArr [JStr ''Simplicity'', JStr ''Clear structure'', JStr ''Easy to understand'']),
         (''cons'', JArr
            [JStr ''Tight coupling'',
             JStr ''Performance overhead'',
             JStr ''Limited scalability'']),
         (''complexity'', JStr ''low'')]]"

definition get_fallback_research_technology_recommendations :: json where
  "get_fallback_research_technology_recommendations =
     JArr
      [JObj
        [(''category'', JStr ''backend''),
         (''technology'', JStr ''Node.js with Express''),
         (''rationale'', JStr ''Fast development, JavaScript ecosystem, good performance''),
         (''alternatives'', JArr [JStr ''Python Django'', JStr ''Java Spring Boot'']),
         (''maturity'', JStr ''mature'')],
       JObj
        [(''category'', JStr ''database''),
         (''technology'', JStr ''PostgreSQL''),
         (''rationale'', JStr ''ACID compliance, rich feature set, excellent performance''),
         (''alternatives'', JArr [JStr ''MySQL'', JStr ''MongoDB'']),
         (''maturity'', JStr ''mature'')]]"

definition get_fallback_research_best_practices :: json where
  "get_fallback_research_best_practices =
     JArr
      [JObj
        [(''area'', JStr ''security''),
         (''practice'', JStr ''Implement authentication and authorization at all layers''),
         (''implementation'', JStr ''Use JWT tokens, role-based access control, input validation'')],
       JObj
        [(''area'', JStr ''performance''),
         (''practice'', JStr ''Implement caching strategies''),
         (''implementation'', JStr ''Redis for session storage, CDN for static assets, database query optimization'')]]"

definition get_fallback_research_case_studies :: json where
  "get_fallback_research_case_studies =
     JArr
      [JObj
        [(''company'', JStr ''Netflix''),
         (''scenario'', JStr ''Large-scale video streaming platform''),
         (''solution'', JStr ''Microservices with event-driven architecture''),
         (''outcomes'', JStr ''Massive scale, high availability, rapid feature development'')]]"

definition get_fallback_research_search_queries :: json where
  "get_fallback_research_search_queries =
     JArr
      [JStr ''microservices architecture best practices'',
       JStr ''scalable web application design patterns'']"

text \<open>The literal returned by \<^verbatim>\<open>ResearchAgent._get_fallback_research\<close>.\<close>

definition get_fallback_research :: json where
  "get_fallback_research =
     JObj
      [(''architecture_patterns'', get_fallback_research_architecture_patterns),
       (''technology_recommendations'', get_fallback_research_technology_recommendations),
       (''best_practices'', get_fallback_research_best_practices),
       (''case_studies'', get_fallback_research_case_studies),
       (''search_queries'', get_fallback_research_search_queries),
       (''confidence_score'', JNum (7 / 10))]"


definition get_fallback_architecture_architecture_overview :: json where
  "get_fallback_architecture_architecture_overview =
     JObj
      [(''pattern'', JStr ''layered''),
       (''description'', JStr ''Traditional three-tier architecture with presentation, business, and data layers''),
       (''key_principles'', JArr
          [JStr ''Separation of concerns'',
           JStr ''Scalability'',
           JStr ''Maintainability''])]"

definition get_fallback_architecture_components :: json where
  "get_fallback_architecture_components =
     JArr
      [JObj
        [(''id'', JStr ''frontend''),
         (''name'', JStr ''Frontend Application''),
         (''type'', JStr ''frontend''),
         (''description'', JStr ''User interface and presentation layer''),
         (''responsibilities'', JArr
            [JStr ''User interaction'',
             JStr ''Data presentation'',
             JStr ''Client-side validation'']),
         (''technology'', JStr ''React''),
         (''scalability'', JStr ''horizontal''),
         (''dependencies'', JArr [JStr ''api-gateway'']),
         (''visualization_metadata'', JObj
            [(''layer_assignments'', JObj
                [(''system_overview'', JStr ''core_system''),
                 (''deployment'', JStr ''dmz'')]),
             (''business_criticality'', JStr ''high''),
             (''visual_importance'', JNum 8),
             (''icon_category'', JStr ''frontend''),
             (''technology_badges'', JArr [JStr ''react'', JStr ''javascript'']),
             (''health_indicators'', JObj
                [(''monitoring_required'', JBool True),
                 (''performance_critical'', JBool True),
                 (''availability_target'', JStr ''99.9%'')])])],
       JObj
        [(''id'', JStr ''api-gateway''),
         (''name'', JStr ''API Gateway''),
         (''type'', JStr ''gateway''),
         (''description'', JStr ''Central entry point for all client requests''),
         (''responsibilities'', JArr [JStr ''Request routing'', JStr ''Authentication'', JStr ''Rate limiting'']),
         (''technology'', JStr ''Express.js''),
         (''scalability'', JStr ''horizontal''),
         (''dependencies'', JArr [JStr ''backend-service'']),
         (''visualization_metadata'', JObj
            [(''layer_assignments'', JObj
                [(''system_overview'', JStr ''core_system''),
                 (''deployment'', JStr ''dmz'')]),
             (''business_criticality'', JStr ''high''),
             (''visual_importance'', JNum 7),
             (''icon_category'', JStr ''backend''),
             (''technology_badges'', JArr [JStr ''express'', JStr ''nodejs'']),
             (''health_indicators'', JObj
                [(''monitoring_required'', JBool True),
                 (''performance_critical'', JBool True),
                 (''availability_target'', JStr ''99.9%'')])])],
       JObj
        [(''id'', JStr ''backend-service''),
         (''name'', JStr ''Backend Service''),
         (''type'', JStr ''service''),
         (''description'', JStr ''Core business logic and data processing''),
         (''responsibilities'', JArr
            [JStr ''Business logic'',
             JStr ''Data validation'',
             JStr ''External integrations'']),
         (''technology'', JStr ''Node.js''),
         (''scalability'', JStr ''horizontal''),
         (''dependencies'', JArr [JStr ''database'']),
         (''visualization_metadata'', JObj
            [(''layer_assignments'', JObj
                [(''system_overview'', JStr ''core_system''),
                 (''deployment'', JStr ''application'')]),
             (''business_criticality'', JStr ''high''),
             (''visual_importance'', JNum 9),
             (''icon_category'', JStr ''backend''),
             (''technology_badges'', JArr [JStr ''nodejs'', JStr ''javascript'']),
             (''health_indicators'', JObj
                [(''monitoring_required'', JBool True),
                 (''performance_critical'', JBool True),
                 (''availability_target'', JStr ''99.9%'')])])],
       JObj
        [(''id'', JStr ''database''),
         (''name'', JStr ''Primary Database''),
         (''type'', JStr ''database''),
         (''description'', JStr ''Main data storage for application data''),
         (''responsibilities'', JArr
            [JStr ''Data persistence'',
             JStr ''Data integrity'',
             JStr ''Query processing'']),
         (''technology'', JStr ''PostgreSQL''),
         (''scalability'', JStr ''vertical''),
         (''dependencies'', JArr []),
         (''visualization_metadata'', JObj
            [(''layer_assignments'', JObj
                [(''system_overview'', JStr ''data_component''),
                 (''deployment'', JStr ''data'')]),
             (''business_criticality'', JStr ''high''),
             (''visual_importance'', JNum 8),
             (''icon_category'', JStr ''database''),
             (''technology_badges'', JArr [JStr ''postgresql'', JStr ''sql'']),
             (''health_indicators'', JObj
                [(''monitoring_required'', JBool True),
                 (''performance_critical'', JBool True),
                 (''availability_target'', JStr ''99.99%'')])])]]"

definition get_fallback_architecture_connections :: json where
  "get_fallback_architecture_connections =
     JArr
      [JObj
        [(''from_component'', JStr ''frontend''),
         (''to_component'', JStr ''api-gateway''),
         (''connection_type'', JStr ''http''),
         (''description'', JStr ''User requests and responses''),
         (''data_flow'', JStr ''request_response''),
         (''visualization_metadata'', JObj
            [(''protocol_display'', JStr ''HTTPS/REST''),
             (''traffic_volume'', JStr ''high''),
             (''latency_requirement'', JStr ''real_time''),
             (''security_level'', JStr ''high''),
             (''dependency_strength'', JStr ''critical''),
             (''line_style'', JStr ''solid''),
             (''animation_type'', JStr ''bidirectional'')])],
       JObj
        [(''from_component'', JStr ''api-gateway''),
         (''to_component'', JStr ''backend-service''),
         (''connection_type'', JStr ''http''),
         (''description'', JStr ''API calls to business logic''),
         (''data_flow'', JStr ''request_response''),
         (''visualization_metadata'', JObj
            [(''protocol_display'', JStr ''HTTP/REST''),
             (''traffic_volume'', JStr ''high''),
             (''latency_requirement'', JStr ''near_real_time''),
             (''security_level'', JStr ''medium''),
             (''dependency_strength'', JStr ''critical''),
             (''line_style'', JStr ''solid''),
             (''animation_type'', JStr ''unidirectional'')])],
       JObj
        [(''from_component'', JStr ''backend-service''),
         (''to_component'', JStr ''database''),
         (''connection_type'', JStr ''database''),
         (''description'', JStr ''Data operations''),
         (''data_flow'', JStr ''request_response''),
         (''visualization_metadata'', JObj
            [(''protocol_display'', JStr ''PostgreSQL''),
             (''traffic_volume'', JStr ''medium''),
             (''latency_requirement'', JStr ''near_real_time''),
             (''security_level'', JStr ''high''),
             (''dependency_strength'', JStr ''critical''),
             (''line_style'', JStr ''solid''),
             (''animation_type'', JStr ''unidirectional'')])]]"

definition get_fallback_architecture_system_overview :: json where
  "get_fallback_architecture_system_overview =
     JObj
      [(''business_capabilities'', JArr
          [JObj
            [(''capability'', JStr ''User Interface Management''),
             (''components'', JArr [JStr ''frontend'']),
             (''business_value'', JStr ''User experience and engagement''),
             (''complexity'', JStr ''medium''),
             (''priority'', JStr ''high'')],
           JObj
            [(''capability'', JStr ''API Management''),
             (''components'', JArr [JStr ''api-gateway'', JStr ''backend-service'']),
             (''business_value'', JStr ''Secure and scalable API operations''),
             (''complexity'', JStr ''high''),
             (''priority'', JStr ''high'')],
           JObj
            [(''capability'', JStr ''Data Management''),
             (''components'', JArr [JStr ''database'']),
             (''business_value'', JStr ''Reliable data storage and retrieval''),
             (''complexity'', JStr ''medium''),
             (''priority'', JStr ''high'')]]),
       (''core_systems'', JArr
          [JObj
            [(''system'', JStr ''Web Application Platform''),
             (''components'', JArr [JStr ''frontend'', JStr ''api-gateway'', JStr ''backend-service'']),
             (''purpose'', JStr ''Primary user-facing application''),
             (''criticality'', JStr ''high''),
             (''user_facing'', JBool True)]]),
       (''external_integrations'', JArr []),
       (''data_domains'', JArr
          [JObj
            [(''domain'', JStr ''Application Data''),
             (''components'', JArr [JStr ''backend-service'', JStr ''database'']),
             (''sensitivity'', JStr ''high''),
             (''data_types'', JArr [JStr ''user_data'', JStr ''business_data''])]])]"

definition get_fallback_architecture_deployment_architecture :: json where
  "get_fallback_architecture_deployment_architecture =
     JObj
      [(''strategy'', JStr ''containers''),
       (''orchestration'', JStr ''docker''),
       (''environments'', JArr [JStr ''development'', JStr ''staging'', JStr ''production'']),
       (''ci_cd'', JStr ''github_actions'')]"

definition get_fallback_architecture_data_architecture :: json where
  "get_fallback_architecture_data_architecture =
     JObj
      [(''storage_strategy'', JStr ''centralized''),
       (''databases'', JArr
          [JObj
            [(''name'', JStr ''primary_db''),
             (''type'', JStr ''relational''),
             (''purpose'', JStr ''primary_data''),
             (''technology'', JStr ''postgresql'')]]),
       (''data_flow'', JStr ''Client requests flow through API gateway to backend service and database'')]"

definition get_fallback_architecture_security_architecture :: json where
  "get_fallback_architecture_security_architecture =
     JObj
      [(''authentication'', JStr ''jwt''),
       (''authorization'', JStr ''rbac''),
       (''data_protection'', JArr [JStr ''encryption'', JStr ''access_control'']),
       (''network_security'', JArr [JStr ''firewall'', JStr ''ssl_tls''])]"

definition get_fallback_architecture_technology_stack :: json where
  "get_fallback_architecture_technology_stack =
     JObj
      [(''frontend'', JStr ''react''),
       (''backend'', JStr ''node''),
       (''database'', JStr ''postgresql''),
       (''infrastructure'', JStr ''aws'')]"

definition get_fallback_architecture_visualization_data :: json where
  "get_fallback_architecture_visualization_data =
     JObj
      [(''d3_data'', JObj
          [(''nodes'', JArr
              [JObj
                [(''id'', JStr ''frontend''),
                 (''name'', JStr ''Frontend''),
                 (''type'', JStr ''frontend''),
                 (''x'', JNum 100),
                 (''y'', JNum 100),
                 (''group'', JNum 6)],
               JObj
                [(''id'', JStr ''api-gateway''),
                 (''name'', JStr ''API Gateway''),
                 (''type'', JStr ''gateway''),
                 (''x'', JNum 300),
                 (''y'', JNum 100),
                 (''group'', JNum 3)],
               JObj
                [(''id'', JStr ''backend-service''),
                 (''name'', JStr ''Backend''),
                 (''type'', JStr ''service''),
                 (''x'', JNum 500),
                 (''y'', JNum 100),
                 (''group'', JNum 1)],
               JObj
                [(''id'', JStr ''database''),
                 (''name'', JStr ''Database''),
                 (''type'', JStr ''database''),
                 (''x'', JNum 700),
                 (''y'', JNum 100),
                 (''group'', JNum 2)]]),
           (''links'', JArr
              [JObj
                [(''source'', JStr ''frontend''),
                 (''target'', JStr ''api-gateway''),
                 (''type'', JStr ''http'')],
               JObj
                [(''source'', JStr ''api-gateway''),
                 (''target'', JStr ''backend-service''),
                 (''type'', JStr ''http'')],
               JObj
                [(''source'', JStr ''backend-service''),
                 (''target'', JStr ''database''),
                 (''type'', JStr ''database'')]])]),
       (''mermaid_diagram'', JStr (''graph TD'' @ [CHR 0x0A] @ ''    frontend[Frontend]'' @ [CHR 0x0A] @ ''    api-gateway{API Gateway}'' @ [CHR 0x0A] @ ''    backend-service[Backend]'' @ [CHR 0x0A] @ ''    database[(Database)]'' @ [CHR 0x0A] @ ''    frontend --> api-gateway'' @ [CHR 0x0A] @ ''    api-gateway --> backend-service'' @ [CHR 0x0A] @ ''    backend-service --> database''))]"

text \<open>The literal returned by \<^verbatim>\<open>ArchitectureAgent._get_fallback_architecture\<close>. The source writes the key \<^verbatim>\<open>deployment_architecture\<close> twice; a dict literal keeps the first position and the last value.\<close>

definition get_fallback_architecture :: json where
  "get_fallback_architecture =
     JObj
      [(''architecture_overview'', get_fallback_architecture_architecture_overview),
       (''components'', get_fallback_architecture_components),
       (''connections'', get_fallback_architecture_connections),
       (''system_overview'', get_fallback_architecture_system_overview),
       (''deployment_architecture'', get_fallback_architecture_deployment_architecture),
       (''data_architecture'', get_fallback_architecture_data_architecture),
       (''security_architecture'', get_fallback_architecture_security_architecture),
       (''technology_stack'', get_fallback_architecture_technology_stack),
       (''visualization_data'', get_fallback_architecture_visualization_data),
       (''confidence_score'', JNum (4 / 5))]"


definition get_fallback_reasoning_architectural_decisions :: json where
  "get_fallback_reasoning_architectural_decisions =
     JArr
      [JObj
        [(''decision'', JStr ''Layered architecture pattern selection''),
         (''rationale'', JStr ''Chosen for its simplicity and clear separation of concerns, making it easier to understand and maintain''),
         (''requirements_addressed'', JArr
            [JStr ''Maintainability'',
             JStr ''Team productivity'',
             JStr ''Clear structure'']),
         (''trade_offs'', JObj
            [(''pros'', JArr
                [JStr ''Simple to understand'',
                 JStr ''Clear separation'',
                 JStr ''Easy to test'']),
             (''cons'', JArr
                [JStr ''Potential performance overhead'',
                 JStr ''Tight coupling between layers''])]),
         (''alternatives_considered'', JArr
            [JObj
              [(''alternative'', JStr ''Microservices architecture''),
               (''why_not_chosen'', JStr ''Too complex for current team size and requirements'')]]),
         (''risk_factors'', JArr [JStr ''Performance bottlenecks'', JStr ''Monolithic deployment'']),
         (''implementation_complexity'', JStr ''low''),
         (''business_impact'', JStr ''positive'')],
       JObj
        [(''decision'', JStr ''React for frontend technology''),
         (''rationale'', JStr ''Selected for its large ecosystem, component reusability, and team familiarity''),
         (''requirements_addressed'', JArr
            [JStr ''User experience'',
             JStr ''Development speed'',
             JStr ''Maintainability'']),
         (''trade_offs'', JObj
            [(''pros'', JArr
                [JStr ''Large ecosystem'',
                 JStr ''Component reusability'',
                 JStr ''Strong community'']),
             (''cons'', JArr
                [JStr ''Learning curve'',
                 JStr ''Frequent updates'',
                 JStr ''Bundle size''])]),
         (''alternatives_considered'', JArr
            [JObj
              [(''alternative'', JStr ''Vue.js''),
               (''why_not_chosen'', JStr ''Team has more experience with React'')]]),
         (''risk_factors'', JArr [JStr ''Technology churn'', JStr ''Dependency management'']),
         (''implementation_complexity'', JStr ''medium''),
         (''business_impact'', JStr ''positive'')]]"

definition get_fallback_reasoning_pattern_explanations :: json where
  "get_fallback_reasoning_pattern_explanations =
     JArr
      [JObj
        [(''pattern'', JStr ''Layered Architecture''),
         (''why_chosen'', JStr ''Provides clear separation of concerns and is well-understood by development teams''),
         (''use_case_fit'', JStr ''Perfect for applications with well-defined business logic and data access patterns''),
         (''learning_context'', JStr ''One of the most fundamental architectural patterns, forming the basis for many enterprise applications'')]]"

definition get_fallback_reasoning_technology_justifications :: json where
  "get_fallback_reasoning_technology_justifications =
     JArr
      [JObj
        [(''technology'', JStr ''PostgreSQL''),
         (''category'', JStr ''database''),
         (''selection_criteria'', JArr [JStr ''ACID compliance'', JStr ''Performance'', JStr ''Feature richness'']),
         (''why_best_fit'', JStr ''Provides robust data consistency and advanced features needed for complex business logic''),
         (''ecosystem_benefits'', JArr
            [JStr ''Excellent tooling'',
             JStr ''Strong community'',
             JStr ''Enterprise support'']),
         (''potential_concerns'', JArr [JStr ''Vertical scaling limits'', JStr ''Complexity for simple use cases''])],
       JObj
        [(''technology'', JStr ''Node.js''),
         (''category'', JStr ''backend''),
         (''selection_criteria'', JArr
            [JStr ''JavaScript ecosystem'',
             JStr ''Performance'',
             JStr ''Development speed'']),
         (''why_best_fit'', JStr ''Enables full-stack JavaScript development and has excellent performance for I/O operations''),
         (''ecosystem_benefits'', JArr [JStr ''NPM ecosystem'', JStr ''Rapid development'', JStr ''JSON handling'']),
         (''potential_concerns'', JArr [JStr ''Single-threaded limitations'', JStr ''Callback complexity''])]]"

definition get_fallback_reasoning_design_principles :: json where
  "get_fallback_reasoning_design_principles =
     JArr
      [JObj
        [(''principle'', JStr ''Separation of Concerns''),
         (''application'', JStr ''Each layer has distinct responsibilities - presentation, business logic, and data access''),
         (''importance'', JStr ''Reduces complexity and improves maintainability by isolating different aspects of the system''),
         (''examples'', JArr
            [JStr ''UI components only handle presentation'',
             JStr ''Business logic isolated in service layer''])],
       JObj
        [(''principle'', JStr ''Single Responsibility''),
         (''application'', JStr ''Each component and service has a single, well-defined purpose''),
         (''importance'', JStr ''Makes the system easier to understand, test, and modify''),
         (''examples'', JArr
            [JStr ''Authentication service only handles auth'',
             JStr ''Database layer only manages data access''])]]"

definition get_fallback_reasoning_scalability_reasoning :: json where
  "get_fallback_reasoning_scalability_reasoning =
     JObj
      [(''approach'', JStr ''Horizontal scaling with load balancing''),
       (''justification'', JStr ''Allows the system to handle increased load by adding more instances rather than upgrading hardware''),
       (''growth_scenarios'', JArr [JStr ''Increased user base'', JStr ''Higher transaction volume'']),
       (''bottleneck_analysis'', JArr [JStr ''Database connections'', JStr ''Memory usage'', JStr ''Network I/O''])]"

definition get_fallback_reasoning_security_reasoning :: json where
  "get_fallback_reasoning_security_reasoning =
     JObj
      [(''security_model'', JStr ''JWT-based authentication with role-based authorization''),
       (''threat_analysis'', JArr
          [JStr ''Unauthorized access'',
           JStr ''Data breaches'',
           JStr ''Session hijacking'']),
       (''mitigation_strategies'', JArr
          [JStr ''Token expiration'',
           JStr ''HTTPS encryption'',
           JStr ''Input validation'']),
       (''compliance_considerations'', JArr [JStr ''Data privacy'', JStr ''Access logging'', JStr ''Audit trails''])]"

definition get_fallback_reasoning_educational_insights :: json where
  "get_fallback_reasoning_educational_insights =
     JArr
      [JObj
        [(''topic'', JStr ''Layered Architecture Benefits''),
         (''explanation'', JStr ''Layered architecture provides clear separation between different concerns of the application''),
         (''why_important'', JStr ''Understanding this pattern is fundamental to building maintainable enterprise applications''),
         (''further_reading'', JArr
            [JStr ''Clean Architecture by Robert Martin'',
             JStr ''Patterns of Enterprise Application Architecture''])],
       JObj
        [(''topic'', JStr ''Database Selection Criteria''),
         (''explanation'', JStr ''Choosing the right database depends on data structure, consistency requirements, and scalability needs''),
         (''why_important'', JStr ''Database choice significantly impacts application performance and scalability''),
         (''further_reading'', JArr
            [JStr ''Designing Data-Intensive Applications'',
             JStr ''Database design fundamentals''])]]"

definition get_fallback_reasoning_implementation_guidance :: json where
  "get_fallback_reasoning_implementation_guidance =
     JObj
      [(''critical_path'', JArr
          [JStr ''Set up development environment'',
           JStr ''Implement core data models'',
           JStr ''Build API layer'',
           JStr ''Create frontend components'']),
       (''success_factors'', JArr
          [JStr ''Clear requirements'',
           JStr ''Good testing strategy'',
           JStr ''Regular code reviews'']),
       (''common_pitfalls'', JArr
          [JStr ''Over-engineering'',
           JStr ''Insufficient testing'',
           JStr ''Poor error handling'']),
       (''validation_checkpoints'', JArr
          [JStr ''Unit tests passing'',
           JStr ''Integration tests working'',
           JStr ''Performance benchmarks met''])]"

definition get_fallback_reasoning_decision_rationale :: json where
  "get_fallback_reasoning_decision_rationale =
     JObj
      [(''requirements_traceability'', JArr
          [JObj
            [(''requirement'', JStr ''User authentication and authorization''),
             (''addressed_by'', JArr [JStr ''Authentication Service'', JStr ''API Gateway'']),
             (''how'', JStr ''JWT tokens provide secure authentication with role-based access control'')]]),
       (''research_influence'', JArr
          [JObj
            [(''research_finding'', JStr ''Layered architecture pattern''),
             (''influence'', JStr ''Pattern selection based on team expertise and project complexity''),
             (''benefit'', JStr ''Reduced development time and improved maintainability'')]]),
       (''design_coherence'', JArr
          [JStr ''All components follow consistent design patterns'',
           JStr ''Technology choices complement each other'',
           JStr ''Architecture supports both current and future requirements''])]"

text \<open>The literal returned by \<^verbatim>\<open>WhyReasoningAgent._get_fallback_reasoning\<close>.\<close>

definition get_fallback_reasoning :: json where
  "get_fallback_reasoning =
     JObj
      [(''architectural_decisions'', get_fallback_reasoning_architectural_decisions),
       (''pattern_explanations'', get_fallback_reasoning_pattern_explanations),
       (''technology_justifications'', get_fallback_reasoning_technology_justifications),
       (''design_principles'', get_fallback_reasoning_design_principles),
       (''scalability_reasoning'', get_fallback_reasoning_scalability_reasoning),
       (''security_reasoning'', get_fallback_reasoning_security_reasoning),
       (''educational_insights'', get_fallback_reasoning_educational_insights),
       (''implementation_guidance'', get_fallback_reasoning_implementation_guidance),
       (''decision_rationale'', get_fallback_reasoning_decision_rationale),
       (''confidence_score'', JNum (17 / 20))]"


definition get_fallback_impact_executive_summary :: json where
  "get_fallback_impact_executive_summary =
     JObj
      [(''overall_impact'', JStr ''positive''),
       (''key_benefits'', JArr
          [JStr ''Improved system scalability and performance'',
           JStr ''Reduced long-term maintenance costs'',
           JStr ''Enhanced development team productivity'']),
       (''main_risks'', JArr
          [JStr ''Implementation complexity and timeline'',
           JStr ''Initial learning curve for team'',
           JStr ''Integration challenges with existing systems'']),
       (''recommendation'', JStr ''proceed'')]"

definition get_fallback_impact_financial_impact :: json where
  "get_fallback_impact_financial_impact =
     JObj
      [(''implementation_cost'', JObj
          [(''development'', JStr ''$50,000 - $150,000''),
           (''infrastructure'', JStr ''$10,000 - $30,000''),
           (''training'', JStr ''$5,000 - $15,000''),
           (''total_estimated'', JStr ''$65,000 - $195,000'')]),
       (''operational_cost'', JObj
          [(''annual_infrastructure'', JStr ''$12,000 - $36,000''),
           (''maintenance'', JStr ''$20,000 - $40,000''),
           (''support'', JStr ''$15,000 - $25,000'')]),
       (''cost_savings'', JArr
          [JObj
            [(''area'', JStr ''Reduced system downtime''),
             (''annual_savings'', JStr ''$25,000 - $50,000''),
             (''description'', JStr ''Improved reliability reduces business disruption'')],
           JObj
            [(''area'', JStr ''Development efficiency''),
             (''annual_savings'', JStr ''$30,000 - $60,000''),
             (''description'', JStr ''Faster development cycles and reduced debugging time'')]]),
       (''revenue_impact'', JArr
          [JObj
            [(''opportunity'', JStr ''Faster time-to-market for new features''),
             (''potential_value'', JStr ''$100,000 - $300,000''),
             (''timeframe'', JStr ''12-18 months'')]])]"

definition get_fallback_impact_operational_impact :: json where
  "get_fallback_impact_operational_impact =
     JObj
      [(''efficiency_gains'', JArr
          [JObj
            [(''process'', JStr ''Software development lifecycle''),
             (''improvement'', JStr ''25% faster development cycles''),
             (''quantification'', JStr ''Reduced time from concept to deployment'')],
           JObj
            [(''process'', JStr ''System maintenance and support''),
             (''improvement'', JStr ''40% reduction in maintenance overhead''),
             (''quantification'', JStr ''Fewer production issues and easier troubleshooting'')]]),
       (''resource_requirements'', JArr
          [JObj
            [(''resource_type'', JStr ''human''),
             (''requirement'', JStr ''2-3 developers for 3-6 months''),
             (''timeline'', JStr ''Implementation phase'')],
           JObj
            [(''resource_type'', JStr ''technical''),
             (''requirement'', JStr ''Cloud infrastructure and development tools''),
             (''timeline'', JStr ''Ongoing'')]]),
       (''workflow_changes'', JArr
          [JObj
            [(''area'', JStr ''Development process''),
             (''change'', JStr ''Adoption of new architecture patterns and tools''),
             (''impact'', JStr ''Initial learning curve, then improved productivity'')]])]"

definition get_fallback_impact_strategic_impact :: json where
  "get_fallback_impact_strategic_impact =
     JObj
      [(''competitive_advantages'', JArr
          [JObj
            [(''advantage'', JStr ''Faster feature delivery and innovation''),
             (''significance'', JStr ''high''),
             (''sustainability'', JStr ''Long-term with proper maintenance'')],
           JObj
            [(''advantage'', JStr ''Better scalability for business growth''),
             (''significance'', JStr ''medium''),
             (''sustainability'', JStr ''Supports multi-year growth plans'')]]),
       (''market_positioning'', JObj
          [(''current_position'', JStr ''Competitive but constrained by technical limitations''),
           (''target_position'', JStr ''Technology leader with superior product capabilities''),
           (''architecture_contribution'', JStr ''Enables rapid innovation and superior user experience'')]),
       (''innovation_enablement'', JArr
          [JObj
            [(''capability'', JStr ''Real-time data processing and analytics''),
             (''business_value'', JStr ''Better customer insights and personalization''),
             (''timeline'', JStr ''6-12 months post-implementation'')]])]"

definition get_fallback_impact_risk_analysis :: json where
  "get_fallback_impact_risk_analysis =
     JObj
      [(''technical_risks'', JArr
          [JObj
            [(''risk'', JStr ''Implementation complexity leading to delays''),
             (''probability'', JStr ''medium''),
             (''business_impact'', JStr ''Delayed time-to-market and increased costs''),
             (''mitigation'', JStr ''Phased implementation with regular checkpoints''),
             (''cost_of_mitigation'', JStr ''$10,000 - $20,000'')]]),
       (''business_risks'', JArr
          [JObj
            [(''risk'', JStr ''Team resistance to new technologies''),
             (''probability'', JStr ''low''),
             (''financial_impact'', JStr ''Reduced productivity during transition''),
             (''mitigation'', JStr ''Comprehensive training and change management'')]]),
       (''opportunity_costs'', JArr
          [JObj
            [(''alternative'', JStr ''Maintaining current architecture''),
             (''foregone_benefit'', JStr ''Continued technical debt and scaling limitations''),
             (''justification'', JStr ''New architecture provides better long-term value'')]])]"

definition get_fallback_impact_timeline_impact :: json where
  "get_fallback_impact_timeline_impact =
     JObj
      [(''time_to_market'', JStr ''3-6 months for initial implementation''),
       (''business_value_realization'', JArr
          [JObj
            [(''milestone'', JStr ''Core system deployment''),
             (''value_delivered'', JStr ''Improved system reliability and performance''),
             (''timeline'', JStr ''3-4 months'')],
           JObj
            [(''milestone'', JStr ''Full feature implementation''),
             (''value_delivered'', JStr ''Complete business value realization''),
             (''timeline'', JStr ''6-8 months'')]]),
       (''critical_path_items'', JArr
          [JStr ''Team training and onboarding'',
           JStr ''Core architecture implementation'',
           JStr ''Data migration and integration testing''])]"

definition get_fallback_impact_scalability_business_impact :: json where
  "get_fallback_impact_scalability_business_impact =
     JObj
      [(''growth_enablement'', JStr ''Architecture supports 10x growth in users and data volume''),
       (''scaling_costs'', JStr ''Linear cost scaling with usage, avoiding expensive rewrites''),
       (''revenue_scalability'', JStr ''Enables new revenue streams through better performance''),
       (''operational_scalability'', JStr ''Reduced operational overhead as system grows'')]"

definition get_fallback_impact_stakeholder_impact :: json where
  "get_fallback_impact_stakeholder_impact =
     JArr
      [JObj
        [(''stakeholder_group'', JStr ''Development team''),
         (''impact_type'', JStr ''positive''),
         (''specific_impacts'', JArr [JStr ''Improved productivity'', JStr ''Better development experience'']),
         (''required_actions'', JArr [JStr ''Training on new technologies'', JStr ''Process adaptation''])],
       JObj
        [(''stakeholder_group'', JStr ''Business users''),
         (''impact_type'', JStr ''positive''),
         (''specific_impacts'', JArr [JStr ''Better system performance'', JStr ''New feature capabilities'']),
         (''required_actions'', JArr [JStr ''User training on new features'', JStr ''Feedback collection''])]]"

definition get_fallback_impact_success_metrics :: json where
  "get_fallback_impact_success_metrics =
     JArr
      [JObj
        [(''metric'', JStr ''System uptime''),
         (''current_baseline'', JStr ''95%''),
         (''target_value'', JStr ''99.5%''),
         (''measurement_method'', JStr ''Automated monitoring and alerting'')],
       JObj
        [(''metric'', JStr ''Feature delivery time''),
         (''current_baseline'', JStr ''4-6 weeks''),
         (''target_value'', JStr ''2-3 weeks''),
         (''measurement_method'', JStr ''Development cycle tracking'')],
       JObj
        [(''metric'', JStr ''Customer satisfaction''),
         (''current_baseline'', JStr ''7.5/10''),
         (''target_value'', JStr ''8.5/10''),
         (''measurement_method'', JStr ''Regular customer surveys'')]]"

definition get_fallback_impact_roi_analysis :: json where
  "get_fallback_impact_roi_analysis =
     JObj
      [(''investment_summary'', JObj
          [(''total_investment'', JStr ''$65,000 - $195,000''),
           (''payback_period'', JStr ''12-18 months''),
           (''roi_percentage'', JStr ''20-30% annually'')]),
       (''value_drivers'', JArr
          [JStr ''Operational efficiency improvements'',
           JStr ''Reduced maintenance costs'',
           JStr ''Faster time-to-market for new features'',
           JStr ''Improved scalability reducing future costs''])]"

text \<open>The literal returned by \<^verbatim>\<open>BusinessImpactAgent._get_fallback_impact\<close>.\<close>

definition get_fallback_impact :: json where
  "get_fallback_impact =
     JObj
      [(''executive_summary'', get_fallback_impact_executive_summary),
       (''financial_impact'', get_fallback_impact_financial_impact),
       (''operational_impact'', get_fallback_impact_operational_impact),
       (''strategic_impact'', get_fallback_impact_strategic_impact),
       (''risk_analysis'', get_fallback_impact_risk_analysis),
       (''timeline_impact'', get_fallback_impact_timeline_impact),
       (''scalability_business_impact'', get_fallback_impact_scalability_business_impact),
       (''stakeholder_impact'', get_fallback_impact_stakeholder_impact),
       (''success_metrics'', get_fallback_impact_success_metrics),
       (''roi_analysis'', get_fallback_impact_roi_analysis),
       (''confidence_score'', JNum (4 / 5))]"


definition get_fallback_educational_content_key_concepts :: json where
  "get_fallback_educational_content_key_concepts =
     JArr
      [JObj
        [(''concept'', JStr ''Layered Architecture''),
         (''definition'', JStr ''An architectural pattern that organizes code into horizontal layers, each with specific responsibilities''),
         (''importance'', JStr ''Provides clear separation of concerns and makes applications easier to understand and maintain''),
         (''examples'', JArr
            [JStr ''Three-tier web applications'',
             JStr ''MVC pattern'',
             JStr ''Clean Architecture'']),
         (''common_mistakes'', JArr
            [JStr ''Tight coupling between layers'',
             JStr ''Business logic in presentation layer'']),
         (''best_practices'', JArr
            [JStr ''Keep layers loosely coupled'',
             JStr ''Define clear interfaces'',
             JStr ''Avoid circular dependencies''])],
       JObj
        [(''concept'', JStr ''API Design''),
         (''definition'', JStr ''The process of creating interfaces that allow different software components to communicate''),
         (''importance'', JStr ''Good API design enables system integration and provides a stable contract for clients''),
         (''examples'', JArr [JStr ''REST APIs'', JStr ''GraphQL'', JStr ''gRPC services'']),
         (''common_mistakes'', JArr
            [JStr ''Inconsistent naming'',
             JStr ''Poor error handling'',
             JStr ''Lack of versioning'']),
         (''best_practices'', JArr
            [JStr ''Use consistent naming conventions'',
             JStr ''Provide clear documentation'',
             JStr ''Implement proper error responses''])]]"

definition get_fallback_educational_content_pattern_explanations :: json where
  "get_fallback_educational_content_pattern_explanations =
     JArr
      [JObj
        [(''pattern'', JStr ''Model-View-Controller (MVC)''),
         (''explanation'', JStr ''Separates application logic into three interconnected components: Model (data), View (presentation), and Controller (business logic)''),
         (''when_to_use'', JStr ''Web applications, desktop applications, any system with user interface''),
         (''implementation_guide'', JStr ''1. Define models for data, 2. Create views for presentation, 3. Implement controllers for logic, 4. Connect components with clear interfaces''),
         (''code_examples'', JArr
            [JStr ''Express.js with MVC structure'',
             JStr ''Spring Boot MVC'',
             JStr ''Django MVT'']),
         (''variations'', JArr [JStr ''MVP (Model-View-Presenter)'', JStr ''MVVM (Model-View-ViewModel)''])]]"

definition get_fallback_educational_content_technology_deep_dives :: json where
  "get_fallback_educational_content_technology_deep_dives =
     JArr
      [JObj
        [(''technology'', JStr ''PostgreSQL''),
         (''overview'', JStr ''Advanced open-source relational database with strong ACID compliance and rich feature set''),
         (''strengths'', JArr
            [JStr ''ACID compliance'',
             JStr ''Advanced data types'',
             JStr ''Excellent performance'',
             JStr ''Strong community'']),
         (''limitations'', JArr
            [JStr ''Vertical scaling challenges'',
             JStr ''Complex configuration'',
             JStr ''Memory usage'']),
         (''learning_resources'', JArr
            [JStr ''PostgreSQL official documentation'',
             JStr ''PostgreSQL Tutorial'',
             JStr ''Database design courses'']),
         (''hands_on_exercises'', JArr
            [JStr ''Set up a PostgreSQL database'',
             JStr ''Design a normalized schema'',
             JStr ''Write complex queries''])],
       JObj
        [(''technology'', JStr ''React''),
         (''overview'', JStr ''JavaScript library for building user interfaces with component-based architecture''),
         (''strengths'', JArr
            [JStr ''Component reusability'',
             JStr ''Virtual DOM'',
             JStr ''Large ecosystem'',
             JStr ''Strong community'']),
         (''limitations'', JArr
            [JStr ''Learning curve'',
             JStr ''Rapid ecosystem changes'',
             JStr ''SEO challenges'']),
         (''learning_resources'', JArr
            [JStr ''React official documentation'',
             JStr ''React tutorials'',
             JStr ''Modern React courses'']),
         (''hands_on_exercises'', JArr
            [JStr ''Build a simple React app'',
             JStr ''Create reusable components'',
             JStr ''Implement state management''])]]"

definition get_fallback_educational_content_practical_exercises :: json where
  "get_fallback_educational_content_practical_exercises =
     JArr
      [JObj
        [(''exercise'', JStr ''Design a Simple E-commerce Architecture''),
         (''objective'', JStr ''Apply layered architecture principles to design a basic e-commerce system''),
         (''difficulty'', JStr ''intermediate''),
         (''instructions'', JStr ''1. Identify main components (user management, product catalog, orders), 2. Design database schema, 3. Define API endpoints, 4. Create component interaction diagram''),
         (''expected_outcome'', JStr ''Complete architecture diagram with clear component responsibilities''),
         (''validation_criteria'', JArr
            [JStr ''All major functions covered'',
             JStr ''Clear separation of concerns'',
             JStr ''Scalable design''])]]"

definition get_fallback_educational_content_learning_progression :: json where
  "get_fallback_educational_content_learning_progression =
     JObj
      [(''current_level_topics'', JArr
          [JStr ''Basic architecture patterns'',
           JStr ''Database design'',
           JStr ''API development'']),
       (''next_level_prerequisites'', JArr
          [JStr ''Understanding of design patterns'',
           JStr ''Experience with databases'',
           JStr ''API design knowledge'']),
       (''skill_development_path'', JArr
          [JStr ''Master fundamentals'',
           JStr ''Practice with real projects'',
           JStr ''Learn advanced patterns'',
           JStr ''Gain experience with scale'']),
       (''estimated_learning_time'', JStr ''3-4 weeks'')]"

definition get_fallback_educational_content_real_world_applications :: json where
  "get_fallback_educational_content_real_world_applications =
     JArr
      [JObj
        [(''scenario'', JStr ''E-commerce Platform Scaling''),
         (''architecture_application'', JStr ''Using microservices to handle different business domains (users, products, orders)''),
         (''case_study'', JStr (''Amazon'' @ [CHR 0x27] @ ''s evolution from monolith to microservices enabled massive scale and team autonomy'')),
         (''lessons_learned'', JArr
            [JStr ''Start simple, evolve complexity'',
             JStr ''Domain boundaries are crucial'',
             JStr ''Operational complexity increases''])]]"

definition get_fallback_educational_content_troubleshooting_guide :: json where
  "get_fallback_educational_content_troubleshooting_guide =
     JArr
      [JObj
        [(''problem'', JStr ''Database Performance Issues''),
         (''symptoms'', JArr
            [JStr ''Slow query responses'',
             JStr ''High CPU usage'',
             JStr ''Connection timeouts'']),
         (''root_causes'', JArr
            [JStr ''Missing indexes'',
             JStr ''Inefficient queries'',
             JStr ''Connection pool exhaustion'']),
         (''solutions'', JArr
            [JStr ''Add appropriate indexes'',
             JStr ''Optimize query structure'',
             JStr ''Tune connection pool settings'']),
         (''prevention'', JStr ''Regular performance monitoring and query analysis'')]]"

definition get_fallback_educational_content_further_learning :: json where
  "get_fallback_educational_content_further_learning =
     JObj
      [(''recommended_books'', JArr
          [JStr ''Clean Architecture by Robert Martin'',
           JStr ''Designing Data-Intensive Applications by Martin Kleppmann'',
           JStr ''Building Microservices by Sam Newman'']),
       (''online_courses'', JArr
          [JStr ''System Design Interview courses'',
           JStr ''Database design fundamentals'',
           JStr ''Cloud architecture patterns'']),
       (''documentation'', JArr
          [JStr ''AWS Architecture Center'',
           JStr ''Google Cloud Architecture Framework'',
           JStr ''Microsoft Azure Architecture Center'']),
       (''communities'', JArr
          [JStr ''Stack Overflow'',
           JStr ''Reddit r/softwarearchitecture'',
           JStr ''Architecture decision records community''])]"

definition get_fallback_educational_content_assessment_questions :: json where
  "get_fallback_educational_content_assessment_questions =
     JArr
      [JObj
        [(''question'', JStr ''What are the main benefits of using a layered architecture pattern?''),
         (''type'', JStr ''open_ended''),
         (''difficulty'', JStr ''beginner''),
         (''correct_answer'', JStr ''Separation of concerns, maintainability, testability, clear structure''),
         (''explanation'', JStr ''Layered architecture provides clear separation between different aspects of the application, making it easier to understand, maintain, and test'')],
       JObj
        [(''question'', JStr ''When would you choose PostgreSQL over MongoDB for a new project?''),
         (''type'', JStr ''open_ended''),
         (''difficulty'', JStr ''intermediate''),
         (''correct_answer'', JStr ''When you need ACID compliance, complex relationships, or strong consistency''),
         (''explanation'', JStr ''PostgreSQL is better for applications requiring strong consistency, complex queries, and relational data structures'')]]"

definition get_fallback_educational_content_learning_path :: json where
  "get_fallback_educational_content_learning_path =
     JObj
      [(''current_session_focus'', JArr
          [JStr ''Understanding basic architecture concepts'',
           JStr ''Learning about layered architecture'',
           JStr ''Introduction to databases and APIs'']),
       (''next_steps'', JArr
          [JStr ''Practice with simple web application architecture'',
           JStr ''Learn about REST API design'',
           JStr ''Understand database relationships'']),
       (''long_term_goals'', JArr
          [JStr ''Master fundamental design patterns'',
           JStr ''Build confidence with common technologies'',
           JStr ''Understand system integration basics'']),
       (''estimated_completion_time'', JStr ''3-4 weeks'')]"

text \<open>The literal returned by \<^verbatim>\<open>EducationalAgent._get_fallback_educational_content\<close>.\<close>

definition get_fallback_educational_content :: json where
  "get_fallback_educational_content =
     JObj
      [(''key_concepts'', get_fallback_educational_content_key_concepts),
       (''pattern_explanations'', get_fallback_educational_content_pattern_explanations),
       (''technology_deep_dives'', get_fallback_educational_content_technology_deep_dives),
       (''practical_exercises'', get_fallback_educational_content_practical_exercises),
       (''learning_progression'', get_fallback_educational_content_learning_progression),
       (''real_world_applications'', get_fallback_educational_content_real_world_applications),
       (''troubleshooting_guide'', get_fallback_educational_content_troubleshooting_guide),
       (''further_learning'', get_fallback_educational_content_further_learning),
       (''assessment_questions'', get_fallback_educational_content_assessment_questions),
       (''learning_path'', get_fallback_educational_content_learning_path),
       (''confidence_score'', JNum (17 / 20))]"


definition get_fallback_documentation_document_metadata :: json where
  "get_fallback_documentation_document_metadata =
     JObj
      [(''title'', JStr ''Architecture Design Document''),
       (''version'', JStr ''1.0''),
       (''created_date'', JStr ''2024-01-01''),
       (''authors'', JArr [JStr ''Agentic Architect Platform'']),
       (''document_type'', JStr ''Architecture Design Document''),
       (''classification'', JStr ''Internal'')]"

definition get_fallback_documentation_executive_summary :: json where
  "get_fallback_documentation_executive_summary =
     JObj
      [(''overview'', JStr ''This document outlines the proposed architecture for a scalable, maintainable system that addresses current business requirements while providing a foundation for future growth.''),
       (''key_benefits'', JArr
          [JStr ''Improved system scalability and performance'',
           JStr ''Enhanced maintainability and development productivity'',
           JStr ''Reduced operational costs and complexity'',
           JStr ''Better security and compliance posture'']),
       (''investment_required'', JStr ''Initial investment of $65,000 - $195,000 with ongoing operational costs''),
       (''timeline'', JStr ''3-6 months for initial implementation, with full benefits realized within 12 months''),
       (''success_metrics'', JArr
          [JStr ''99.5% system uptime'',
           JStr ''25% faster feature delivery'',
           JStr ''40% reduction in maintenance overhead'']),
       (''recommendation'', JStr ''Proceed with implementation as outlined in this document'')]"

definition get_fallback_documentation_sections :: json where
  "get_fallback_documentation_sections =
     JArr
      [JObj
        [(''section_id'', JStr ''introduction''),
         (''title'', JStr ''Introduction''),
         (''content'', JStr ''This architecture design document provides a comprehensive overview of the proposed system architecture, including technical specifications, implementation guidance, and operational procedures.''),
         (''subsections'', JArr
            [JObj
              [(''title'', JStr ''Purpose''),
               (''content'', JStr ''Define the architecture for a scalable, maintainable system that meets current and future business needs.'')],
             JObj
              [(''title'', JStr ''Scope''),
               (''content'', JStr ''This document covers the complete system architecture including frontend, backend, database, and infrastructure components.'')]]),
         (''diagrams'', JArr [JStr ''system_overview_diagram'']),
         (''code_examples'', JArr [])],
       JObj
        [(''section_id'', JStr ''architecture_overview''),
         (''title'', JStr ''Architecture Overview''),
         (''content'', JStr ''The proposed architecture follows a layered pattern with clear separation of concerns, providing a solid foundation for scalable application development.''),
         (''subsections'', JArr
            [JObj
              [(''title'', JStr ''Architecture Pattern''),
               (''content'', JStr ''Layered architecture with presentation, business logic, and data access layers.'')],
             JObj
              [(''title'', JStr ''Key Components''),
               (''content'', JStr ''Frontend application, API gateway, backend services, and database layer.'')]]),
         (''diagrams'', JArr [JStr ''architecture_diagram'', JStr ''component_diagram'']),
         (''code_examples'', JArr [JStr ''api_example'', JStr ''database_schema''])]]"

definition get_fallback_documentation_technical_specifications :: json where
  "get_fallback_documentation_technical_specifications =
     JObj
      [(''architecture_overview'', JStr ''Layered architecture with React frontend, Node.js backend, and PostgreSQL database''),
       (''component_specifications'', JArr
          [JObj
            [(''component'', JStr ''Frontend Application''),
             (''description'', JStr ''React-based user interface with responsive design''),
             (''interfaces'', JArr [JStr ''REST API'', JStr ''WebSocket'']),
             (''dependencies'', JArr [JStr ''API Gateway'', JStr ''Authentication Service'']),
             (''configuration'', JStr ''Environment-specific configuration files'')],
           JObj
            [(''component'', JStr ''Backend Service''),
             (''description'', JStr ''Node.js application with Express framework''),
             (''interfaces'', JArr [JStr ''REST API'', JStr ''Database Connection'']),
             (''dependencies'', JArr [JStr ''Database'', JStr ''External APIs'']),
             (''configuration'', JStr ''Environment variables and configuration files'')]]),
       (''data_models'', JArr
          [JObj
            [(''model'', JStr ''User''),
             (''description'', JStr ''User account and profile information''),
             (''fields'', JArr [JStr ''id'', JStr ''email'', JStr ''name'', JStr ''created_at'']),
             (''relationships'', JArr [JStr ''has_many conversations''])]]),
       (''api_specifications'', JArr
          [JObj
            [(''endpoint'', JStr ''/api/users''),
             (''method'', JStr ''GET''),
             (''description'', JStr ''Retrieve user information''),
             (''parameters'', JArr [JStr ''user_id'']),
             (''responses'', JArr [JStr ''200 OK'', JStr ''404 Not Found''])]])]"

definition get_fallback_documentation_implementation_guide :: json where
  "get_fallback_documentation_implementation_guide =
     JObj
      [(''prerequisites'', JArr
          [JStr ''Node.js 18+ installed'',
           JStr ''PostgreSQL 13+ database'',
           JStr ''Git version control'',
           JStr ''Development environment setup'']),
       (''setup_instructions'', JArr
          [JStr ''Clone the repository'',
           JStr ''Install dependencies with npm install'',
           JStr ''Configure environment variables'',
           JStr ''Run database migrations'',
           JStr ''Start the development server'']),
       (''configuration_guide'', JStr ''Configure environment variables for database connection, API keys, and application settings''),
       (''deployment_steps'', JArr
          [JStr ''Build production assets'',
           JStr ''Deploy to staging environment'',
           JStr ''Run integration tests'',
           JStr ''Deploy to production'',
           JStr ''Monitor deployment'']),
       (''testing_strategy'', JStr ''Unit tests, integration tests, and end-to-end testing with automated CI/CD pipeline''),
       (''rollback_procedures'', JStr ''Automated rollback using deployment scripts and database migration rollbacks'')]"

definition get_fallback_documentation_operational_guide :: json where
  "get_fallback_documentation_operational_guide =
     JObj
      [(''monitoring_setup'', JStr ''Application performance monitoring with logging and alerting''),
       (''logging_strategy'', JStr ''Centralized logging with structured log format and log aggregation''),
       (''backup_procedures'', JStr ''Automated daily database backups with point-in-time recovery''),
       (''security_considerations'', JArr
          [JStr ''HTTPS encryption for all communications'',
           JStr ''JWT token-based authentication'',
           JStr ''Input validation and sanitization'',
           JStr ''Regular security updates'']),
       (''performance_tuning'', JStr ''Database query optimization, caching strategies, and load balancing''),
       (''troubleshooting'', JArr
          [JObj
            [(''issue'', JStr ''Application slow response times''),
             (''symptoms'', JArr [JStr ''High response times'', JStr ''User complaints'']),
             (''resolution'', JStr ''Check database performance, review slow queries, optimize caching'')]])]"

definition get_fallback_documentation_decision_log :: json where
  "get_fallback_documentation_decision_log =
     JArr
      [JObj
        [(''decision'', JStr ''Use React for frontend framework''),
         (''date'', JStr ''2024-01-01''),
         (''rationale'', JStr ''Team expertise, large ecosystem, component reusability''),
         (''alternatives'', JArr [JStr ''Vue.js'', JStr ''Angular'']),
         (''impact'', JStr ''Faster development, better maintainability''),
         (''status'', JStr ''approved'')],
       JObj
        [(''decision'', JStr ''Use PostgreSQL for primary database''),
         (''date'', JStr ''2024-01-01''),
         (''rationale'', JStr ''ACID compliance, advanced features, performance''),
         (''alternatives'', JArr [JStr ''MySQL'', JStr ''MongoDB'']),
         (''impact'', JStr ''Better data consistency, advanced query capabilities''),
         (''status'', JStr ''approved'')]]"

definition get_fallback_documentation_appendices :: json where
  "get_fallback_documentation_appendices =
     JObj
      [(''glossary'', JArr
          [JObj
            [(''term'', JStr ''API''),
             (''definition'', JStr ''Application Programming Interface - a set of protocols and tools for building software applications'')],
           JObj
            [(''term'', JStr ''REST''),
             (''definition'', JStr ''Representational State Transfer - an architectural style for designing networked applications'')]]),
       (''references'', JArr
          [JStr ''Clean Architecture by Robert Martin'',
           JStr ''Designing Data-Intensive Applications by Martin Kleppmann'',
           JStr ''React Documentation - https://reactjs.org/docs/'',
           JStr ''PostgreSQL Documentation - https://www.postgresql.org/docs/'']),
       (''change_log'', JArr
          [JObj
            [(''version'', JStr ''1.0''),
             (''date'', JStr ''2024-01-01''),
             (''changes'', JArr
                [JStr ''Initial document creation'',
                 JStr ''Architecture design completed''])]])]"

definition get_fallback_documentation_export_formats :: json where
  "get_fallback_documentation_export_formats =
     JObj
      [(''markdown'', JStr (''# Architecture Design Document'' @ [CHR 0x0A] @ [CHR 0x0A] @ ''## Executive Summary'' @ [CHR 0x0A] @ [CHR 0x0A] @ ''This document outlines the proposed architecture...'')),
       (''pdf_ready'', JObj
          [(''title_page'', JObj
              [(''title'', JStr ''Architecture Design Document''),
               (''subtitle'', JStr ''Comprehensive Architecture Documentation''),
               (''version'', JStr ''1.0''),
               (''date'', JStr ''2024-01-01'')])])]"

text \<open>The literal returned by \<^verbatim>\<open>DocumentationAgent._get_fallback_documentation\<close>.\<close>

definition get_fallback_documentation :: json where
  "get_fallback_documentation =
     JObj
      [(''document_metadata'', get_fallback_documentation_document_metadata),
       (''executive_summary'', get_fallback_documentation_executive_summary),
       (''sections'', get_fallback_documentation_sections),
       (''technical_specifications'', get_fallback_documentation_technical_specifications),
       (''implementation_guide'', get_fallback_documentation_implementation_guide),
       (''operational_guide'', get_fallback_documentation_operational_guide),
       (''decision_log'', get_fallback_documentation_decision_log),
       (''appendices'', get_fallback_documentation_appendices),
       (''export_formats'', get_fallback_documentation_export_formats),
       (''confidence_score'', JNum (9 / 10))]"

section \<open>The workflow state\<close>

datatype expertise_level = BEGINNER | INTERMEDIATE | ADVANCED | EXPERT

record business_context =
  industry :: "string option"
  company_size :: "string option"
  budget_range :: "string option"
  timeline :: "string option"
  compliance_requirements :: "string list"
  existing_technologies :: "string list"

record user_profile =
  profile_id :: string
  email :: string
  expertise :: expertise_level
  business_role :: "string option"

text \<open>
  \<^verbatim>\<open>WorkflowState\<close>. The eight output slots and \<^verbatim>\<open>research_findings\<close> are declared
  \<^verbatim>\<open>Dict[str, Any]\<close>; assignments are not validated, so a slot holds whatever value
  the workflow stores. A history entry is a \<^verbatim>\<open>Dict[str, Any]\<close>.
\<close>

record workflow_state =
  conversation_id :: string
  user_query :: string
  profile :: user_profile
  state_business_context :: "business_context option"
  orchestrator_plan :: json
  requirements_analysis :: json
  research_findings :: json
  research_data :: json
  architecture_design :: json
  why_reasoning :: json
  business_impact :: json
  educational_content :: json
  documentation :: json
  current_step :: string
  completed_steps :: "string list"
  conversation_history :: "(string \<times> json) list list"

section \<open>External collaborators\<close>

text \<open>
  What the agents call and this development does not define: the completion client, the
  search client, \<^verbatim>\<open>json.loads\<close>, Python's rendering of values in formatted strings,
  \<^verbatim>\<open>str.lower\<close>, and the helpers of the repository that only format text or decorate a
  parsed result. Each is a field of a record over which every theorem is universally
  quantified; a helper that can raise returns a result.

  \<^item> \<^verbatim>\<open>groq_query site prompt system\<close> is \<^verbatim>\<open>GroqService.query\<close>; the call site tells
    the calls of one run apart.
  \<^item> \<^verbatim>\<open>task_prompt agent state\<close> is what an agent does between reading the state and
    sending its prompt (\<^verbatim>\<open>_build_orchestration_prompt\<close>, \<^verbatim>\<open>_build_requirements_prompt\<close>,
    \<^verbatim>\<open>_build_research_prompt\<close>, \<^verbatim>\<open>_analyze_system_complexity\<close> followed by
    \<^verbatim>\<open>_build_architecture_prompt_with_analysis\<close>, and so on): it yields the prompt text or
    raises, and every call of it stands inside the agent's \<^verbatim>\<open>try\<close> block.
  \<^item> \<^verbatim>\<open>py_str\<close> renders a value that is not a string inside a formatted string.
\<close>

record services =
  groq_query :: "string \<Rightarrow> string \<Rightarrow> string \<Rightarrow> string result"
  tavily_search :: "json \<Rightarrow> json result"
  json_loads :: "string \<Rightarrow> json result"
  task_prompt :: "string \<Rightarrow> workflow_state \<Rightarrow> string result"
  system_prompt :: "string \<Rightarrow> string"
  py_str :: "json \<Rightarrow> string"
  str_expertise :: "expertise_level \<Rightarrow> string"
  str_business_context :: "business_context \<Rightarrow> string"
  str_lower :: "string \<Rightarrow> string"
  str_error :: "py_error \<Rightarrow> string"
  generate_visualization_data :: "json \<Rightarrow> json result"
  generate_decision_rationale :: "workflow_state \<Rightarrow> json result"
  calculate_roi_estimates :: "json \<Rightarrow> workflow_state \<Rightarrow> json result"
  generate_learning_path :: "workflow_state \<Rightarrow> json result"
  generate_export_formats :: "json \<Rightarrow> workflow_state \<Rightarrow> json result"
  generate_comprehensive_content :: "workflow_state \<Rightarrow> string result"

text \<open>A value inside a formatted string: a string stands for itself.\<close>

definition fmt :: "services \<Rightarrow> json \<Rightarrow> string" where
  "fmt sv v = (case v of JStr s \<Rightarrow> s | _ \<Rightarrow> py_str sv v)"

section \<open>The base agent\<close>

text \<open>
  The truncation of \<^verbatim>\<open>_build_context_prompt\<close>:
  \<^verbatim>\<open>if len(content) > 300: content = content[:300] + "..."\<close>. A list or a dict of more
  than 300 entries cannot be joined with a string, and a value without a length raises
  at \<^verbatim>\<open>len\<close>.
\<close>

fun truncate_content :: "json \<Rightarrow> json result" where
  "truncate_content (JStr s) =
     Inr (if 300 < length s then JStr (py_slice s None (Some 300) @ ''...'') else JStr s)"
| "truncate_content (JArr xs) = (if 300 < length xs then Inl TypeError else Inr (JArr xs))"
| "truncate_content (JObj kvs) = (if 300 < length kvs then Inl TypeError else Inr (JObj kvs))"
| "truncate_content _ = Inl TypeError"

text \<open>
  The loop \<^verbatim>\<open>for msg in recent_messages\<close>: one line is appended to
  \<^verbatim>\<open>context_parts\<close> for each message.
\<close>

fun render_messages ::
  "services \<Rightarrow> (string \<times> json) list list \<Rightarrow> string list \<Rightarrow> string list result" where
  "render_messages sv [] context_parts = Inr context_parts"
| "render_messages sv (msg # rest) context_parts =
     (let role = dict_get msg ''role'' (JStr ''unknown'');
          content = dict_get msg ''content'' (JStr []);
          message_type = dict_get msg ''messageType'' (JStr [])
      in case truncate_content content of
           Inl e \<Rightarrow> Inl e
         | Inr content' \<Rightarrow>
             if message_type = JStr ''ARCHITECTURE_UPDATE''
             then render_messages sv rest
                    (context_parts @
                     [''- '' @ fmt sv role @ '': [ARCHITECTURE UPDATE] '' @ fmt sv content'])
             else render_messages sv rest
                    (context_parts @ [''- '' @ fmt sv role @ '': '' @ fmt sv content']))"

definition history_note :: string where
  "history_note =
     ''NOTE: Build upon and enhance previous architectural decisions rather than replacing them completely.''"

definition history_header :: string where
  "history_header = [CHR 0x0A] @ ''PREVIOUS CONVERSATION CONTEXT:''"

definition enhance_note :: string where
  "enhance_note =
     ''IMPORTANT: Enhance and extend the existing architecture, don'' @ [CHR 0x27] @
     ''t create a completely new one.''"

text \<open>\<^verbatim>\<open>context_parts\<close> as \<^verbatim>\<open>_build_context_prompt\<close> has it before the final join.\<close>

definition build_context_parts :: "services \<Rightarrow> workflow_state \<Rightarrow> string list result" where
  "build_context_parts sv state =
     (let parts0 = [''User Query: '' @ user_query state,
                    ''User Expertise: '' @ str_expertise sv (expertise (profile state))];
          parts1 = (case business_role (profile state) of
                      None \<Rightarrow> parts0
                    | Some role \<Rightarrow>
                        if role \<noteq> [] then parts0 @ [''Business Role: '' @ role] else parts0);
          parts2 = (case state_business_context state of
                      None \<Rightarrow> parts1
                    | Some bc \<Rightarrow> parts1 @ [''Business Context: '' @ str_business_context sv bc])
      in bind_result
           (if conversation_history state \<noteq> [] then
              (let recent_messages =
                     (if 6 < length (conversation_history state)
                      then py_slice (conversation_history state) (Some (- 6)) None
                      else conversation_history state)
               in bind_result (render_messages sv recent_messages (parts2 @ [history_header]))
                    (\<lambda>parts. Inr (parts @ [history_note])))
            else Inr parts2)
           (\<lambda>parts3.
              let parts4 = (if truthy (requirements_analysis state)
                            then parts3 @ [''Requirements: '' @ fmt sv (requirements_analysis state)]
                            else parts3);
                  parts5 = (if truthy (research_findings state)
                            then parts4 @ [''Research: '' @ fmt sv (research_findings state)]
                            else parts4);
                  parts6 = (if truthy (architecture_design state)
                            then parts5 @
                                 [''EXISTING ARCHITECTURE: '' @ fmt sv (architecture_design state),
                                  enhance_note]
                            else parts5)
              in Inr parts6))"

definition build_context_prompt :: "services \<Rightarrow> string \<Rightarrow> workflow_state \<Rightarrow> string result" where
  "build_context_prompt sv prompt state =
     bind_result (build_context_parts sv state)
       (\<lambda>context_parts.
          Inr (py_join [CHR 0x0A] context_parts @ [CHR 0x0A, CHR 0x0A] @ ''Current Task: '' @ prompt))"

text \<open>
  \<^verbatim>\<open>query_groq_with_context\<close>: an exception of the prompt construction or of the
  completion client is logged and raised again.
\<close>

definition query_groq_with_context ::
  "services \<Rightarrow> string \<Rightarrow> string \<Rightarrow> workflow_state \<Rightarrow> string result" where
  "query_groq_with_context sv name prompt state =
     (case bind_result (build_context_prompt sv prompt state)
             (\<lambda>context_prompt. groq_query sv name context_prompt (system_prompt sv name)) of
        Inr response \<Rightarrow> Inr response
      | Inl e \<Rightarrow> Inl e)"

section \<open>Operations on values of unknown shape\<close>

text \<open>
  A parsed completion can hold any value under any key. The operations the agents and
  the workflow apply to such values, with the exception Python raises when the value
  does not support the operation.
\<close>

text \<open>Iteration (\<^verbatim>\<open>for x in v\<close>, \<^verbatim>\<open>list.extend(v)\<close>): a string yields its characters, a dict its keys.\<close>

fun py_iter :: "json \<Rightarrow> json list result" where
  "py_iter (JArr xs) = Inr xs"
| "py_iter (JStr s) = Inr (map (\<lambda>c. JStr [c]) s)"
| "py_iter (JObj kvs) = Inr (map (\<lambda>kv. JStr (fst kv)) kvs)"
| "py_iter _ = Inl TypeError"

text \<open>\<^verbatim>\<open>v[:n]\<close>: lists and strings can be sliced.\<close>

fun py_take :: "nat \<Rightarrow> json \<Rightarrow> json result" where
  "py_take n (JArr xs) = Inr (JArr (py_slice xs None (Some (int n))))"
| "py_take n (JStr s) = Inr (JStr (py_slice s None (Some (int n))))"
| "py_take n _ = Inl TypeError"

text \<open>\<^verbatim>\<open>k in v\<close> for a string \<^verbatim>\<open>k\<close>.\<close>

fun py_contains :: "string \<Rightarrow> json \<Rightarrow> bool result" where
  "py_contains k (JArr xs) = Inr (JStr k \<in> set xs)"
| "py_contains k (JStr s) = Inr (py_in k s)"
| "py_contains k (JObj kvs) = Inr (k \<in> set (map fst kvs))"
| "py_contains k _ = Inl TypeError"

text \<open>\<^verbatim>\<open>len(d.get(k, []))\<close>, as the log calls and the step summaries compute it.\<close>

definition len_of_key :: "json \<Rightarrow> string \<Rightarrow> nat result" where
  "len_of_key d k = bind_result (py_get d k (JArr [])) py_len"

text \<open>
  The shared shape of \<^verbatim>\<open>_parse_research_response\<close>, \<^verbatim>\<open>_parse_reasoning_response\<close>,
  \<^verbatim>\<open>_parse_impact_response\<close>, \<^verbatim>\<open>_parse_educational_response\<close> and
  \<^verbatim>\<open>_parse_documentation_response\<close>: extract, deserialize, set the defaults; any
  exception gives the agent's fallback.
\<close>

definition parse_try :: "services \<Rightarrow> (string \<times> json) list \<Rightarrow> string \<Rightarrow> json result" where
  "parse_try sv defaults response =
     bind_result (extract_json_str response)
       (\<lambda>json_str. bind_result (json_loads sv json_str) (py_setdefaults defaults))"

definition parse_or_fallback ::
  "services \<Rightarrow> (string \<times> json) list \<Rightarrow> json \<Rightarrow> string \<Rightarrow> json" where
  "parse_or_fallback sv defaults fallback response =
     (case parse_try sv defaults response of Inr data \<Rightarrow> data | Inl e \<Rightarrow> fallback)"

section \<open>The orchestrator agent\<close>

text \<open>
  The two guards of \<^verbatim>\<open>_validate_orchestration_plan\<close>:
  \<^verbatim>\<open>if name not in plan["agents_required"]: plan["agents_required"].append(name)\<close>.
  Only a list has \<^verbatim>\<open>append\<close>.
\<close>

fun ensure_agent :: "string \<Rightarrow> json \<Rightarrow> json result" where
  "ensure_agent name (JArr xs) =
     Inr (if JStr name \<in> set xs then JArr xs else JArr (xs @ [JStr name]))"
| "ensure_agent name v =
     bind_result (py_contains name v)
       (\<lambda>present. if present then Inr v else Inl AttributeError)"

definition orchestration_defaults :: "(string \<times> json) list" where
  "orchestration_defaults =
     [(''workflow_type'', JStr ''SEQUENTIAL''),
      (''agents_required'',
         JArr [JStr ''requirements'', JStr ''research'', JStr ''architecture'',
               JStr ''why_reasoning'', JStr ''business_impact'', JStr ''educational'']),
      (''estimated_duration_minutes'', JNum 15),
      (''complexity_score'', JNum 3)]"

definition valid_workflows :: "json list" where
  "valid_workflows = [JStr ''SEQUENTIAL'', JStr ''PARALLEL'', JStr ''CONDITIONAL'', JStr ''ITERATIVE'']"

definition validate_orchestration_plan :: "json \<Rightarrow> json result" where
  "validate_orchestration_plan plan =
     bind_result (py_setdefaults orchestration_defaults plan) (\<lambda>plan1.
       case plan1 of
         JObj kvs \<Rightarrow>
           bind_result (ensure_agent ''why_reasoning'' (dict_get kvs ''agents_required'' JNull))
             (\<lambda>required1.
                bind_result (ensure_agent ''business_impact'' required1)
                  (\<lambda>required2.
                     let kvs2 = dict_set ''agents_required'' required2 kvs
                     in if dict_get kvs2 ''workflow_type'' JNull \<notin> set valid_workflows
                        then Inr (JObj (dict_set ''workflow_type'' (JStr ''SEQUENTIAL'') kvs2))
                        else Inr (JObj kvs2)))
       | _ \<Rightarrow> Inl AttributeError)"

definition agent_keywords :: "(string \<times> string list) list" where
  "agent_keywords =
     [(''requirements'', [''requirements'', ''requirement'']),
      (''research'', [''research'', ''search'']),
      (''architecture'', [''architecture'', ''design'']),
      (''why_reasoning'', [''why'', ''reasoning'', ''decision'']),
      (''business_impact'', [''business'', ''roi'', ''impact'']),
      (''educational'', [''educational'', ''learning'', ''teaching'']),
      (''documentation'', [''documentation'', ''document''])]"

definition extract_plan_from_text :: "services \<Rightarrow> string \<Rightarrow> json" where
  "extract_plan_from_text sv response =
     (let response_lower = str_lower sv response;
          workflow_type =
            (if py_in ''parallel'' response_lower then ''PARALLEL''
             else if py_in ''conditional'' response_lower then ''CONDITIONAL''
             else if py_in ''iterative'' response_lower then ''ITERATIVE''
             else ''SEQUENTIAL'');
          mentioned =
            map (\<lambda>(agent, keywords). JStr agent)
              (filter (\<lambda>(agent, keywords). \<exists>keyword \<in> set keywords. py_in keyword response_lower)
                 agent_keywords);
          agents_required =
            (if mentioned = []
             then [JStr ''requirements'', JStr ''architecture'', JStr ''why_reasoning'',
                   JStr ''business_impact'']
             else mentioned)
      in JObj [(''workflow_type'', JStr workflow_type),
               (''agents_required'', JArr agents_required),
               (''estimated_duration_minutes'', JNum 15),
               (''complexity_score'', JNum 3),
               (''justification'', JStr ''Extracted from text analysis'')])"

definition parse_orchestration_response :: "services \<Rightarrow> string \<Rightarrow> json" where
  "parse_orchestration_response sv response =
     (case (case brace_match response of
              Some json_match \<Rightarrow>
                bind_result (json_loads sv json_match) validate_orchestration_plan
            | None \<Rightarrow> Inr (extract_plan_from_text sv response)) of
        Inr plan \<Rightarrow> plan
      | Inl e \<Rightarrow> get_default_plan)"

text \<open>
  \<^verbatim>\<open>OrchestratorAgent.process\<close>. The length taken for the log line is part of the
  \<^verbatim>\<open>try\<close> block.
\<close>

definition orchestrator_process :: "services \<Rightarrow> workflow_state \<Rightarrow> json" where
  "orchestrator_process sv state =
     (case bind_result (task_prompt sv ''orchestrator'' state) (\<lambda>orchestration_prompt.
             bind_result (query_groq_with_context sv ''orchestrator'' orchestration_prompt state)
               (\<lambda>response.
                  let plan = parse_orchestration_response sv response
                  in bind_result (len_of_key plan ''agents_required'')
                       (\<lambda>n. Inr (JObj [(''orchestrator_plan'', plan)])))) of
        Inr result \<Rightarrow> result
      | Inl e \<Rightarrow> JObj [(''orchestrator_plan'', get_fallback_plan)])"

section \<open>The requirements agent\<close>

definition requirements_defaults :: "(string \<times> json) list" where
  "requirements_defaults =
     [(''functional_requirements'', JArr []),
      (''non_functional_requirements'', JArr []),
      (''business_requirements'', JArr []),
      (''constraints'', JArr []),
      (''risks'', JArr []),
      (''clarification_questions'', JArr []),
      (''priority_matrix'', JObj [])]"

text \<open>\<^verbatim>\<open>if not isinstance(analysis[k], list): analysis[k] = []\<close>.\<close>

definition force_list :: "string \<Rightarrow> (string \<times> json) list \<Rightarrow> (string \<times> json) list" where
  "force_list k kvs =
     (case dict_get kvs k JNull of JArr xs \<Rightarrow> kvs | _ \<Rightarrow> dict_set k (JArr []) kvs)"

definition validate_requirements_analysis :: "json \<Rightarrow> json result" where
  "validate_requirements_analysis analysis =
     bind_result (py_setdefaults requirements_defaults analysis) (\<lambda>analysis1.
       case analysis1 of
         JObj kvs \<Rightarrow>
           Inr (JObj (force_list ''non_functional_requirements''
                        (force_list ''functional_requirements'' kvs)))
       | _ \<Rightarrow> Inl AttributeError)"

text \<open>\<^verbatim>\<open>response.split('\n')\<close>.\<close>

fun split_lines :: "string \<Rightarrow> string list" where
  "split_lines [] = [[]]"
| "split_lines (c # cs) =
     (if c = CHR 0x0A then [] # split_lines cs
      else (case split_lines cs of
              [] \<Rightarrow> [[c]]
            | l # ls \<Rightarrow> (c # l) # ls))"

text \<open>
  The line loop of \<^verbatim>\<open>_extract_requirements_from_text\<close>. The loop state is the current
  section and the four lists.
\<close>

record text_scan =
  current_section :: "string option"
  functional_reqs :: "json list"
  non_functional_reqs :: "json list"
  business_reqs :: "json list"
  questions :: "json list"

definition scan_line :: "services \<Rightarrow> text_scan \<Rightarrow> string \<Rightarrow> text_scan" where
  "scan_line sv st raw =
     (let line = py_strip raw in
      if line = [] then st
      else
        (let line_lower = str_lower sv line in
         if py_in ''functional'' line_lower \<and> py_in ''requirement'' line_lower
           then st\<lparr>current_section := Some ''functional''\<rparr>
         else if py_in ''non-functional'' line_lower \<or> py_in ''performance'' line_lower
           then st\<lparr>current_section := Some ''non_functional''\<rparr>
         else if py_in ''business'' line_lower \<and> py_in ''requirement'' line_lower
           then st\<lparr>current_section := Some ''business''\<rparr>
         else if py_in ''question'' line_lower \<or> py_in ''clarification'' line_lower
           then st\<lparr>current_section := Some ''questions''\<rparr>
         else if starts_with line ''- '' \<or> starts_with line ''* '' then
           (let requirement = JStr (py_strip (py_slice line (Some 2) None)) in
            if current_section st = Some ''functional''
              then st\<lparr>functional_reqs := functional_reqs st @ [requirement]\<rparr>
            else if current_section st = Some ''non_functional''
              then st\<lparr>non_functional_reqs := non_functional_reqs st @ [requirement]\<rparr>
            else if current_section st = Some ''business''
              then st\<lparr>business_reqs := business_reqs st @ [requirement]\<rparr>
            else if current_section st = Some ''questions''
              then st\<lparr>questions := questions st @ [requirement]\<rparr>
            else st)
         else st))"

definition extract_requirements_from_text :: "services \<Rightarrow> string \<Rightarrow> json" where
  "extract_requirements_from_text sv response =
     (let final = fold (\<lambda>line st. scan_line sv st line) (split_lines response)
                    \<lparr>current_section = None, functional_reqs = [], non_functional_reqs = [],
                     business_reqs = [], questions = []\<rparr>
      in JObj [(''functional_requirements'', JArr (functional_reqs final)),
               (''non_functional_requirements'', JArr (non_functional_reqs final)),
               (''business_requirements'', JArr (business_reqs final)),
               (''constraints'', JArr []),
               (''risks'', JArr []),
               (''clarification_questions'', JArr (questions final)),
               (''priority_matrix'', JObj [])])"

definition parse_requirements_response :: "services \<Rightarrow> string \<Rightarrow> json" where
  "parse_requirements_response sv response =
     (case (case brace_match response of
              Some json_match \<Rightarrow>
                bind_result (json_loads sv json_match) validate_requirements_analysis
            | None \<Rightarrow> Inr (extract_requirements_from_text sv response)) of
        Inr analysis \<Rightarrow> analysis
      | Inl e \<Rightarrow> get_default_analysis)"

definition requirements_process :: "services \<Rightarrow> workflow_state \<Rightarrow> json" where
  "requirements_process sv state =
     (case bind_result (task_prompt sv ''requirements'' state) (\<lambda>requirements_prompt.
             bind_result (query_groq_with_context sv ''requirements'' requirements_prompt state)
               (\<lambda>response.
                  let analysis = parse_requirements_response sv response
                  in bind_result (len_of_key analysis ''functional_requirements'') (\<lambda>n.
                     bind_result (len_of_key analysis ''non_functional_requirements'') (\<lambda>m.
                       Inr (JObj [(''requirements_analysis'', analysis)]))))) of
        Inr result \<Rightarrow> result
      | Inl e \<Rightarrow> JObj [(''requirements_analysis'', get_fallback_analysis)])"

section \<open>The research agent\<close>

definition research_defaults :: "(string \<times> json) list" where
  "research_defaults =
     [(''architecture_patterns'', JArr []),
      (''technology_recommendations'', JArr []),
      (''best_practices'', JArr []),
      (''case_studies'', JArr []),
      (''search_queries'', JArr []),
      (''confidence_score'', JNum (8 / 10))]"

text \<open>\<^verbatim>\<open>_parse_research_response\<close>: the body of the \<^verbatim>\<open>try\<close> block, and the whole function.\<close>

definition parse_research_try :: "services \<Rightarrow> string \<Rightarrow> json result" where
  "parse_research_try sv response = parse_try sv research_defaults response"

definition parse_research_response :: "services \<Rightarrow> string \<Rightarrow> json" where
  "parse_research_response sv response =
     (case parse_research_try sv response of
        Inr parsed \<Rightarrow> parsed
      | Inl e \<Rightarrow> get_fallback_research)"

text \<open>
  The search loop of \<^verbatim>\<open>ResearchAgent.process\<close>: the top two results of each query
  are appended to \<^verbatim>\<open>search_results\<close>.
\<close>

fun run_searches :: "services \<Rightarrow> json list \<Rightarrow> json list \<Rightarrow> json list result" where
  "run_searches sv [] search_results = Inr search_results"
| "run_searches sv (query # rest) search_results =
     (case tavily_search sv query of
        Inl e \<Rightarrow> Inl e
      | Inr results \<Rightarrow>
          (case bind_result (py_take 2 results) py_iter of
             Inl e \<Rightarrow> Inl e
           | Inr best \<Rightarrow> run_searches sv rest (search_results @ best)))"

definition add_external_sources :: "services \<Rightarrow> json \<Rightarrow> json result" where
  "add_external_sources sv data =
     bind_result (py_get data ''search_queries'' (JArr [])) (\<lambda>search_queries.
       if truthy search_queries then
         bind_result (bind_result (py_take 3 search_queries) py_iter) (\<lambda>queries.
           bind_result (run_searches sv queries []) (\<lambda>search_results.
             py_setitem data ''external_sources'' (JArr search_results)))
       else Inr data)"

definition research_process :: "services \<Rightarrow> workflow_state \<Rightarrow> json" where
  "research_process sv state =
     (case bind_result (task_prompt sv ''research'' state) (\<lambda>research_prompt.
             bind_result (groq_query sv ''research'' research_prompt (system_prompt sv ''research''))
               (\<lambda>research_response.
                  bind_result (add_external_sources sv (parse_research_response sv research_response))
                    (\<lambda>research_data.
                       bind_result (len_of_key research_data ''architecture_patterns'') (\<lambda>n.
                         bind_result (py_get research_data ''confidence_score'' (JNum (8 / 10)))
                           (\<lambda>confidence.
                              Inr (JObj [(''success'', JBool True),
                                         (''research_data'', research_data),
                                         (''agent'', JStr ''research''),
                                         (''confidence'', confidence)])))))) of
        Inr result \<Rightarrow> result
      | Inl e \<Rightarrow>
          JObj [(''success'', JBool False),
                (''error'', JStr (str_error sv e)),
                (''research_data'', get_fallback_research),
                (''agent'', JStr ''research'')])"

section \<open>The architecture agent\<close>

text \<open>
  The loop of \<^verbatim>\<open>_extract_existing_architecture\<close> over the reversed history. A message
  tagged as an architecture update is opened along
  \<^verbatim>\<open>metadata.agentResponse.architectureUpdate\<close>; each \<^verbatim>\<open>get\<close> raises on a value that
  is not a dict. The loop stops at the first update that is true and whose
  \<^verbatim>\<open>components\<close> are true.
\<close>

fun scan_history :: "(string \<times> json) list list \<Rightarrow> json result" where
  "scan_history [] = Inr (JObj [])"
| "scan_history (msg # rest) =
     (if dict_get msg ''messageType'' JNull = JStr ''ARCHITECTURE_UPDATE'' then
        (case py_get (dict_get msg ''metadata'' (JObj [])) ''agentResponse'' (JObj []) of
           Inl e \<Rightarrow> Inl e
         | Inr agent_response \<Rightarrow>
             (case py_get agent_response ''architectureUpdate'' (JObj []) of
                Inl e \<Rightarrow> Inl e
              | Inr architecture_update \<Rightarrow>
                  if truthy architecture_update then
                    (case py_get architecture_update ''components'' JNull of
                       Inl e \<Rightarrow> Inl e
                     | Inr components \<Rightarrow>
                         if truthy components then
                           (case py_len components of
                              Inl e \<Rightarrow> Inl e
                            | Inr n \<Rightarrow> Inr architecture_update)
                         else scan_history rest)
                  else scan_history rest))
      else scan_history rest)"

text \<open>
  \<^verbatim>\<open>_extract_existing_architecture\<close>. The lengths are taken for the log lines.
\<close>

definition extract_existing_architecture :: "workflow_state \<Rightarrow> json result" where
  "extract_existing_architecture state =
     (if truthy (architecture_design state) then
        bind_result (len_of_key (architecture_design state) ''components'')
          (\<lambda>n. Inr (architecture_design state))
      else if conversation_history state \<noteq> [] then
        scan_history (rev (conversation_history state))
      else Inr (JObj []))"

definition architecture_defaults :: "(string \<times> json) list" where
  "architecture_defaults =
     [(''architecture_overview'', JObj []),
      (''components'', JArr []),
      (''connections'', JArr []),
      (''system_overview'', JObj []),
      (''data_architecture'', JObj []),
      (''security_architecture'', JObj []),
      (''deployment_architecture'', JObj []),
      (''scalability_strategy'', JObj []),
      (''monitoring_observability'', JObj []),
      (''technology_stack'', JObj []),
      (''implementation_phases'', JArr []),
      (''risks_mitigations'', JArr []),
      (''confidence_score'', JNum (85 / 100))]"

definition default_component_metadata :: json where
  "default_component_metadata =
     JObj
      [(''layer_assignments'',
          JObj [(''system_overview'', JStr ''core_system''), (''deployment'', JStr ''application'')]),
       (''business_criticality'', JStr ''medium''),
       (''visual_importance'', JNum 5),
       (''icon_category'', JStr ''backend''),
       (''technology_badges'', JArr []),
       (''health_indicators'',
          JObj [(''monitoring_required'', JBool True),
                (''performance_critical'', JBool False),
                (''availability_target'', JStr ''99%'')])]"

definition default_connection_metadata :: json where
  "default_connection_metadata =
     JObj
      [(''protocol_display'', JStr ''HTTP/REST''),
       (''traffic_volume'', JStr ''medium''),
       (''latency_requirement'', JStr ''near_real_time''),
       (''security_level'', JStr ''medium''),
       (''dependency_strength'', JStr ''important''),
       (''line_style'', JStr ''solid''),
       (''animation_type'', JStr ''unidirectional'')]"

text \<open>
  One round of the two metadata loops of \<^verbatim>\<open>_validate_architecture_design\<close>:
  \<^verbatim>\<open>if "visualization_metadata" not in item: item["visualization_metadata"] = default\<close>.
  The membership test raises on a value that is no container, and the assignment
  raises on anything but a dict.
\<close>

definition ensure_metadata :: "json \<Rightarrow> json \<Rightarrow> json result" where
  "ensure_metadata dflt item =
     bind_result (py_contains ''visualization_metadata'' item) (\<lambda>present.
       if present then Inr item else py_setitem item ''visualization_metadata'' dflt)"

fun ensure_metadata_all :: "json \<Rightarrow> json list \<Rightarrow> json list result" where
  "ensure_metadata_all dflt [] = Inr []"
| "ensure_metadata_all dflt (item # items) =
     (case ensure_metadata dflt item of
        Inl e \<Rightarrow> Inl e
      | Inr item' \<Rightarrow>
          (case ensure_metadata_all dflt items of
             Inl e \<Rightarrow> Inl e
           | Inr items' \<Rightarrow> Inr (item' # items')))"

text \<open>
  The loop over \<^verbatim>\<open>design.get(key, [])\<close>. The items of a list are updated in place. A
  string or a dict is walked by its characters or keys, which are strings: the walk
  changes nothing and raises at the first one that does not contain the tested text.
\<close>

definition ensure_metadata_under ::
  "string \<Rightarrow> json \<Rightarrow> (string \<times> json) list \<Rightarrow> (string \<times> json) list result" where
  "ensure_metadata_under key dflt design =
     (case dict_get design key (JArr []) of
        JArr items \<Rightarrow>
          bind_result (ensure_metadata_all dflt items)
            (\<lambda>items'. Inr (if map_of design key = None then design
                             else dict_set key (JArr items') design))
      | v \<Rightarrow>
          bind_result (py_iter v) (\<lambda>items.
            bind_result (ensure_metadata_all dflt items) (\<lambda>items'. Inr design)))"

text \<open>
  The architecture that stands in when the completion gives none. The attribute
  \<^verbatim>\<open>_current_existing_architecture\<close> of the agent is \<^verbatim>\<open>None\<close> here when it is not
  set; the test \<^verbatim>\<open>hasattr(self, '_current_existing_architecture') and
  self._current_existing_architecture\<close> chooses between it and the static fallback, in
  the validator and in the exception handler of the parser alike.
\<close>

definition recovery_architecture :: "json option \<Rightarrow> json" where
  "recovery_architecture current =
     (case current of
        Some existing \<Rightarrow> if truthy existing then existing else get_fallback_architecture
      | None \<Rightarrow> get_fallback_architecture)"

text \<open>\<^verbatim>\<open>_validate_architecture_design\<close>.\<close>

definition validate_architecture_design :: "json option \<Rightarrow> json \<Rightarrow> json result" where
  "validate_architecture_design current design =
     bind_result (py_setdefaults architecture_defaults design) (\<lambda>design1.
       case design1 of
         JObj kvs \<Rightarrow>
           bind_result
             (if \<not> truthy (dict_get kvs ''components'' JNull) then
                bind_result (py_get (recovery_architecture current) ''components'' (JArr []))
                  (\<lambda>components.
                     bind_result (py_get (recovery_architecture current) ''connections'' (JArr []))
                       (\<lambda>connections.
                          Inr (dict_set ''connections'' connections
                                 (dict_set ''components'' components kvs))))
              else Inr kvs)
             (\<lambda>kvs1.
                bind_result (ensure_metadata_under ''components'' default_component_metadata kvs1)
                  (\<lambda>kvs2.
                     bind_result
                       (ensure_metadata_under ''connections'' default_connection_metadata kvs2)
                       (\<lambda>kvs3. Inr (JObj kvs3))))
       | _ \<Rightarrow> Inl AttributeError)"

text \<open>\<^verbatim>\<open>_parse_architecture_response\<close>: the \<^verbatim>\<open>try\<close> block, and the whole function.\<close>

definition parse_architecture_try :: "services \<Rightarrow> json option \<Rightarrow> string \<Rightarrow> json result" where
  "parse_architecture_try sv current response =
     bind_result (extract_json_str response) (\<lambda>json_str.
       bind_result (json_loads sv json_str) (validate_architecture_design current))"

definition parse_architecture_response :: "services \<Rightarrow> json option \<Rightarrow> string \<Rightarrow> json" where
  "parse_architecture_response sv current response =
     (case parse_architecture_try sv current response of
        Inr design \<Rightarrow> design
      | Inl e \<Rightarrow> recovery_architecture current)"

text \<open>
  \<^verbatim>\<open>ArchitectureAgent.process\<close>. The existing architecture is stored in the agent
  before the design is requested.
\<close>

definition architecture_process :: "services \<Rightarrow> workflow_state \<Rightarrow> json" where
  "architecture_process sv state =
     (case bind_result (extract_existing_architecture state) (\<lambda>existing_architecture.
             bind_result (task_prompt sv ''architecture'' state) (\<lambda>architecture_prompt.
               bind_result
                 (groq_query sv ''architecture'' architecture_prompt (system_prompt sv ''architecture''))
                 (\<lambda>architecture_response.
                    let parsed = parse_architecture_response sv (Some existing_architecture)
                                   architecture_response
                    in bind_result (generate_visualization_data sv parsed) (\<lambda>visualization.
                         bind_result (py_setitem parsed ''visualization_data'' visualization)
                           (\<lambda>architecture_design.
                              bind_result (len_of_key architecture_design ''components'') (\<lambda>n.
                                bind_result
                                  (py_get architecture_design ''confidence_score'' (JNum (85 / 100)))
                                  (\<lambda>confidence.
                                     Inr (JObj [(''success'', JBool True),
                                                (''architecture_design'', architecture_design),
                                                (''agent'', JStr ''architecture''),
                                                (''confidence'', confidence)])))))))) of
        Inr result \<Rightarrow> result
      | Inl e \<Rightarrow>
          JObj [(''success'', JBool False),
                (''error'', JStr (str_error sv e)),
                (''architecture_design'', get_fallback_architecture),
                (''agent'', JStr ''architecture'')])"

section \<open>The why-reasoning, business-impact, educational and documentation agents\<close>

definition reasoning_defaults :: "(string \<times> json) list" where
  "reasoning_defaults =
     [(''architectural_decisions'', JArr []),
      (''pattern_explanations'', JArr []),
      (''technology_justifications'', JArr []),
      (''design_principles'', JArr []),
      (''scalability_reasoning'', JObj []),
      (''security_reasoning'', JObj []),
      (''educational_insights'', JArr []),
      (''implementation_guidance'', JObj []),
      (''confidence_score'', JNum (9 / 10))]"

definition impact_defaults :: "(string \<times> json) list" where
  "impact_defaults =
     [(''executive_summary'', JObj []),
      (''financial_impact'', JObj []),
      (''operational_impact'', JObj []),
      (''strategic_impact'', JObj []),
      (''risk_analysis'', JObj []),
      (''timeline_impact'', JObj []),
      (''scalability_business_impact'', JObj []),
      (''stakeholder_impact'', JArr []),
      (''success_metrics'', JArr []),
      (''confidence_score'', JNum (85 / 100))]"

definition educational_defaults :: "(string \<times> json) list" where
  "educational_defaults =
     [(''key_concepts'', JArr []),
      (''pattern_explanations'', JArr []),
      (''technology_deep_dives'', JArr []),
      (''practical_exercises'', JArr []),
      (''learning_progression'', JObj []),
      (''real_world_applications'', JArr []),
      (''troubleshooting_guide'', JArr []),
      (''further_learning'', JObj []),
      (''assessment_questions'', JArr []),
      (''confidence_score'', JNum (9 / 10))]"

definition documentation_defaults :: "(string \<times> json) list" where
  "documentation_defaults =
     [(''document_metadata'', JObj []),
      (''executive_summary'', JObj []),
      (''sections'', JArr []),
      (''technical_specifications'', JObj []),
      (''implementation_guide'', JObj []),
      (''operational_guide'', JObj []),
      (''decision_log'', JArr []),
      (''appendices'', JObj []),
      (''confidence_score'', JNum (9 / 10))]"

definition parse_reasoning_response :: "services \<Rightarrow> string \<Rightarrow> json" where
  "parse_reasoning_response sv response =
     parse_or_fallback sv reasoning_defaults get_fallback_reasoning response"

definition parse_impact_response :: "services \<Rightarrow> string \<Rightarrow> json" where
  "parse_impact_response sv response =
     parse_or_fallback sv impact_defaults get_fallback_impact response"

definition parse_educational_response :: "services \<Rightarrow> string \<Rightarrow> json" where
  "parse_educational_response sv response =
     parse_or_fallback sv educational_defaults get_fallback_educational_content response"

definition parse_documentation_response :: "services \<Rightarrow> string \<Rightarrow> json" where
  "parse_documentation_response sv response =
     parse_or_fallback sv documentation_defaults get_fallback_documentation response"

text \<open>
  The four \<^verbatim>\<open>process\<close> methods have one shape: send the prompt, parse the completion,
  store one derived entry in the parsed dict, take a length for the log line, and return
  the dict under the agent's slot key; on any exception return the fallback under the
  same key.
\<close>

definition decorated_process ::
  "services \<Rightarrow> string \<Rightarrow> string \<Rightarrow> (string \<Rightarrow> json) \<Rightarrow> string \<Rightarrow> (json \<Rightarrow> json result) \<Rightarrow>
   string \<Rightarrow> rat \<Rightarrow> json \<Rightarrow> workflow_state \<Rightarrow> json" where
  "decorated_process sv name slot parse extra_key extra counted default_confidence fallback state =
     (case bind_result (task_prompt sv name state) (\<lambda>prompt.
             bind_result (groq_query sv name prompt (system_prompt sv name)) (\<lambda>response.
               let parsed = parse response
               in bind_result (extra parsed) (\<lambda>derived.
                    bind_result (py_setitem parsed extra_key derived) (\<lambda>data.
                      bind_result (len_of_key data counted) (\<lambda>n.
                        bind_result (py_get data ''confidence_score'' (JNum default_confidence))
                          (\<lambda>confidence.
                             Inr (JObj [(''success'', JBool True),
                                        (slot, data),
                                        (''agent'', JStr name),
                                        (''confidence'', confidence)]))))))) of
        Inr result \<Rightarrow> result
      | Inl e \<Rightarrow>
          JObj [(''success'', JBool False),
                (''error'', JStr (str_error sv e)),
                (slot, fallback),
                (''agent'', JStr name)])"

definition why_reasoning_process :: "services \<Rightarrow> workflow_state \<Rightarrow> json" where
  "why_reasoning_process sv state =
     decorated_process sv ''why_reasoning'' ''why_reasoning'' (parse_reasoning_response sv)
       ''decision_rationale'' (\<lambda>parsed. generate_decision_rationale sv state)
       ''architectural_decisions'' (9 / 10) get_fallback_reasoning state"

definition business_impact_process :: "services \<Rightarrow> workflow_state \<Rightarrow> json" where
  "business_impact_process sv state =
     decorated_process sv ''business_impact'' ''business_impact'' (parse_impact_response sv)
       ''roi_analysis'' (\<lambda>parsed. calculate_roi_estimates sv parsed state)
       ''impact_areas'' (85 / 100) get_fallback_impact state"

definition educational_process :: "services \<Rightarrow> workflow_state \<Rightarrow> json" where
  "educational_process sv state =
     decorated_process sv ''educational'' ''educational_content'' (parse_educational_response sv)
       ''learning_path'' (\<lambda>parsed. generate_learning_path sv state)
       ''key_concepts'' (9 / 10) get_fallback_educational_content state"

definition documentation_process :: "services \<Rightarrow> workflow_state \<Rightarrow> json" where
  "documentation_process sv state =
     decorated_process sv ''documentation'' ''documentation'' (parse_documentation_response sv)
       ''export_formats'' (\<lambda>parsed. generate_export_formats sv parsed state)
       ''sections'' (9 / 10) get_fallback_documentation state"

section \<open>The sequential workflow\<close>

text \<open>
  The workflow calls \<^verbatim>\<open>process\<close> of eight agents. A \<^verbatim>\<open>process\<close> that raises is
  \<^verbatim>\<open>Inl\<close>; the driver is defined for any eight agents, and \<^verbatim>\<open>sequential_agents\<close> are
  the eight of the repository.
\<close>

record agents =
  orchestrator_agent :: "workflow_state \<Rightarrow> json result"
  requirements_agent :: "workflow_state \<Rightarrow> json result"
  research_agent :: "workflow_state \<Rightarrow> json result"
  architecture_agent :: "workflow_state \<Rightarrow> json result"
  why_reasoning_agent :: "workflow_state \<Rightarrow> json result"
  business_impact_agent :: "workflow_state \<Rightarrow> json result"
  educational_agent :: "workflow_state \<Rightarrow> json result"
  documentation_agent :: "workflow_state \<Rightarrow> json result"

definition sequential_agents :: "services \<Rightarrow> agents" where
  "sequential_agents sv =
     \<lparr>orchestrator_agent = (\<lambda>state. Inr (orchestrator_process sv state)),
      requirements_agent = (\<lambda>state. Inr (requirements_process sv state)),
      research_agent = (\<lambda>state. Inr (research_process sv state)),
      architecture_agent = (\<lambda>state. Inr (architecture_process sv state)),
      why_reasoning_agent = (\<lambda>state. Inr (why_reasoning_process sv state)),
      business_impact_agent = (\<lambda>state. Inr (business_impact_process sv state)),
      educational_agent = (\<lambda>state. Inr (educational_process sv state)),
      documentation_agent = (\<lambda>state. Inr (documentation_process sv state))\<rparr>"

text \<open>
  The entries of \<^verbatim>\<open>step_results\<close>, computed after each step from the slot just stored.
  They are only logged, but their lengths and lookups can raise inside the workflow's
  \<^verbatim>\<open>try\<close> block.
\<close>

definition count_entry :: "json \<Rightarrow> string \<Rightarrow> json result" where
  "count_entry d k = bind_result (len_of_key d k) (\<lambda>n. Inr (JNum (of_nat n)))"

definition bool_entry :: "json \<Rightarrow> string \<Rightarrow> json result" where
  "bool_entry d k = bind_result (py_get d k JNull) (\<lambda>v. Inr (JBool (truthy v)))"

definition nested_entry :: "json \<Rightarrow> string \<Rightarrow> string \<Rightarrow> json result" where
  "nested_entry d k1 k2 = bind_result (py_get d k1 (JObj [])) (\<lambda>inner. py_get inner k2 JNull)"

definition summary_orchestrator :: "workflow_state \<Rightarrow> json result" where
  "summary_orchestrator state =
     bind_result (py_get (orchestrator_plan state) ''workflow_type'' JNull) (\<lambda>a.
     bind_result (py_get (orchestrator_plan state) ''agents_required'' (JArr [])) (\<lambda>b.
     bind_result (py_get (orchestrator_plan state) ''complexity_score'' JNull) (\<lambda>c.
       Inr (JObj [(''success'', JBool True), (''workflow_type'', a),
                  (''agents_required'', b), (''complexity_score'', c)]))))"

definition summary_requirements :: "workflow_state \<Rightarrow> json result" where
  "summary_requirements state =
     bind_result (count_entry (requirements_analysis state) ''functional_requirements'') (\<lambda>a.
     bind_result (count_entry (requirements_analysis state) ''non_functional_requirements'') (\<lambda>b.
     bind_result (count_entry (requirements_analysis state) ''clarification_questions'') (\<lambda>c.
       Inr (JObj [(''success'', JBool True), (''functional_requirements_count'', a),
                  (''non_functional_requirements_count'', b),
                  (''clarification_questions_count'', c)]))))"

definition summary_research :: "workflow_state \<Rightarrow> json result" where
  "summary_research state =
     bind_result (count_entry (research_data state) ''architectural_patterns'') (\<lambda>a.
     bind_result (count_entry (research_data state) ''technology_recommendations'') (\<lambda>b.
     bind_result (count_entry (research_data state) ''market_analysis'') (\<lambda>c.
       Inr (JObj [(''success'', JBool True), (''patterns_found'', a),
                  (''technologies_analyzed'', b), (''market_insights_count'', c)]))))"

definition summary_architecture :: "workflow_state \<Rightarrow> json result" where
  "summary_architecture state =
     bind_result (count_entry (architecture_design state) ''components'') (\<lambda>a.
     bind_result (count_entry (architecture_design state) ''connections'') (\<lambda>b.
     bind_result (nested_entry (architecture_design state) ''architecture_overview'' ''pattern'') (\<lambda>c.
     bind_result (bool_entry (architecture_design state) ''visualization_data'') (\<lambda>d.
       Inr (JObj [(''success'', JBool True), (''components_designed'', a),
                  (''connections_mapped'', b), (''architecture_pattern'', c),
                  (''has_visualization_data'', d)])))))"

definition summary_why_reasoning :: "workflow_state \<Rightarrow> json result" where
  "summary_why_reasoning state =
     bind_result (count_entry (why_reasoning state) ''architectural_decisions'') (\<lambda>a.
     bind_result (count_entry (why_reasoning state) ''trade_offs'') (\<lambda>b.
     bind_result (count_entry (why_reasoning state) ''alternatives'') (\<lambda>c.
       Inr (JObj [(''success'', JBool True), (''architectural_decisions_count'', a),
                  (''trade_offs_analyzed'', b), (''alternatives_considered'', c)]))))"

definition summary_business_impact :: "workflow_state \<Rightarrow> json result" where
  "summary_business_impact state =
     bind_result (bool_entry (business_impact state) ''financial_analysis'') (\<lambda>a.
     bind_result (bool_entry (business_impact state) ''risk_analysis'') (\<lambda>b.
     bind_result (bool_entry (business_impact state) ''timeline_impact'') (\<lambda>c.
     bind_result (nested_entry (business_impact state) ''executive_summary'' ''recommendation'') (\<lambda>d.
       Inr (JObj [(''success'', JBool True), (''roi_analysis'', a), (''risk_assessment'', b),
                  (''implementation_timeline'', c), (''overall_recommendation'', d)])))))"

definition summary_educational :: "services \<Rightarrow> workflow_state \<Rightarrow> json result" where
  "summary_educational sv state =
     bind_result (count_entry (educational_content state) ''key_concepts'') (\<lambda>a.
     bind_result (count_entry (educational_content state) ''learning_path'') (\<lambda>b.
     bind_result (count_entry (educational_content state) ''assessment_questions'') (\<lambda>c.
       Inr (JObj [(''success'', JBool True), (''key_concepts_count'', a),
                  (''learning_path_steps'', b), (''assessment_questions'', c),
                  (''adapted_to_expertise'', JStr (str_expertise sv (expertise (profile state))))]))))"

definition summary_documentation :: "workflow_state \<Rightarrow> json result" where
  "summary_documentation state =
     bind_result (count_entry (documentation state) ''sections'') (\<lambda>a.
     bind_result (bool_entry (documentation state) ''technical_specifications'') (\<lambda>b.
     bind_result (bool_entry (documentation state) ''implementation_guide'') (\<lambda>c.
     bind_result (py_get (documentation state) ''format'' (JStr ''markdown'')) (\<lambda>d.
       Inr (JObj [(''success'', JBool True), (''sections_generated'', a),
                  (''technical_specs'', b), (''implementation_guide'', c),
                  (''document_format'', d)])))))"

text \<open>
  One block of \<^verbatim>\<open>execute\<close>: call the agent, store \<^verbatim>\<open>result.get(key, {})\<close> in the
  slot, append the step name to \<^verbatim>\<open>completed_steps\<close>, advance \<^verbatim>\<open>current_step\<close>, compute
  the step summary. The state is mutated in place, so the state reached when an
  exception is raised is the one the caller holds afterwards.
\<close>

definition run_step ::
  "(workflow_state \<Rightarrow> json result) \<Rightarrow> string \<Rightarrow> (json \<Rightarrow> workflow_state \<Rightarrow> workflow_state) \<Rightarrow>
   string \<Rightarrow> string \<Rightarrow> (workflow_state \<Rightarrow> json result) \<Rightarrow>
   workflow_state \<Rightarrow> workflow_state \<times> unit result" where
  "run_step process key store name next_step summary state =
     (case process state of
        Inl e \<Rightarrow> (state, Inl e)
      | Inr result \<Rightarrow>
          (case py_get result key (JObj []) of
             Inl e \<Rightarrow> (state, Inl e)
           | Inr slot_value \<Rightarrow>
               (let state1 = store slot_value state;
                    state2 = state1\<lparr>completed_steps := completed_steps state1 @ [name]\<rparr>;
                    state3 = state2\<lparr>current_step := next_step\<rparr>
                in case summary state3 of
                     Inl e \<Rightarrow> (state3, Inl e)
                   | Inr entry \<Rightarrow> (state3, Inr ()))))"

definition step_orchestrator :: "agents \<Rightarrow> workflow_state \<Rightarrow> workflow_state \<times> unit result" where
  "step_orchestrator ag =
     run_step (orchestrator_agent ag) ''orchestrator_plan'' (\<lambda>v s. s\<lparr>orchestrator_plan := v\<rparr>)
       ''orchestrator'' ''requirements'' summary_orchestrator"

definition step_requirements :: "agents \<Rightarrow> workflow_state \<Rightarrow> workflow_state \<times> unit result" where
  "step_requirements ag =
     run_step (requirements_agent ag) ''requirements_analysis''
       (\<lambda>v s. s\<lparr>requirements_analysis := v\<rparr>)
       ''requirements'' ''research'' summary_requirements"

definition step_research :: "agents \<Rightarrow> workflow_state \<Rightarrow> workflow_state \<times> unit result" where
  "step_research ag =
     run_step (research_agent ag) ''research_data'' (\<lambda>v s. s\<lparr>research_data := v\<rparr>)
       ''research'' ''architecture'' summary_research"

definition step_architecture :: "agents \<Rightarrow> workflow_state \<Rightarrow> workflow_state \<times> unit result" where
  "step_architecture ag =
     run_step (architecture_agent ag) ''architecture_design''
       (\<lambda>v s. s\<lparr>architecture_design := v\<rparr>)
       ''architecture'' ''why_reasoning'' summary_architecture"

definition step_why_reasoning :: "agents \<Rightarrow> workflow_state \<Rightarrow> workflow_state \<times> unit result" where
  "step_why_reasoning ag =
     run_step (why_reasoning_agent ag) ''why_reasoning'' (\<lambda>v s. s\<lparr>why_reasoning := v\<rparr>)
       ''why_reasoning'' ''business_impact'' summary_why_reasoning"

definition step_business_impact :: "agents \<Rightarrow> workflow_state \<Rightarrow> workflow_state \<times> unit result" where
  "step_business_impact ag =
     run_step (business_impact_agent ag) ''business_impact'' (\<lambda>v s. s\<lparr>business_impact := v\<rparr>)
       ''business_impact'' ''educational'' summary_business_impact"

definition step_educational ::
  "services \<Rightarrow> agents \<Rightarrow> workflow_state \<Rightarrow> workflow_state \<times> unit result" where
  "step_educational sv ag =
     run_step (educational_agent ag) ''educational_content''
       (\<lambda>v s. s\<lparr>educational_content := v\<rparr>)
       ''educational'' ''documentation'' (summary_educational sv)"

definition step_documentation :: "agents \<Rightarrow> workflow_state \<Rightarrow> workflow_state \<times> unit result" where
  "step_documentation ag =
     run_step (documentation_agent ag) ''documentation'' (\<lambda>v s. s\<lparr>documentation := v\<rparr>)
       ''documentation'' ''completed'' summary_documentation"

definition workflow_steps ::
  "services \<Rightarrow> agents \<Rightarrow> (workflow_state \<Rightarrow> workflow_state \<times> unit result) list" where
  "workflow_steps sv ag =
     [step_orchestrator ag, step_requirements ag, step_research ag, step_architecture ag,
      step_why_reasoning ag, step_business_impact ag, step_educational sv ag,
      step_documentation ag]"

text \<open>The blocks run in order; the first exception ends the run.\<close>

fun run_steps ::
  "(workflow_state \<Rightarrow> workflow_state \<times> unit result) list \<Rightarrow> workflow_state \<Rightarrow>
   workflow_state \<times> unit result" where
  "run_steps [] state = (state, Inr ())"
| "run_steps (step # steps) state =
     (case step state of
        (state', Inl e) \<Rightarrow> (state', Inl e)
      | (state', Inr u) \<Rightarrow> run_steps steps state')"

section \<open>Aggregation of the final response\<close>

text \<open>
  \<^verbatim>\<open>agent_outputs\<close> of \<^verbatim>\<open>_compile_comprehensive_response\<close>: the eight slots, in the
  order of the dict literal.
\<close>

definition agent_outputs :: "workflow_state \<Rightarrow> (string \<times> json) list" where
  "agent_outputs s =
     [(''orchestrator_plan'', orchestrator_plan s),
      (''requirements_analysis'', requirements_analysis s),
      (''research_data'', research_data s),
      (''architecture_design'', architecture_design s),
      (''why_reasoning'', why_reasoning s),
      (''business_impact'', business_impact s),
      (''educational_content'', educational_content s),
      (''documentation'', documentation s)]"

text \<open>
  The loop of \<^verbatim>\<open>_calculate_overall_confidence\<close>: every output that is a dict with the
  key contributes its value, in order.
\<close>

fun collect_confidence :: "(string \<times> json) list \<Rightarrow> json list" where
  "collect_confidence [] = []"
| "collect_confidence ((agent_name, output) # rest) =
     (if has_key output ''confidence_score''
      then (case output of
              JObj kvs \<Rightarrow> dict_get kvs ''confidence_score'' JNull # collect_confidence rest
            | _ \<Rightarrow> collect_confidence rest)
      else collect_confidence rest)"

definition calculate_overall_confidence :: "(string \<times> json) list \<Rightarrow> rat result" where
  "calculate_overall_confidence outputs =
     (let confidence_scores = collect_confidence outputs
      in if confidence_scores \<noteq> []
         then bind_result (py_sum confidence_scores)
                (\<lambda>total. Inr (total / of_nat (length confidence_scores)))
         else Inr (85 / 100))"

text \<open>
  \<^verbatim>\<open>_extract_comprehensive_questions\<close>: the clarification questions of the requirements
  analysis, then the \<^verbatim>\<open>question\<close> of the first two assessment questions of the
  educational content; the static list when there is none; at most four.
\<close>

fun question_texts :: "json list \<Rightarrow> json list result" where
  "question_texts [] = Inr []"
| "question_texts (q # qs) =
     (case py_get q ''question'' (JStr []) of
        Inl e \<Rightarrow> Inl e
      | Inr t \<Rightarrow>
          (case question_texts qs of
             Inl e \<Rightarrow> Inl e
           | Inr ts \<Rightarrow> Inr (t # ts)))"

definition default_questions :: "json list" where
  "default_questions =
     [JStr ''Would you like me to explain any specific architectural decisions in more detail?'',
      JStr (''Are there particular aspects of the implementation you'' @ [CHR 0x27] @
            ''d like to focus on?''),
      JStr ''Do you have questions about the business impact or ROI analysis?'',
      JStr ''Would you like to explore the educational content for any specific technologies?'']"

definition requirement_questions :: "workflow_state \<Rightarrow> json list result" where
  "requirement_questions state =
     (if truthy (requirements_analysis state)
      then bind_result (py_get (requirements_analysis state) ''clarification_questions'' (JArr []))
             py_iter
      else Inr [])"

definition assessment_questions :: "workflow_state \<Rightarrow> json list result" where
  "assessment_questions state =
     (if truthy (educational_content state) then
        bind_result (py_get (educational_content state) ''assessment_questions'' (JArr []))
          (\<lambda>assessment.
             if truthy assessment
             then bind_result (bind_result (py_take 2 assessment) py_iter) question_texts
             else Inr [])
      else Inr [])"

definition extract_comprehensive_questions :: "workflow_state \<Rightarrow> json list result" where
  "extract_comprehensive_questions state =
     bind_result (requirement_questions state) (\<lambda>from_requirements.
       bind_result (assessment_questions state) (\<lambda>from_assessment.
         let found = from_requirements @ from_assessment
         in Inr (py_slice (if found = [] then default_questions else found) None (Some 4))))"

text \<open>
  \<^verbatim>\<open>_extract_comprehensive_actions\<close>: one line for each of the first two milestones of
  the business impact, then one for each of the first two implementation phases of the
  architecture design; the static list when there is none; at most four.
\<close>

definition milestone_action :: "services \<Rightarrow> json \<Rightarrow> json result" where
  "milestone_action sv milestone =
     bind_result (py_get milestone ''milestone'' (JStr [])) (\<lambda>m.
       bind_result (py_get milestone ''timeline'' (JStr [])) (\<lambda>t.
         Inr (JStr (''Achieve '' @ fmt sv m @ '' within '' @ fmt sv t))))"

definition phase_action :: "services \<Rightarrow> json \<Rightarrow> json result" where
  "phase_action sv phase =
     bind_result (py_get phase ''phase'' (JStr [])) (\<lambda>p.
       bind_result (py_get phase ''name'' (JStr [])) (\<lambda>n.
         bind_result (py_get phase ''duration'' (JStr [])) (\<lambda>d.
           Inr (JStr (''Phase '' @ fmt sv p @ '': '' @ fmt sv n @ '' ('' @ fmt sv d @ '')'')))))"

fun map_result :: "('a \<Rightarrow> 'b result) \<Rightarrow> 'a list \<Rightarrow> 'b list result" where
  "map_result f [] = Inr []"
| "map_result f (x # xs) =
     (case f x of
        Inl e \<Rightarrow> Inl e
      | Inr y \<Rightarrow>
          (case map_result f xs of
             Inl e \<Rightarrow> Inl e
           | Inr ys \<Rightarrow> Inr (y # ys)))"

definition default_actions :: "json list" where
  "default_actions =
     [JStr ''Review and approve the architecture design document'',
      JStr ''Begin implementation planning and team preparation'',
      JStr ''Set up development environment and initial infrastructure'',
      JStr ''Start with the first implementation phase'']"

definition milestone_actions :: "services \<Rightarrow> workflow_state \<Rightarrow> json list result" where
  "milestone_actions sv state =
     (if truthy (business_impact state) then
        bind_result (py_get (business_impact state) ''timeline_impact'' (JObj [])) (\<lambda>tl.
          if truthy tl then
            bind_result (py_get tl ''business_value_realization'' (JArr [])) (\<lambda>milestones.
              if truthy milestones
              then bind_result (bind_result (py_take 2 milestones) py_iter)
                     (map_result (milestone_action sv))
              else Inr [])
          else Inr [])
      else Inr [])"

definition phase_actions :: "services \<Rightarrow> workflow_state \<Rightarrow> json list result" where
  "phase_actions sv state =
     (if truthy (architecture_design state) then
        bind_result (py_get (architecture_design state) ''implementation_phases'' (JArr []))
          (\<lambda>phases.
             if truthy phases
             then bind_result (bind_result (py_take 2 phases) py_iter) (map_result (phase_action sv))
             else Inr [])
      else Inr [])"

definition extract_comprehensive_actions :: "services \<Rightarrow> workflow_state \<Rightarrow> json list result" where
  "extract_comprehensive_actions sv state =
     bind_result (milestone_actions sv state) (\<lambda>from_milestones.
       bind_result (phase_actions sv state) (\<lambda>from_phases.
         let found = from_milestones @ from_phases
         in Inr (py_slice (if found = [] then default_actions else found) None (Some 4))))"

text \<open>The fields of the final response that the claims are about.\<close>

record aggregate =
  final_content :: string
  next_questions :: "json list"
  suggested_actions :: "json list"
  steps_done :: "string list"
  confidence_score :: rat
  response_outputs :: "(string \<times> json) list"

definition compile_comprehensive_response :: "services \<Rightarrow> workflow_state \<Rightarrow> aggregate result" where
  "compile_comprehensive_response sv state =
     bind_result (generate_comprehensive_content sv state) (\<lambda>content.
       bind_result (extract_comprehensive_questions state) (\<lambda>qs.
         bind_result (extract_comprehensive_actions sv state) (\<lambda>acts.
           bind_result (calculate_overall_confidence (agent_outputs state)) (\<lambda>confidence.
             Inr \<lparr>final_content = content, next_questions = qs, suggested_actions = acts,
                  steps_done = completed_steps state, confidence_score = confidence,
                  response_outputs = agent_outputs state\<rparr>))))"

text \<open>\<^verbatim>\<open>validate_state\<close>: the three required fields are present and true.\<close>

definition validate_state :: "workflow_state \<Rightarrow> bool" where
  "validate_state state = (conversation_id state \<noteq> [] \<and> user_query state \<noteq> [])"

text \<open>
  \<^verbatim>\<open>SequentialWorkflow.execute\<close>. The handler of the \<^verbatim>\<open>try\<close> block logs and raises the
  same exception again, so the result is the exception and the state as it was left.
\<close>

definition execute :: "services \<Rightarrow> agents \<Rightarrow> workflow_state \<Rightarrow> workflow_state \<times> aggregate result" where
  "execute sv ag initial_state =
     (if \<not> validate_state initial_state
      then (initial_state, Inl (ValueError ''Invalid initial state for sequential workflow''))
      else (case run_steps (workflow_steps sv ag) initial_state of
              (state, Inl e) \<Rightarrow> (state, Inl e)
            | (state, Inr u) \<Rightarrow>
                (case compile_comprehensive_response sv state of
                   Inl e \<Rightarrow> (state, Inl e)
                 | Inr final_response \<Rightarrow> (state, Inr final_response))))"







definition empty_state :: workflow_state where
  "empty_state =
     \<lparr>conversation_id = ''c1'', user_query = ''I need a blog platform'',
      profile = \<lparr>profile_id = ''u1'', email = ''u1@example.org'',
                 expertise = INTERMEDIATE, business_role = None\<rparr>,
      state_business_context = None,
      orchestrator_plan = JObj [], requirements_analysis = JObj [],
      research_findings = JObj [], research_data = JObj [],
      architecture_design = JObj [], why_reasoning = JObj [],
      business_impact = JObj [], educational_content = JObj [],
      documentation = JObj [], current_step = ''orchestrator'',
      completed_steps = [], conversation_history = []\<rparr>"

section \<open>The specification's notions\<close>

text \<open>
  The definitions of this section follow the words of the specification, not the code:
  the theorems compare them with the functions above.
\<close>

subsection \<open>Architecture updates in the conversation history\<close>

text \<open>
  A message is an architecture update when its \<^verbatim>\<open>messageType\<close> says so; its payload is
  the value at \<^verbatim>\<open>metadata.agentResponse.architectureUpdate\<close> (an empty mapping when a
  level is absent); it qualifies when the payload has a non-empty component list. The
  existing architecture of a history is the payload of the most recent qualifying
  message, and the empty mapping when there is none.
\<close>

definition is_architecture_update :: "(string \<times> json) list \<Rightarrow> bool" where
  "is_architecture_update msg = (map_of msg ''messageType'' = Some (JStr ''ARCHITECTURE_UPDATE''))"

definition lookup_or_empty :: "json \<Rightarrow> string \<Rightarrow> json" where
  "lookup_or_empty v k =
     (case v of
        JObj kvs \<Rightarrow> (case map_of kvs k of Some x \<Rightarrow> x | None \<Rightarrow> JObj [])
      | _ \<Rightarrow> JObj [])"

definition update_payload :: "(string \<times> json) list \<Rightarrow> json" where
  "update_payload msg =
     lookup_or_empty (lookup_or_empty (lookup_or_empty (JObj msg) ''metadata'') ''agentResponse'')
       ''architectureUpdate''"

definition component_list :: "json \<Rightarrow> json list" where
  "component_list payload =
     (case payload of
        JObj kvs \<Rightarrow> (case map_of kvs ''components'' of Some (JArr cs) \<Rightarrow> cs | _ \<Rightarrow> [])
      | _ \<Rightarrow> [])"

definition qualifies :: "(string \<times> json) list \<Rightarrow> bool" where
  "qualifies msg = (is_architecture_update msg \<and> component_list (update_payload msg) \<noteq> [])"

definition most_recent_architecture :: "(string \<times> json) list list \<Rightarrow> json" where
  "most_recent_architecture history =
     (case List.find qualifies (rev history) of
        None \<Rightarrow> JObj []
      | Some msg \<Rightarrow> update_payload msg)"

text \<open>
  The wire format of an architecture update: \<^verbatim>\<open>metadata\<close> and \<^verbatim>\<open>agentResponse\<close> are
  mappings where present, the payload is a mapping unless it is a false value (such as
  \<^verbatim>\<open>null\<close>), and its \<^verbatim>\<open>components\<close> are a list unless they are a false value. A message
  of any other type is not constrained.
\<close>

definition absent_or_dict :: "json option \<Rightarrow> bool" where
  "absent_or_dict v = (case v of None \<Rightarrow> True | Some (JObj kvs) \<Rightarrow> True | Some _ \<Rightarrow> False)"

definition false_or_list :: "json \<Rightarrow> bool" where
  "false_or_list v = (case v of JArr xs \<Rightarrow> True | _ \<Rightarrow> \<not> truthy v)"

definition false_or_dict :: "json \<Rightarrow> bool" where
  "false_or_dict v = (case v of JObj kvs \<Rightarrow> True | _ \<Rightarrow> \<not> truthy v)"

definition wire_format :: "(string \<times> json) list \<Rightarrow> bool" where
  "wire_format msg =
     (if is_architecture_update msg then
        absent_or_dict (map_of msg ''metadata'') \<and>
        absent_or_dict (case lookup_or_empty (JObj msg) ''metadata'' of
                          JObj md \<Rightarrow> map_of md ''agentResponse''
                        | _ \<Rightarrow> None) \<and>
        false_or_dict (update_payload msg) \<and>
        false_or_list (lookup_or_empty (update_payload msg) ''components'')
      else True)"

subsection \<open>Failure of structured extraction\<close>

text \<open>
  Deserialization fails when no JSON text can be extracted from the completion or the
  extracted text is rejected by \<^verbatim>\<open>json.loads\<close>; structured extraction fails when, in
  addition, the deserialized value may be something that is not a JSON object.
\<close>

definition deserialization_fails :: "services \<Rightarrow> string \<Rightarrow> bool" where
  "deserialization_fails sv response =
     (case extract_json_str response of
        Inl e \<Rightarrow> True
      | Inr json_str \<Rightarrow> (case json_loads sv json_str of Inl e \<Rightarrow> True | Inr v \<Rightarrow> False))"

definition is_dict :: "json \<Rightarrow> bool" where
  "is_dict v = (case v of JObj kvs \<Rightarrow> True | _ \<Rightarrow> False)"


definition has_keys :: "json \<Rightarrow> string list \<Rightarrow> bool" where
  "has_keys v ks = list_all (has_key v) ks"

subsection \<open>The history section of the context prompt\<close>

text \<open>
  The last six entries of the history, each rendered as \<^verbatim>\<open>- {role}: {content}\<close> with a
  content of more than 300 characters cut to its first 300 followed by an ellipsis and
  with the tag for architecture updates, between the heading line and the fixed
  instruction line; nothing for an empty history.
\<close>

definition last_six :: "'a list \<Rightarrow> 'a list" where
  "last_six history = drop (length history - 6) history"

definition content_text :: "(string \<times> json) list \<Rightarrow> string" where
  "content_text msg = (case map_of msg ''content'' of Some (JStr c) \<Rightarrow> c | _ \<Rightarrow> [])"

definition cut_to_300 :: "string \<Rightarrow> string" where
  "cut_to_300 c = (if 300 < length c then take 300 c @ ''...'' else c)"

definition render_entry :: "services \<Rightarrow> (string \<times> json) list \<Rightarrow> string" where
  "render_entry sv msg =
     ''- '' @ fmt sv (dict_get msg ''role'' (JStr ''unknown'')) @ '': '' @
     (if is_architecture_update msg then ''[ARCHITECTURE UPDATE] '' else []) @
     cut_to_300 (content_text msg)"

definition history_section :: "services \<Rightarrow> (string \<times> json) list list \<Rightarrow> string list" where
  "history_section sv history =
     (if history = [] then []
      else [history_header] @ map (render_entry sv) (last_six history) @ [history_note])"

text \<open>The content of a message is text: a string, or absent.\<close>

definition text_content :: "(string \<times> json) list \<Rightarrow> bool" where
  "text_content msg =
     (case map_of msg ''content'' of None \<Rightarrow> True | Some (JStr c) \<Rightarrow> True | Some _ \<Rightarrow> False)"

text \<open>The parts of the context prompt before and after the history section.\<close>

definition identity_parts :: "services \<Rightarrow> workflow_state \<Rightarrow> string list" where
  "identity_parts sv state =
     [''User Query: '' @ user_query state,
      ''User Expertise: '' @ str_expertise sv (expertise (profile state))] @
     (case business_role (profile state) of
        None \<Rightarrow> []
      | Some role \<Rightarrow> if role = [] then [] else [''Business Role: '' @ role]) @
     (case state_business_context state of
        None \<Rightarrow> []
      | Some bc \<Rightarrow> [''Business Context: '' @ str_business_context sv bc])"

definition prior_output_parts :: "services \<Rightarrow> workflow_state \<Rightarrow> string list" where
  "prior_output_parts sv state =
     (if truthy (requirements_analysis state)
      then [''Requirements: '' @ fmt sv (requirements_analysis state)] else []) @
     (if truthy (research_findings state)
      then [''Research: '' @ fmt sv (research_findings state)] else []) @
     (if truthy (architecture_design state)
      then [''EXISTING ARCHITECTURE: '' @ fmt sv (architecture_design state), enhance_note]
      else [])"

subsection \<open>Steps and their output slots\<close>

definition step_names :: "string list" where
  "step_names =
     [''orchestrator'', ''requirements'', ''research'', ''architecture'', ''why_reasoning'',
      ''business_impact'', ''educational'', ''documentation'']"

definition agent_list :: "agents \<Rightarrow> (workflow_state \<Rightarrow> json result) list" where
  "agent_list ag =
     [orchestrator_agent ag, requirements_agent ag, research_agent ag, architecture_agent ag,
      why_reasoning_agent ag, business_impact_agent ag, educational_agent ag,
      documentation_agent ag]"

definition step_slots :: "workflow_state \<Rightarrow> (string \<times> json) list" where
  "step_slots state =
     [(''orchestrator'', orchestrator_plan state),
      (''requirements'', requirements_analysis state),
      (''research'', research_data state),
      (''architecture'', architecture_design state),
      (''why_reasoning'', why_reasoning state),
      (''business_impact'', business_impact state),
      (''educational'', educational_content state),
      (''documentation'', documentation state)]"

definition nonempty_mapping :: "json \<Rightarrow> bool" where
  "nonempty_mapping v = (case v of JObj kvs \<Rightarrow> kvs \<noteq> [] | _ \<Rightarrow> False)"

text \<open>The result of a \<^verbatim>\<open>process\<close> call holds a non-empty mapping under a key.\<close>

definition slot_filled :: "json \<Rightarrow> string \<Rightarrow> bool" where
  "slot_filled result key =
     (case py_get result key (JObj []) of Inr v \<Rightarrow> nonempty_mapping v | Inl e \<Rightarrow> False)"

text \<open>The invariant: the slot of every completed step is a non-empty mapping.\<close>

definition completed_slots_filled :: "workflow_state \<Rightarrow> bool" where
  "completed_slots_filled state =
     list_all (\<lambda>(name, slot). name \<in> set (completed_steps state) \<longrightarrow> nonempty_mapping slot)
       (step_slots state)"

text \<open>The process, the slot key and the fallback of the agent of each step.\<close>

definition process_of :: "services \<Rightarrow> string \<Rightarrow> workflow_state \<Rightarrow> json" where
  "process_of sv name =
     (if name = ''orchestrator'' then orchestrator_process sv
      else if name = ''requirements'' then requirements_process sv
      else if name = ''research'' then research_process sv
      else if name = ''architecture'' then architecture_process sv
      else if name = ''why_reasoning'' then why_reasoning_process sv
      else if name = ''business_impact'' then business_impact_process sv
      else if name = ''educational'' then educational_process sv
      else documentation_process sv)"

definition slot_key_of :: "string \<Rightarrow> string" where
  "slot_key_of name =
     (if name = ''orchestrator'' then ''orchestrator_plan''
      else if name = ''requirements'' then ''requirements_analysis''
      else if name = ''research'' then ''research_data''
      else if name = ''architecture'' then ''architecture_design''
      else if name = ''why_reasoning'' then ''why_reasoning''
      else if name = ''business_impact'' then ''business_impact''
      else if name = ''educational'' then ''educational_content''
      else ''documentation'')"

definition fallback_of :: "string \<Rightarrow> json" where
  "fallback_of name =
     (if name = ''orchestrator'' then get_fallback_plan
      else if name = ''requirements'' then get_fallback_analysis
      else if name = ''research'' then get_fallback_research
      else if name = ''architecture'' then get_fallback_architecture
      else if name = ''why_reasoning'' then get_fallback_reasoning
      else if name = ''business_impact'' then get_fallback_impact
      else if name = ''educational'' then get_fallback_educational_content
      else get_fallback_documentation)"

text \<open>The completion client fails at a call site: every call there raises.\<close>

definition completion_fails_at :: "services \<Rightarrow> string \<Rightarrow> bool" where
  "completion_fails_at sv name = (\<forall>prompt system. \<exists>e. groq_query sv name prompt system = Inl e)"

text \<open>
  The agent of a step catches a failure of the completion client: when every call at its
  site raises, its \<^verbatim>\<open>process\<close> returns its fallback under its slot key.
\<close>

definition caught_by_agent :: "services \<Rightarrow> workflow_state \<Rightarrow> string \<Rightarrow> bool" where
  "caught_by_agent sv state name =
     (completion_fails_at sv name \<longrightarrow>
      py_get (process_of sv name state) (slot_key_of name) (JObj []) = Inr (fallback_of name))"

subsection \<open>Pooled questions and actions\<close>

text \<open>
  The items pooled for the final response: the clarification questions followed by the
  \<^verbatim>\<open>question\<close> of the first two assessment questions; the lines of the first two
  milestones followed by the lines of the first two implementation phases.
\<close>

definition items_of :: "json \<Rightarrow> string \<Rightarrow> json list" where
  "items_of v k =
     (case v of
        JObj kvs \<Rightarrow> (case map_of kvs k of Some (JArr xs) \<Rightarrow> xs | _ \<Rightarrow> [])
      | _ \<Rightarrow> [])"

definition field_of :: "json \<Rightarrow> string \<Rightarrow> json" where
  "field_of v k =
     (case v of
        JObj kvs \<Rightarrow> (case map_of kvs k of Some x \<Rightarrow> x | None \<Rightarrow> JStr [])
      | _ \<Rightarrow> JStr [])"

definition pooled_questions :: "workflow_state \<Rightarrow> json list" where
  "pooled_questions state =
     items_of (requirements_analysis state) ''clarification_questions'' @
     map (\<lambda>q. field_of q ''question'')
       (take 2 (items_of (educational_content state) ''assessment_questions''))"

definition milestone_line :: "services \<Rightarrow> json \<Rightarrow> json" where
  "milestone_line sv m =
     JStr (''Achieve '' @ fmt sv (field_of m ''milestone'') @ '' within '' @
           fmt sv (field_of m ''timeline''))"

definition phase_line :: "services \<Rightarrow> json \<Rightarrow> json" where
  "phase_line sv p =
     JStr (''Phase '' @ fmt sv (field_of p ''phase'') @ '': '' @ fmt sv (field_of p ''name'') @
           '' ('' @ fmt sv (field_of p ''duration'') @ '')'')"

definition pooled_actions :: "services \<Rightarrow> workflow_state \<Rightarrow> json list" where
  "pooled_actions sv state =
     map (milestone_line sv)
       (take 2 (items_of (lookup_or_empty (business_impact state) ''timeline_impact'')
                  ''business_value_realization'')) @
     map (phase_line sv) (take 2 (items_of (architecture_design state) ''implementation_phases''))"

text \<open>
  The shapes the pooled items have in an agent's output: a slot is a mapping, a pooled
  key holds a list where present, and the entries read by key are mappings.
\<close>

definition list_where_present :: "json \<Rightarrow> string \<Rightarrow> bool" where
  "list_where_present v k =
     (case v of
        JObj kvs \<Rightarrow> (case map_of kvs k of None \<Rightarrow> True | Some (JArr xs) \<Rightarrow> True | Some _ \<Rightarrow> False)
      | _ \<Rightarrow> False)"

definition pooled_shapes :: "workflow_state \<Rightarrow> bool" where
  "pooled_shapes state =
     (list_where_present (requirements_analysis state) ''clarification_questions'' \<and>
      list_where_present (educational_content state) ''assessment_questions'' \<and>
      list_all is_dict (take 2 (items_of (educational_content state) ''assessment_questions'')) \<and>
      is_dict (business_impact state) \<and>
      is_dict (lookup_or_empty (business_impact state) ''timeline_impact'') \<and>
      list_where_present (lookup_or_empty (business_impact state) ''timeline_impact'')
        ''business_value_realization'' \<and>
      list_all is_dict
        (take 2 (items_of (lookup_or_empty (business_impact state) ''timeline_impact'')
                   ''business_value_realization'')) \<and>
      list_where_present (architecture_design state) ''implementation_phases'' \<and>
      list_all is_dict (take 2 (items_of (architecture_design state) ''implementation_phases'')))"

section \<open>Example inputs\<close>

text \<open>
  Services in which the completion client and the search client are unreachable and
  \<^verbatim>\<open>json.loads\<close> accepts only the text of the empty object; the text helpers are stubs.
  They give the closed examples below a concrete environment.
\<close>

definition offline_services :: services where
  "offline_services =
     \<lparr>groq_query = (\<lambda>site prompt system. Inl (ServiceError ''completion service unavailable'')),
      tavily_search = (\<lambda>q. Inl (ServiceError ''search service unavailable'')),
      json_loads = (\<lambda>s. if s = ''{}'' then Inr (JObj []) else Inl JSONDecodeError),
      task_prompt = (\<lambda>name state. Inr (''Task of '' @ name)),
      system_prompt = (\<lambda>name. ''System prompt of '' @ name),
      py_str = (\<lambda>v. ''<value>''),
      str_expertise =
        (\<lambda>l. case l of BEGINNER \<Rightarrow> ''BEGINNER'' | INTERMEDIATE \<Rightarrow> ''INTERMEDIATE''
              | ADVANCED \<Rightarrow> ''ADVANCED'' | EXPERT \<Rightarrow> ''EXPERT''),
      str_business_context = (\<lambda>bc. ''<business context>''),
      str_lower = (\<lambda>s. s),
      str_error = (\<lambda>e. ''<error>''),
      generate_visualization_data = (\<lambda>d. Inr (JObj [])),
      generate_decision_rationale = (\<lambda>s. Inr (JObj [])),
      calculate_roi_estimates = (\<lambda>d s. Inr (JObj [])),
      generate_learning_path = (\<lambda>s. Inr (JArr [])),
      generate_export_formats = (\<lambda>d s. Inr (JObj [])),
      generate_comprehensive_content = (\<lambda>s. Inr ''<summary>'')\<rparr>"

text \<open>The agents of the repository, with an architecture agent whose \<^verbatim>\<open>process\<close> raises.\<close>

definition architecture_failing_agents :: agents where
  "architecture_failing_agents =
     (sequential_agents offline_services)
       \<lparr>architecture_agent := (\<lambda>state. Inl (ServiceError ''architecture agent failed''))\<rparr>"

text \<open>Three architecture updates: the oldest, a later one, and a last one without components.\<close>

definition first_update :: json where
  "first_update =
     JObj [(''components'', JArr [JObj [(''id'', JStr ''web''), (''name'', JStr ''Web Shop'')]]),
           (''connections'', JArr [])]"

definition second_update :: json where
  "second_update =
     JObj [(''components'',
              JArr [JObj [(''id'', JStr ''web''), (''name'', JStr ''Web Shop'')],
                    JObj [(''id'', JStr ''db''), (''name'', JStr ''Orders Database'')]]),
           (''connections'',
              JArr [JObj [(''from_component'', JStr ''web''), (''to_component'', JStr ''db'')]])]"

definition update_message :: "json \<Rightarrow> (string \<times> json) list" where
  "update_message payload =
     [(''role'', JStr ''ASSISTANT''),
      (''content'', JStr ''Here is the architecture.''),
      (''messageType'', JStr ''ARCHITECTURE_UPDATE''),
      (''metadata'', JObj [(''agentResponse'', JObj [(''architectureUpdate'', payload)])])]"

definition user_message :: "string \<Rightarrow> (string \<times> json) list" where
  "user_message c =
     [(''role'', JStr ''USER''), (''content'', JStr c), (''messageType'', JStr ''TEXT''),
      (''metadata'', JObj [])]"

definition example_history :: "(string \<times> json) list list" where
  "example_history =
     [user_message ''I need an e-commerce platform'',
      update_message first_update,
      user_message ''Add an orders database'',
      update_message second_update,
      user_message ''Remove everything'',
      update_message (JObj [(''components'', JArr [])]),
      user_message ''Add analytics'']"

definition history_state :: workflow_state where
  "history_state = empty_state\<lparr>conversation_history := example_history\<rparr>"

text \<open>A history of eight messages, one of them with a content of 301 characters.\<close>

definition long_history :: "(string \<times> json) list list" where
  "long_history =
     [user_message ''one'', user_message ''two'', user_message ''three'',
      update_message first_update, user_message (replicate 301 (CHR ''x'')),
      user_message ''six'', user_message ''seven'', user_message ''eight'']"

definition long_history_state :: workflow_state where
  "long_history_state = empty_state\<lparr>conversation_history := long_history\<rparr>"

text \<open>A requirements analysis that holds the same clarification question twice.\<close>

definition repeated_question_state :: workflow_state where
  "repeated_question_state =
     empty_state\<lparr>requirements_analysis :=
       JObj [(''clarification_questions'',
                JArr [JStr ''What is the expected user load?'',
                      JStr ''What is the expected user load?''])]\<rparr>"

text \<open>The state after a research step that stored the fallback research.\<close>

definition researched_state :: workflow_state where
  "researched_state =
     empty_state\<lparr>research_data := get_fallback_research,
                 completed_steps := [''orchestrator'', ''requirements'', ''research''],
                 current_step := ''architecture''\<rparr>"

text \<open>An architecture slot that is not empty and holds no components.\<close>

definition draft_architecture :: json where
  "draft_architecture = JObj [(''notes'', JStr ''draft'')]"

section \<open>Proofs\<close>

lemma bind_result_simps [simp]:
  "bind_result (Inl e) f = Inl e"
  "bind_result (Inr v) f = f v"
  by (simp_all add: bind_result_def)

subsection \<open>Overall confidence\<close>







subsection \<open>The existing architecture\<close>

lemma scan_history_step:
  assumes "wire_format msg"
  shows "scan_history (msg # rest) =
           (if qualifies msg then Inr (update_payload msg) else scan_history rest)"
proof (cases "is_architecture_update msg")
  case False
  then show ?thesis
    by (auto simp: is_architecture_update_def qualifies_def dict_get_def split: option.splits)
next
  case True
  then have mt: "dict_get msg ''messageType'' JNull = JStr ''ARCHITECTURE_UPDATE''"
    by (simp add: is_architecture_update_def dict_get_def)
  from assms True have wf:
    "absent_or_dict (map_of msg ''metadata'')"
    "absent_or_dict (case lookup_or_empty (JObj msg) ''metadata'' of
                          JObj md \<Rightarrow> map_of md ''agentResponse'' | _ \<Rightarrow> None)"
    "false_or_dict (update_payload msg)"
    "false_or_list (lookup_or_empty (update_payload msg) ''components'')"
    by (simp_all add: wire_format_def)
  from wf(1) obtain md where md: "dict_get msg ''metadata'' (JObj []) = JObj md"
      "lookup_or_empty (JObj msg) ''metadata'' = JObj md"
    by (auto simp: absent_or_dict_def dict_get_def lookup_or_empty_def
             split: option.splits json.splits)
  from wf(2) md obtain ar where ar: "dict_get md ''agentResponse'' (JObj []) = JObj ar"
      "lookup_or_empty (JObj md) ''agentResponse'' = JObj ar"
    by (auto simp: absent_or_dict_def dict_get_def lookup_or_empty_def
             split: option.splits json.splits)
  have au: "update_payload msg = dict_get ar ''architectureUpdate'' (JObj [])"
    by (simp add: update_payload_def md ar) (simp add: lookup_or_empty_def dict_get_def)
  show ?thesis
  proof (cases "truthy (update_payload msg)")
    case False
    then have "component_list (update_payload msg) = []"
      by (cases "update_payload msg") (auto simp: component_list_def)
    with False show ?thesis
      by (simp add: mt md ar au [symmetric] qualifies_def)
  next
    case t: True
    with wf(3) obtain kvs where kvs: "update_payload msg = JObj kvs"
      by (cases "update_payload msg") (auto simp: false_or_dict_def)
    have "dict_get kvs ''components'' JNull = JArr (component_list (JObj kvs)) \<or>
          (\<not> truthy (dict_get kvs ''components'' JNull) \<and> component_list (JObj kvs) = [])"
      using wf(4) unfolding kvs
      by (auto simp: false_or_list_def lookup_or_empty_def component_list_def dict_get_def
               split: option.splits json.splits)
    with t True show ?thesis
      by (auto simp: mt md ar au [symmetric] qualifies_def kvs)
  qed
qed

lemma scan_history_find:
  "list_all wire_format msgs \<Longrightarrow>
   scan_history msgs =
     Inr (case List.find qualifies msgs of None \<Rightarrow> JObj [] | Some msg \<Rightarrow> update_payload msg)"
proof (induction msgs)
  case Nil
  then show ?case by simp
next
  case (Cons msg msgs)
  then have "wire_format msg" "list_all wire_format msgs" by simp_all
  with Cons.IH scan_history_step [of msg msgs] show ?case
    by simp
qed

text \<open>
  C1. When the architecture slot of the state is empty, \<^verbatim>\<open>_extract_existing_architecture\<close>
  scans the history from the most recent message and returns the payload at
  \<^verbatim>\<open>metadata.agentResponse.architectureUpdate\<close> of the most recent architecture update
  whose payload has a non-empty component list; older updates are not looked at, and
  the result is the empty architecture when no message qualifies. The history follows
  the wire format of architecture updates.
\<close>

theorem existing_architecture_most_recent:
  assumes "\<not> truthy (architecture_design state)"
      and "list_all wire_format (conversation_history state)"
  shows "extract_existing_architecture state =
           Inr (most_recent_architecture (conversation_history state))"
proof (cases "conversation_history state = []")
  case True
  with assms show ?thesis
    by (simp add: extract_existing_architecture_def most_recent_architecture_def)
next
  case False
  from assms(2) have "list_all wire_format (rev (conversation_history state))"
    by (simp add: list_all_iff)
  from scan_history_find [OF this] False assms(1) show ?thesis
    by (simp add: extract_existing_architecture_def most_recent_architecture_def)
qed

lemma example_history_wire_format: "list_all wire_format example_history"
  by (simp add: example_history_def wire_format_def is_architecture_update_def
        update_message_def user_message_def absent_or_dict_def lookup_or_empty_def
        update_payload_def false_or_dict_def false_or_list_def first_update_def
        second_update_def)

lemma example_history_most_recent: "most_recent_architecture example_history = second_update"
  by (simp add: most_recent_architecture_def example_history_def qualifies_def
        is_architecture_update_def update_message_def user_message_def lookup_or_empty_def
        update_payload_def component_list_def first_update_def second_update_def)

theorem existing_architecture_most_recent_witness:
  "\<not> truthy (architecture_design history_state) \<and>
   list_all wire_format (conversation_history history_state) \<and>
   extract_existing_architecture history_state = Inr second_update \<and>
   extract_existing_architecture empty_state = Inr (JObj [])"
proof -
  have a: "\<not> truthy (architecture_design history_state)"
    by (simp add: history_state_def empty_state_def)
  have b: "list_all wire_format (conversation_history history_state)"
    by (simp add: history_state_def example_history_wire_format)
  have c: "\<not> truthy (architecture_design empty_state)"
    by (simp add: empty_state_def)
  have d: "list_all wire_format (conversation_history empty_state)"
    by (simp add: empty_state_def)
  have e: "most_recent_architecture (conversation_history empty_state) = JObj []"
    by (simp add: empty_state_def most_recent_architecture_def)
  show ?thesis
    using existing_architecture_most_recent [OF a b] existing_architecture_most_recent [OF c d]
      a b e
    by (simp add: history_state_def example_history_most_recent)
qed

subsection \<open>Parsing of completions\<close>

lemma setdefault_keeps_key:
  "map_of kvs k \<noteq> None \<Longrightarrow> map_of (setdefault k' d kvs) k \<noteq> None"
  by (auto simp: setdefault_def)

lemma setdefault_adds_key: "map_of (setdefault k d kvs) k \<noteq> None"
  by (simp add: setdefault_def map_add_def)

lemma fold_setdefault_keeps_key:
  "map_of kvs k \<noteq> None \<Longrightarrow> map_of (fold (\<lambda>(k, d). setdefault k d) ds kvs) k \<noteq> None"
proof (induction ds arbitrary: kvs)
  case Nil
  then show ?case by simp
next
  case (Cons p ds)
  obtain k' d where p: "p = (k', d)" by (cases p)
  from Cons.prems have "map_of (setdefault k' d kvs) k \<noteq> None"
    by (rule setdefault_keeps_key)
  from Cons.IH [OF this] show ?case by (simp add: p)
qed

lemma fold_setdefault_adds_keys:
  "k \<in> set (map fst ds) \<Longrightarrow> map_of (fold (\<lambda>(k, d). setdefault k d) ds kvs) k \<noteq> None"
proof (induction ds arbitrary: kvs)
  case Nil
  then show ?case by simp
next
  case (Cons p ds)
  obtain k' d where p: "p = (k', d)" by (cases p)
  show ?case
  proof (cases "k = k'")
    case True
    have "map_of (setdefault k' d kvs) k \<noteq> None"
      unfolding True by (rule setdefault_adds_key)
    from fold_setdefault_keeps_key [OF this] show ?thesis by (simp add: p)
  next
    case False
    with Cons.prems have "k \<in> set (map fst ds)" by (simp add: p)
    from Cons.IH [OF this] show ?thesis by (simp add: p)
  qed
qed

lemma py_setdefaults_has_keys:
  assumes "py_setdefaults ds v = Inr r"
  shows "has_keys r (map fst ds)"
proof (cases v)
  case (JObj kvs)
  with assms have r: "r = JObj (fold (\<lambda>(k, d). setdefault k d) ds kvs)" by simp
  show ?thesis
    unfolding r has_keys_def list_all_iff
    using fold_setdefault_adds_keys [of _ ds kvs] by auto
qed (use assms in simp_all)





lemma no_json_in_plain_text: "extract_json_str ''I cannot answer that.'' = Inl (ValueError ''No JSON found in response'')"
  by (simp add: extract_json_str_def py_in_def starts_with_def)


lemma history_state_existing: "extract_existing_architecture history_state = Inr second_update"
  by (simp add: extract_existing_architecture_def history_state_def empty_state_def
        example_history_def update_message_def user_message_def dict_get_def
        first_update_def second_update_def)

text \<open>
  C2. When the design response of the architecture agent fails JSON extraction or
  deserialization and an existing architecture was identified before generation (it is
  stored in the agent as a true value), \<^verbatim>\<open>_parse_architecture_response\<close> returns that
  existing architecture itself, unchanged, not the static fallback.
\<close>

theorem parse_failure_keeps_existing:
  assumes "truthy existing"
      and "deserialization_fails sv response"
  shows "parse_architecture_response sv (Some existing) response = existing"
  using assms
  by (auto simp: parse_architecture_response_def parse_architecture_try_def
        deserialization_fails_def recovery_architecture_def split: sum.splits)

theorem parse_failure_keeps_existing_witness:
  "truthy second_update \<and>
   deserialization_fails offline_services ''I cannot answer that.'' \<and>
   extract_existing_architecture history_state = Inr second_update \<and>
   parse_architecture_response offline_services (Some second_update) ''I cannot answer that.'' =
     second_update \<and>
   second_update \<noteq> get_fallback_architecture"
proof -
  have a: "truthy second_update"
    by (simp add: second_update_def)
  have b: "deserialization_fails offline_services ''I cannot answer that.''"
    by (simp add: deserialization_fails_def no_json_in_plain_text)
  have c: "extract_existing_architecture history_state = Inr second_update"
    by (rule history_state_existing)
  have d: "second_update \<noteq> get_fallback_architecture"
    by (simp add: second_update_def get_fallback_architecture_def)
  from parse_failure_keeps_existing [OF a b] a b c d show ?thesis by simp
qed

text \<open>
  C10, at the input on which the code departs from it. The state's architecture slot
  holds a mapping without components; it is not empty, so it is taken as the existing
  architecture. The model answers with the empty object. The validator finds no
  components, substitutes those of the existing architecture, which has none, and the
  design it returns has an empty component list.
\<close>

theorem empty_components_survive_validation:
  "extract_existing_architecture (empty_state\<lparr>architecture_design := draft_architecture\<rparr>) =
     Inr draft_architecture \<and>
   bind_result (validate_architecture_design (Some draft_architecture) (JObj []))
     (\<lambda>design. py_get design ''components'' JNull) = Inr (JArr []) \<and>
   py_get (parse_architecture_response offline_services (Some draft_architecture) ''{}'')
     ''components'' JNull = Inr (JArr [])"
proof -
  have a: "extract_existing_architecture (empty_state\<lparr>architecture_design := draft_architecture\<rparr>) =
             Inr draft_architecture"
    by (simp add: extract_existing_architecture_def empty_state_def draft_architecture_def
          len_of_key_def dict_get_def)
  have b: "validate_architecture_design (Some draft_architecture) (JObj []) =
             Inr (JObj (architecture_defaults))"
    by (simp add: validate_architecture_design_def architecture_defaults_def setdefault_def
          dict_get_def recovery_architecture_def draft_architecture_def
          ensure_metadata_under_def)
  have c: "extract_json_str ''{}'' = Inr ''{}''"
    by (simp add: extract_json_str_def py_in_def starts_with_def py_find_def py_rfind_def
          py_slice_def slice_bound_def)
  have d: "parse_architecture_response offline_services (Some draft_architecture) ''{}'' =
             JObj architecture_defaults"
    by (simp add: parse_architecture_response_def parse_architecture_try_def c b
          offline_services_def)
  show ?thesis
    by (simp add: a b d) (simp add: architecture_defaults_def dict_get_def)
qed

subsection \<open>The context prompt\<close>

lemma py_slice_first_300: "py_slice c None (Some 300) = take 300 c"
  by (simp add: py_slice_def slice_bound_def min_def)

lemma truncate_text: "truncate_content (JStr c) = Inr (JStr (cut_to_300 c))"
  by (simp add: cut_to_300_def py_slice_first_300)

lemma recent_messages_last_six:
  "(if 6 < length h then py_slice h (Some (- 6)) None else h) = last_six h"
proof -
  have "nat (int (length h) - 6) = length h - 6" by linarith
  then show ?thesis
    by (simp add: py_slice_def slice_bound_def last_six_def)
qed

lemma render_message_entry:
  assumes "text_content msg"
  shows "render_messages sv (msg # rest) acc =
           render_messages sv rest (acc @ [render_entry sv msg])"
proof -
  from assms have c: "dict_get msg ''content'' (JStr []) = JStr (content_text msg)"
    by (auto simp: text_content_def dict_get_def content_text_def
             split: option.splits json.splits)
  have t: "(dict_get msg ''messageType'' (JStr []) = JStr ''ARCHITECTURE_UPDATE'') =
             is_architecture_update msg"
    by (auto simp: dict_get_def is_architecture_update_def split: option.splits)
  show ?thesis
    by (simp add: c t truncate_text render_entry_def fmt_def Let_def
          del: truncate_content.simps)
qed

lemma render_messages_map:
  "list_all text_content msgs \<Longrightarrow>
   render_messages sv msgs acc = Inr (acc @ map (render_entry sv) msgs)"
proof (induction msgs arbitrary: acc)
  case Nil
  then show ?case by simp
next
  case (Cons msg msgs)
  then have msg: "text_content msg" and msgs: "list_all text_content msgs" by simp_all
  have "render_messages sv (msg # msgs) acc =
          render_messages sv msgs (acc @ [render_entry sv msg])"
    using msg by (rule render_message_entry)
  also have "\<dots> = Inr ((acc @ [render_entry sv msg]) @ map (render_entry sv) msgs)"
    using msgs by (rule Cons.IH)
  finally show ?case by simp
qed

text \<open>
  C4. When the history of a state is not empty, the context parts built by
  \<^verbatim>\<open>_build_context_prompt\<close> hold, after the identity lines and before the prior outputs,
  the heading, then exactly the last six history entries in their order (all of them
  when there are six or fewer), each rendered as \<^verbatim>\<open>- {role}: {content}\<close> with a content
  of more than 300 characters cut to 300 and an ellipsis and with the tag
  \<^verbatim>\<open>[ARCHITECTURE UPDATE]\<close> on architecture updates, then the fixed instruction line;
  when the history is empty none of these lines is there. The prompt is the parts joined
  by newlines, followed by the task. The contents of the messages are text.
\<close>

theorem context_prompt_history_section:
  assumes "list_all text_content (last_six (conversation_history state))"
  shows "build_context_parts sv state =
           Inr (identity_parts sv state @ history_section sv (conversation_history state) @
                prior_output_parts sv state) \<and>
         build_context_prompt sv prompt state =
           Inr (py_join [CHR 0x0A]
                  (identity_parts sv state @ history_section sv (conversation_history state) @
                   prior_output_parts sv state) @
                [CHR 0x0A, CHR 0x0A] @ ''Current Task: '' @ prompt)"
proof -
  have parts: "build_context_parts sv state =
           Inr (identity_parts sv state @ history_section sv (conversation_history state) @
                prior_output_parts sv state)"
  proof (cases "conversation_history state = []")
    case True
    then show ?thesis
      by (simp add: build_context_parts_def identity_parts_def history_section_def
            prior_output_parts_def Let_def split: option.splits)
  next
    case False
    with render_messages_map [OF assms, of sv] show ?thesis
      by (simp add: build_context_parts_def identity_parts_def history_section_def
            prior_output_parts_def Let_def recent_messages_last_six split: option.splits)
  qed
  then show ?thesis
    by (simp add: build_context_prompt_def)
qed

lemma long_history_text: "list_all text_content (last_six long_history)"
  by (simp add: long_history_def last_six_def text_content_def user_message_def
        update_message_def)

lemma long_history_section:
  "history_section offline_services long_history =
     [history_header,
      ''- USER: three'',
      ''- ASSISTANT: [ARCHITECTURE UPDATE] Here is the architecture.'',
      ''- USER: '' @ replicate 300 (CHR ''x'') @ ''...'',
      ''- USER: six'',
      ''- USER: seven'',
      ''- USER: eight'',
      history_note]"
  by (simp add: history_section_def long_history_def last_six_def render_entry_def
        user_message_def update_message_def dict_get_def fmt_def is_architecture_update_def
        content_text_def cut_to_300_def)

theorem context_prompt_history_section_witness:
  "list_all text_content (last_six (conversation_history long_history_state)) \<and>
   build_context_parts offline_services long_history_state =
     Inr [''User Query: I need a blog platform'',
          ''User Expertise: INTERMEDIATE'',
          history_header,
          ''- USER: three'',
          ''- ASSISTANT: [ARCHITECTURE UPDATE] Here is the architecture.'',
          ''- USER: '' @ replicate 300 (CHR ''x'') @ ''...'',
          ''- USER: six'',
          ''- USER: seven'',
          ''- USER: eight'',
          history_note] \<and>
   list_all text_content (last_six (conversation_history empty_state)) \<and>
   build_context_parts offline_services empty_state =
     Inr [''User Query: I need a blog platform'', ''User Expertise: INTERMEDIATE'']"
proof -
  have a: "list_all text_content (last_six (conversation_history long_history_state))"
    by (simp add: long_history_state_def long_history_text)
  have b: "list_all text_content (last_six (conversation_history empty_state))"
    by (simp add: empty_state_def last_six_def)
  have c: "identity_parts offline_services long_history_state =
             [''User Query: I need a blog platform'', ''User Expertise: INTERMEDIATE'']"
          "identity_parts offline_services empty_state =
             [''User Query: I need a blog platform'', ''User Expertise: INTERMEDIATE'']"
    by (simp_all add: identity_parts_def long_history_state_def empty_state_def
          offline_services_def)
  have d: "prior_output_parts offline_services long_history_state = []"
          "prior_output_parts offline_services empty_state = []"
    by (simp_all add: prior_output_parts_def long_history_state_def empty_state_def)
  have e: "conversation_history long_history_state = long_history"
          "history_section offline_services (conversation_history empty_state) = []"
    by (simp_all add: long_history_state_def history_section_def empty_state_def)
  from context_prompt_history_section [OF a, of offline_services]
       context_prompt_history_section [OF b, of offline_services] a b
  show ?thesis
    by (simp add: c d e long_history_section)
qed

text \<open>
  C9, at the input on which the code departs from it. The research step stores its
  output in \<^verbatim>\<open>research_data\<close> and leaves \<^verbatim>\<open>research_findings\<close>, the field the context
  prompt reads, as it was. In the state after a research step that stored the fallback
  research, the research slot is not empty and the context prompt has no research
  section.
\<close>

theorem research_output_not_in_context:
  "research_findings (fst (step_research (sequential_agents sv) state)) = research_findings state \<and>
   truthy (research_data researched_state) \<and>
   build_context_parts sv researched_state =
     Inr [''User Query: I need a blog platform'',
          ''User Expertise: '' @ str_expertise sv INTERMEDIATE]"
proof -
  have "research_findings (fst (step_research (sequential_agents sv) state)) =
          research_findings state"
    by (simp add: step_research_def run_step_def sequential_agents_def Let_def
          split: sum.splits)
  moreover have "truthy (research_data researched_state)"
    by (simp add: researched_state_def get_fallback_research_def)
  moreover have "build_context_parts sv researched_state =
     Inr [''User Query: I need a blog platform'',
          ''User Expertise: '' @ str_expertise sv INTERMEDIATE]"
    by (simp add: build_context_parts_def researched_state_def empty_state_def)
  ultimately show ?thesis by simp
qed

subsection \<open>Next questions and suggested actions\<close>

lemma py_slice_first_4: "py_slice xs None (Some 4) = take 4 xs"
  by (simp add: py_slice_def slice_bound_def min_def)

lemma py_take_2_list: "py_take 2 (JArr xs) = Inr (JArr (take 2 xs))"
  by (simp add: py_slice_def slice_bound_def min_def)

lemma question_texts_map:
  "list_all is_dict qs \<Longrightarrow> question_texts qs = Inr (map (\<lambda>q. field_of q ''question'') qs)"
proof (induction qs)
  case Nil
  then show ?case by simp
next
  case (Cons q qs)
  then obtain kvs where "q = JObj kvs"
    by (cases q) (simp_all add: is_dict_def)
  with Cons show ?case
    by (simp add: field_of_def dict_get_def split: option.splits)
qed

lemma map_result_map:
  assumes "\<And>x. x \<in> set xs \<Longrightarrow> f x = Inr (g x)"
  shows "map_result f xs = Inr (map g xs)"
  using assms by (induction xs) simp_all

lemma milestone_action_line: "is_dict m \<Longrightarrow> milestone_action sv m = Inr (milestone_line sv m)"
  by (cases m)
     (simp_all add: is_dict_def milestone_action_def milestone_line_def field_of_def
        dict_get_def split: option.splits)

lemma phase_action_line: "is_dict p \<Longrightarrow> phase_action sv p = Inr (phase_line sv p)"
  by (cases p)
     (simp_all add: is_dict_def phase_action_def phase_line_def field_of_def dict_get_def
        split: option.splits)

lemma list_where_present_get:
  assumes "list_where_present v k"
  shows "py_get v k (JArr []) = Inr (JArr (items_of v k))"
  using assms
  by (cases v)
     (auto simp: list_where_present_def items_of_def dict_get_def
           split: option.splits json.splits)

lemma items_of_empty: "\<not> truthy v \<Longrightarrow> items_of v k = []"
  by (cases v) (simp_all add: items_of_def)

lemma requirement_questions_items:
  assumes "list_where_present (requirements_analysis state) ''clarification_questions''"
  shows "requirement_questions state =
           Inr (items_of (requirements_analysis state) ''clarification_questions'')"
  using list_where_present_get [OF assms]
  by (simp add: requirement_questions_def items_of_empty)

lemma first_two_lines:
  assumes "list_where_present v k"
      and "\<And>x. x \<in> set (take 2 (items_of v k)) \<Longrightarrow> f x = Inr (g x)"
  shows "bind_result (py_get v k (JArr []))
           (\<lambda>xs. if truthy xs then bind_result (bind_result (py_take 2 xs) py_iter) (map_result f)
                  else Inr []) =
         Inr (map g (take 2 (items_of v k)))"
proof (cases "items_of v k = []")
  case True
  with list_where_present_get [OF assms(1)] show ?thesis by simp
next
  case False
  with list_where_present_get [OF assms(1)] map_result_map [of "take 2 (items_of v k)" f g]
    assms(2)
  show ?thesis by (simp add: py_take_2_list del: py_take.simps)
qed

lemma assessment_questions_items:
  assumes "list_where_present (educational_content state) ''assessment_questions''"
      and "list_all is_dict (take 2 (items_of (educational_content state) ''assessment_questions''))"
  shows "assessment_questions state =
           Inr (map (\<lambda>q. field_of q ''question'')
                  (take 2 (items_of (educational_content state) ''assessment_questions'')))"
proof (cases "truthy (educational_content state)")
  case False
  then show ?thesis
    by (simp add: assessment_questions_def items_of_empty)
next
  case True
  let ?xs = "items_of (educational_content state) ''assessment_questions''"
  show ?thesis
  proof (cases "?xs = []")
    case e: True
    with True list_where_present_get [OF assms(1)] show ?thesis
      by (simp add: assessment_questions_def)
  next
    case ne: False
    with True list_where_present_get [OF assms(1)] question_texts_map [OF assms(2)]
    show ?thesis
      by (simp add: assessment_questions_def py_take_2_list del: py_take.simps)
  qed
qed

lemma milestone_actions_items:
  assumes "is_dict (business_impact state)"
      and "is_dict (lookup_or_empty (business_impact state) ''timeline_impact'')"
      and "list_where_present (lookup_or_empty (business_impact state) ''timeline_impact'')
             ''business_value_realization''"
      and "list_all is_dict
             (take 2 (items_of (lookup_or_empty (business_impact state) ''timeline_impact'')
                        ''business_value_realization''))"
  shows "milestone_actions sv state =
           Inr (map (milestone_line sv)
                  (take 2 (items_of (lookup_or_empty (business_impact state) ''timeline_impact'')
                             ''business_value_realization'')))"
proof -
  let ?tl = "lookup_or_empty (business_impact state) ''timeline_impact''"
  from assms(1) obtain kvs where kvs: "business_impact state = JObj kvs"
    by (cases "business_impact state") (simp_all add: is_dict_def)
  have tl: "py_get (business_impact state) ''timeline_impact'' (JObj []) = Inr ?tl"
    by (simp add: kvs lookup_or_empty_def dict_get_def)
  have lines: "\<And>x. x \<in> set (take 2 (items_of ?tl ''business_value_realization'')) \<Longrightarrow>
                 milestone_action sv x = Inr (milestone_line sv x)"
    using assms(4) by (simp add: list_all_iff milestone_action_line)
  show ?thesis
  proof (cases "truthy (business_impact state)")
    case False
    then have "kvs = []" by (simp add: kvs)
    then show ?thesis
      by (simp add: milestone_actions_def kvs lookup_or_empty_def items_of_def)
  next
    case True
    show ?thesis
    proof (cases "truthy ?tl")
      case False
      with True tl show ?thesis
        by (simp add: milestone_actions_def items_of_empty)
    next
      case t: True
      with True tl first_two_lines [OF assms(3) lines] show ?thesis
        by (simp add: milestone_actions_def)
    qed
  qed
qed

lemma phase_actions_items:
  assumes "list_where_present (architecture_design state) ''implementation_phases''"
      and "list_all is_dict (take 2 (items_of (architecture_design state) ''implementation_phases''))"
  shows "phase_actions sv state =
           Inr (map (phase_line sv)
                  (take 2 (items_of (architecture_design state) ''implementation_phases'')))"
proof -
  have lines: "\<And>x. x \<in> set (take 2 (items_of (architecture_design state) ''implementation_phases''))
                 \<Longrightarrow> phase_action sv x = Inr (phase_line sv x)"
    using assms(2) by (simp add: list_all_iff phase_action_line)
  show ?thesis
  proof (cases "truthy (architecture_design state)")
    case False
    then show ?thesis by (simp add: phase_actions_def items_of_empty)
  next
    case True
    with first_two_lines [OF assms(1) lines] show ?thesis
      by (simp add: phase_actions_def)
  qed
qed

text \<open>
  C8, as the code has it. The next questions are the clarification questions of the
  requirements analysis followed by the questions of the first two assessment questions
  of the educational content; the suggested actions are the lines of the first two
  milestones of the business impact followed by the lines of the first two
  implementation phases of the architecture design. Each list is cut to its first four
  entries and keeps repeated entries; when nothing was pooled the list is the static
  fallback list. The pooled entries have the shapes the agents give them.
\<close>

theorem questions_and_actions_pooled:
  assumes "pooled_shapes state"
  shows "extract_comprehensive_questions state =
           Inr (take 4 (if pooled_questions state = [] then default_questions
                        else pooled_questions state)) \<and>
         extract_comprehensive_actions sv state =
           Inr (take 4 (if pooled_actions sv state = [] then default_actions
                        else pooled_actions sv state))"
proof
  from assms have q:
    "list_where_present (requirements_analysis state) ''clarification_questions''"
    "list_where_present (educational_content state) ''assessment_questions''"
    "list_all is_dict (take 2 (items_of (educational_content state) ''assessment_questions''))"
    by (simp_all add: pooled_shapes_def)
  show "extract_comprehensive_questions state =
           Inr (take 4 (if pooled_questions state = [] then default_questions
                        else pooled_questions state))"
    by (simp add: extract_comprehensive_questions_def requirement_questions_items [OF q(1)]
          assessment_questions_items [OF q(2) q(3)] pooled_questions_def py_slice_first_4
          Let_def)
  from assms have a:
    "is_dict (business_impact state)"
    "is_dict (lookup_or_empty (business_impact state) ''timeline_impact'')"
    "list_where_present (lookup_or_empty (business_impact state) ''timeline_impact'')
       ''business_value_realization''"
    "list_all is_dict
       (take 2 (items_of (lookup_or_empty (business_impact state) ''timeline_impact'')
                  ''business_value_realization''))"
    "list_where_present (architecture_design state) ''implementation_phases''"
    "list_all is_dict (take 2 (items_of (architecture_design state) ''implementation_phases''))"
    by (simp_all add: pooled_shapes_def)
  show "extract_comprehensive_actions sv state =
           Inr (take 4 (if pooled_actions sv state = [] then default_actions
                        else pooled_actions sv state))"
    by (simp add: extract_comprehensive_actions_def
          milestone_actions_items [OF a(1) a(2) a(3) a(4)] phase_actions_items [OF a(5) a(6)]
          pooled_actions_def py_slice_first_4 Let_def)
qed

lemma repeated_question_shapes: "pooled_shapes repeated_question_state"
  by (simp add: pooled_shapes_def repeated_question_state_def empty_state_def
        list_where_present_def items_of_def is_dict_def lookup_or_empty_def)

lemma repeated_question_pool:
  "pooled_questions repeated_question_state =
     [JStr ''What is the expected user load?'', JStr ''What is the expected user load?'']"
  "pooled_actions sv repeated_question_state = []"
  by (simp_all add: pooled_questions_def pooled_actions_def repeated_question_state_def
        empty_state_def items_of_def lookup_or_empty_def)

theorem questions_and_actions_pooled_witness:
  "pooled_shapes repeated_question_state \<and>
   extract_comprehensive_questions repeated_question_state =
     Inr [JStr ''What is the expected user load?'', JStr ''What is the expected user load?''] \<and>
   extract_comprehensive_actions offline_services repeated_question_state = Inr default_actions"
  using questions_and_actions_pooled [OF repeated_question_shapes, of offline_services]
    repeated_question_shapes
  by (simp add: repeated_question_pool default_actions_def)

text \<open>
  The claim as stated fails: a clarification question that the requirements analysis
  holds twice appears twice among the next questions.
\<close>

theorem next_questions_not_deduplicated:
  "extract_comprehensive_questions repeated_question_state =
     Inr [JStr ''What is the expected user load?'', JStr ''What is the expected user load?''] \<and>
   \<not> distinct [JStr ''What is the expected user load?'', JStr ''What is the expected user load?'']"
  by (simp add: extract_comprehensive_questions_def requirement_questions_def
        assessment_questions_def repeated_question_state_def empty_state_def dict_get_def
        py_slice_def slice_bound_def)

subsection \<open>The agents fill their slots\<close>

lemma bind_result_Inr_iff: "(bind_result m f = Inr r) = (\<exists>v. m = Inr v \<and> f v = Inr r)"
  by (cases m) auto

lemma dict_set_nonempty: "dict_set k v kvs \<noteq> []"
  by (cases kvs) (auto split: if_splits)

lemma py_setitem_nonempty: "py_setitem d k v = Inr r \<Longrightarrow> nonempty_mapping r"
  by (cases d) (auto simp: nonempty_mapping_def dict_set_nonempty)

lemma has_key_nonempty: "has_key v k \<Longrightarrow> nonempty_mapping v"
  by (cases v) (auto simp: nonempty_mapping_def)

lemma py_setdefaults_nonempty:
  assumes "py_setdefaults ds v = Inr r" and "ds \<noteq> []"
  shows "nonempty_mapping r"
proof -
  from assms(2) obtain k where "k \<in> set (map fst ds)" by (cases ds) auto
  with py_setdefaults_has_keys [OF assms(1)] have "has_key r k"
    by (auto simp: has_keys_def list_all_iff)
  then show ?thesis by (rule has_key_nonempty)
qed

lemma force_list_nonempty: "kvs \<noteq> [] \<Longrightarrow> force_list k kvs \<noteq> []"
  by (auto simp: force_list_def dict_set_nonempty split: json.splits)

lemma fallbacks_nonempty:
  "nonempty_mapping get_fallback_plan"
  "nonempty_mapping get_default_plan"
  "nonempty_mapping get_fallback_analysis"
  "nonempty_mapping get_default_analysis"
  "nonempty_mapping get_fallback_research"
  "nonempty_mapping get_fallback_architecture"
  "nonempty_mapping get_fallback_reasoning"
  "nonempty_mapping get_fallback_impact"
  "nonempty_mapping get_fallback_educational_content"
  "nonempty_mapping get_fallback_documentation"
  by (simp_all add: nonempty_mapping_def get_fallback_plan_def get_default_plan_def
        get_fallback_analysis_def get_default_analysis_def get_fallback_research_def
        get_fallback_architecture_def get_fallback_reasoning_def get_fallback_impact_def
        get_fallback_educational_content_def get_fallback_documentation_def)

lemma py_setdefaults_dict: "py_setdefaults ds v = Inr r \<Longrightarrow> \<exists>kvs. r = JObj kvs"
  by (cases v) auto

lemma validate_orchestration_plan_nonempty:
  assumes "validate_orchestration_plan plan = Inr r"
  shows "nonempty_mapping r"
proof -
  from assms obtain plan1 where p1: "py_setdefaults orchestration_defaults plan = Inr plan1"
    by (auto simp: validate_orchestration_plan_def bind_result_Inr_iff)
  from py_setdefaults_dict [OF p1] obtain kvs where kvs: "plan1 = JObj kvs" by blast
  from assms p1 kvs obtain required where
    "r = JObj (dict_set ''workflow_type'' (JStr ''SEQUENTIAL'')
                (dict_set ''agents_required'' required kvs)) \<or>
     r = JObj (dict_set ''agents_required'' required kvs)"
    by (auto simp: validate_orchestration_plan_def bind_result_Inr_iff Let_def
             split: if_splits)
  then show ?thesis
    by (auto simp: nonempty_mapping_def dict_set_nonempty)
qed

lemma parse_orchestration_nonempty: "nonempty_mapping (parse_orchestration_response sv response)"
proof (cases "brace_match response")
  case None
  then show ?thesis
    by (simp add: parse_orchestration_response_def extract_plan_from_text_def
          nonempty_mapping_def Let_def)
next
  case (Some m)
  show ?thesis
  proof (cases "bind_result (json_loads sv m) validate_orchestration_plan")
    case (Inl e)
    with Some show ?thesis
      by (simp add: parse_orchestration_response_def fallbacks_nonempty)
  next
    case (Inr r)
    then have "nonempty_mapping r"
      by (auto simp: bind_result_Inr_iff dest: validate_orchestration_plan_nonempty)
    with Some Inr show ?thesis
      by (simp add: parse_orchestration_response_def)
  qed
qed

lemma validate_requirements_nonempty:
  assumes "validate_requirements_analysis analysis = Inr r"
  shows "nonempty_mapping r"
proof -
  from assms obtain a1 where a1: "py_setdefaults requirements_defaults analysis = Inr a1"
    by (auto simp: validate_requirements_analysis_def bind_result_Inr_iff)
  from py_setdefaults_dict [OF a1] obtain kvs where kvs: "a1 = JObj kvs" by blast
  from assms a1 kvs have r: "r = JObj (force_list ''non_functional_requirements''
                          (force_list ''functional_requirements'' kvs))"
    by (auto simp: validate_requirements_analysis_def)
  from py_setdefaults_nonempty [OF a1] have "kvs \<noteq> []"
    by (simp add: requirements_defaults_def nonempty_mapping_def kvs)
  then show ?thesis
    by (simp add: r nonempty_mapping_def force_list_nonempty)
qed

lemma parse_requirements_nonempty: "nonempty_mapping (parse_requirements_response sv response)"
proof (cases "brace_match response")
  case None
  then show ?thesis
    by (simp add: parse_requirements_response_def extract_requirements_from_text_def
          nonempty_mapping_def Let_def)
next
  case (Some m)
  show ?thesis
  proof (cases "bind_result (json_loads sv m) validate_requirements_analysis")
    case (Inl e)
    with Some show ?thesis
      by (simp add: parse_requirements_response_def fallbacks_nonempty)
  next
    case (Inr r)
    then have "nonempty_mapping r"
      by (auto simp: bind_result_Inr_iff dest: validate_requirements_nonempty)
    with Some Inr show ?thesis
      by (simp add: parse_requirements_response_def)
  qed
qed

lemma parse_research_nonempty: "nonempty_mapping (parse_research_response sv response)"
proof (cases "parse_research_try sv response")
  case (Inl e)
  then show ?thesis by (simp add: parse_research_response_def fallbacks_nonempty)
next
  case (Inr r)
  then obtain v where "py_setdefaults research_defaults v = Inr r"
    by (auto simp: parse_research_try_def parse_try_def bind_result_Inr_iff)
  from py_setdefaults_nonempty [OF this] Inr show ?thesis
    by (simp add: parse_research_response_def research_defaults_def)
qed

lemma add_external_sources_nonempty:
  assumes "add_external_sources sv d = Inr r" and "nonempty_mapping d"
  shows "nonempty_mapping r"
proof -
  from assms(1) have "r = d \<or> (\<exists>k v. py_setitem d k v = Inr r)"
    by (auto simp: add_external_sources_def bind_result_Inr_iff split: if_splits)
  with assms(2) show ?thesis
    by (auto dest: py_setitem_nonempty)
qed

lemma orchestrator_fills: "slot_filled (orchestrator_process sv state) ''orchestrator_plan''"
proof (cases "bind_result (task_prompt sv ''orchestrator'' state) (\<lambda>orchestration_prompt.
             bind_result (query_groq_with_context sv ''orchestrator'' orchestration_prompt state)
               (\<lambda>response.
                  let plan = parse_orchestration_response sv response
                  in bind_result (len_of_key plan ''agents_required'')
                       (\<lambda>n. Inr (JObj [(''orchestrator_plan'', plan)]))))")
  case (Inl e)
  then show ?thesis
    by (simp add: orchestrator_process_def slot_filled_def dict_get_def fallbacks_nonempty)
next
  case (Inr r)
  then obtain response where "r = JObj [(''orchestrator_plan'', parse_orchestration_response sv response)]"
    by (auto simp: bind_result_Inr_iff Let_def)
  with Inr show ?thesis
    by (simp add: orchestrator_process_def slot_filled_def dict_get_def
          parse_orchestration_nonempty)
qed

lemma requirements_fills: "slot_filled (requirements_process sv state) ''requirements_analysis''"
proof (cases "bind_result (task_prompt sv ''requirements'' state) (\<lambda>requirements_prompt.
             bind_result (query_groq_with_context sv ''requirements'' requirements_prompt state)
               (\<lambda>response.
                  let analysis = parse_requirements_response sv response
                  in bind_result (len_of_key analysis ''functional_requirements'') (\<lambda>n.
                     bind_result (len_of_key analysis ''non_functional_requirements'') (\<lambda>m.
                       Inr (JObj [(''requirements_analysis'', analysis)])))))")
  case (Inl e)
  then show ?thesis
    by (simp add: requirements_process_def slot_filled_def dict_get_def fallbacks_nonempty)
next
  case (Inr r)
  then obtain response where
    "r = JObj [(''requirements_analysis'', parse_requirements_response sv response)]"
    by (auto simp: bind_result_Inr_iff Let_def)
  with Inr show ?thesis
    by (simp add: requirements_process_def slot_filled_def dict_get_def
          parse_requirements_nonempty)
qed

lemma research_fills: "slot_filled (research_process sv state) ''research_data''"
proof (cases "bind_result (task_prompt sv ''research'' state) (\<lambda>research_prompt.
             bind_result (groq_query sv ''research'' research_prompt (system_prompt sv ''research''))
               (\<lambda>research_response.
                  bind_result (add_external_sources sv (parse_research_response sv research_response))
                    (\<lambda>research_data.
                       bind_result (len_of_key research_data ''architecture_patterns'') (\<lambda>n.
                         bind_result (py_get research_data ''confidence_score'' (JNum (8 / 10)))
                           (\<lambda>confidence.
                              Inr (JObj [(''success'', JBool True),
                                         (''research_data'', research_data),
                                         (''agent'', JStr ''research''),
                                         (''confidence'', confidence)]))))))")
  case (Inl e)
  then show ?thesis
    by (simp add: research_process_def slot_filled_def dict_get_def fallbacks_nonempty)
next
  case (Inr r)
  then obtain response d confidence where
      d: "add_external_sources sv (parse_research_response sv response) = Inr d"
    and r: "r = JObj [(''success'', JBool True), (''research_data'', d),
                      (''agent'', JStr ''research''), (''confidence'', confidence)]"
    by (auto simp: bind_result_Inr_iff)
  from add_external_sources_nonempty [OF d parse_research_nonempty]
  have "nonempty_mapping d" .
  with Inr r show ?thesis
    by (simp add: research_process_def slot_filled_def dict_get_def)
qed

lemma architecture_fills: "slot_filled (architecture_process sv state) ''architecture_design''"
proof (cases "bind_result (extract_existing_architecture state) (\<lambda>existing_architecture.
             bind_result (task_prompt sv ''architecture'' state) (\<lambda>architecture_prompt.
               bind_result
                 (groq_query sv ''architecture'' architecture_prompt (system_prompt sv ''architecture''))
                 (\<lambda>architecture_response.
                    let parsed = parse_architecture_response sv (Some existing_architecture)
                                   architecture_response
                    in bind_result (generate_visualization_data sv parsed) (\<lambda>visualization.
                         bind_result (py_setitem parsed ''visualization_data'' visualization)
                           (\<lambda>architecture_design.
                              bind_result (len_of_key architecture_design ''components'') (\<lambda>n.
                                bind_result
                                  (py_get architecture_design ''confidence_score'' (JNum (85 / 100)))
                                  (\<lambda>confidence.
                                     Inr (JObj [(''success'', JBool True),
                                                (''architecture_design'', architecture_design),
                                                (''agent'', JStr ''architecture''),
                                                (''confidence'', confidence)]))))))))")
  case (Inl e)
  then show ?thesis
    by (simp add: architecture_process_def slot_filled_def dict_get_def fallbacks_nonempty)
next
  case (Inr r)
  then obtain parsed visualization d confidence where
      d: "py_setitem parsed ''visualization_data'' visualization = Inr d"
    and r: "r = JObj [(''success'', JBool True), (''architecture_design'', d),
                      (''agent'', JStr ''architecture''), (''confidence'', confidence)]"
    by (auto simp: bind_result_Inr_iff Let_def)
  from py_setitem_nonempty [OF d] have "nonempty_mapping d" .
  with Inr r show ?thesis
    by (simp add: architecture_process_def slot_filled_def dict_get_def)
qed

lemma decorated_fills:
  assumes "nonempty_mapping fallback" and "slot \<noteq> ''success''" and "slot \<noteq> ''error''"
  shows "slot_filled
           (decorated_process sv name slot parse extra_key extra counted conf fallback state) slot"
proof (cases "bind_result (task_prompt sv name state) (\<lambda>prompt.
             bind_result (groq_query sv name prompt (system_prompt sv name)) (\<lambda>response.
               let parsed = parse response
               in bind_result (extra parsed) (\<lambda>derived.
                    bind_result (py_setitem parsed extra_key derived) (\<lambda>data.
                      bind_result (len_of_key data counted) (\<lambda>n.
                        bind_result (py_get data ''confidence_score'' (JNum conf))
                          (\<lambda>confidence.
                             Inr (JObj [(''success'', JBool True),
                                        (slot, data),
                                        (''agent'', JStr name),
                                        (''confidence'', confidence)])))))))")
  case (Inl e)
  with assms show ?thesis
    by (simp add: decorated_process_def slot_filled_def dict_get_def)
next
  case (Inr r)
  then obtain parsed derived d confidence where
      d: "py_setitem parsed extra_key derived = Inr d"
    and r: "r = JObj [(''success'', JBool True), (slot, d),
                      (''agent'', JStr name), (''confidence'', confidence)]"
    by (auto simp: bind_result_Inr_iff Let_def)
  from py_setitem_nonempty [OF d] have "nonempty_mapping d" .
  with Inr r assms show ?thesis
    by (simp add: decorated_process_def slot_filled_def dict_get_def)
qed

lemma process_of_names:
  "process_of sv ''orchestrator'' = orchestrator_process sv"
  "process_of sv ''requirements'' = requirements_process sv"
  "process_of sv ''research'' = research_process sv"
  "process_of sv ''architecture'' = architecture_process sv"
  "process_of sv ''why_reasoning'' = why_reasoning_process sv"
  "process_of sv ''business_impact'' = business_impact_process sv"
  "process_of sv ''educational'' = educational_process sv"
  "process_of sv ''documentation'' = documentation_process sv"
  by (simp_all add: process_of_def)

lemma slot_key_of_names:
  "slot_key_of ''orchestrator'' = ''orchestrator_plan''"
  "slot_key_of ''requirements'' = ''requirements_analysis''"
  "slot_key_of ''research'' = ''research_data''"
  "slot_key_of ''architecture'' = ''architecture_design''"
  "slot_key_of ''why_reasoning'' = ''why_reasoning''"
  "slot_key_of ''business_impact'' = ''business_impact''"
  "slot_key_of ''educational'' = ''educational_content''"
  "slot_key_of ''documentation'' = ''documentation''"
  by (simp_all add: slot_key_of_def)

lemma decorated_agents_fill:
  "slot_filled (why_reasoning_process sv state) ''why_reasoning''"
  "slot_filled (business_impact_process sv state) ''business_impact''"
  "slot_filled (educational_process sv state) ''educational_content''"
  "slot_filled (documentation_process sv state) ''documentation''"
  unfolding why_reasoning_process_def business_impact_process_def educational_process_def
    documentation_process_def
  by (rule decorated_fills, rule fallbacks_nonempty, simp, simp)+

lemma all_processes_fill:
  "list_all (\<lambda>name. slot_filled (process_of sv name state) (slot_key_of name)) step_names"
  unfolding step_names_def list.pred_inject process_of_names slot_key_of_names
  by (intro conjI orchestrator_fills requirements_fills research_fills architecture_fills
        decorated_agents_fill list.pred_inject(1))

lemma process_fills:
  "name \<in> set step_names \<Longrightarrow> slot_filled (process_of sv name state) (slot_key_of name)"
  using all_processes_fill [of sv state] by (simp add: list_all_iff)

subsection \<open>The blocks of the workflow\<close>

lemma slot_filledE:
  assumes "slot_filled result key"
  obtains v where "py_get result key (JObj []) = Inr v" and "nonempty_mapping v"
  using assms by (auto simp: slot_filled_def split: sum.splits)

lemma run_step_state:
  assumes "process state = Inr result" and "py_get result key (JObj []) = Inr v"
  shows "fst (run_step process key store name next_step summary state) =
           (store v state)\<lparr>completed_steps := completed_steps (store v state) @ [name],
                            current_step := next_step\<rparr>"
  using assms by (simp add: run_step_def Let_def split: sum.splits)

lemma step_orchestrator_keeps:
  assumes "completed_slots_filled state"
  shows "completed_slots_filled (fst (step_orchestrator (sequential_agents sv) state))"
proof -
  from orchestrator_fills [of sv state] obtain v
    where v: "py_get (orchestrator_process sv state) ''orchestrator_plan'' (JObj []) = Inr v"
      and ne: "nonempty_mapping v"
    by (rule slot_filledE)
  have "fst (step_orchestrator (sequential_agents sv) state) =
          state\<lparr>orchestrator_plan := v,
                completed_steps := completed_steps state @ [''orchestrator''],
                current_step := ''requirements''\<rparr>"
    unfolding step_orchestrator_def
    by (subst run_step_state [where result = "orchestrator_process sv state" and v = v])
       (simp_all add: sequential_agents_def v)
  with assms ne show ?thesis
    by (simp add: completed_slots_filled_def step_slots_def)
qed

lemma step_requirements_keeps:
  assumes "completed_slots_filled state"
  shows "completed_slots_filled (fst (step_requirements (sequential_agents sv) state))"
proof -
  from requirements_fills [of sv state] obtain v
    where v: "py_get (requirements_process sv state) ''requirements_analysis'' (JObj []) = Inr v"
      and ne: "nonempty_mapping v"
    by (rule slot_filledE)
  have "fst (step_requirements (sequential_agents sv) state) =
          state\<lparr>requirements_analysis := v,
                completed_steps := completed_steps state @ [''requirements''],
                current_step := ''research''\<rparr>"
    unfolding step_requirements_def
    by (subst run_step_state [where result = "requirements_process sv state" and v = v])
       (simp_all add: sequential_agents_def v)
  with assms ne show ?thesis
    by (simp add: completed_slots_filled_def step_slots_def)
qed

lemma step_research_keeps:
  assumes "completed_slots_filled state"
  shows "completed_slots_filled (fst (step_research (sequential_agents sv) state))"
proof -
  from research_fills [of sv state] obtain v
    where v: "py_get (research_process sv state) ''research_data'' (JObj []) = Inr v"
      and ne: "nonempty_mapping v"
    by (rule slot_filledE)
  have "fst (step_research (sequential_agents sv) state) =
          state\<lparr>research_data := v,
                completed_steps := completed_steps state @ [''research''],
                current_step := ''architecture''\<rparr>"
    unfolding step_research_def
    by (subst run_step_state [where result = "research_process sv state" and v = v])
       (simp_all add: sequential_agents_def v)
  with assms ne show ?thesis
    by (simp add: completed_slots_filled_def step_slots_def)
qed

lemma step_architecture_keeps:
  assumes "completed_slots_filled state"
  shows "completed_slots_filled (fst (step_architecture (sequential_agents sv) state))"
proof -
  from architecture_fills [of sv state] obtain v
    where v: "py_get (architecture_process sv state) ''architecture_design'' (JObj []) = Inr v"
      and ne: "nonempty_mapping v"
    by (rule slot_filledE)
  have "fst (step_architecture (sequential_agents sv) state) =
          state\<lparr>architecture_design := v,
                completed_steps := completed_steps state @ [''architecture''],
                current_step := ''why_reasoning''\<rparr>"
    unfolding step_architecture_def
    by (subst run_step_state [where result = "architecture_process sv state" and v = v])
       (simp_all add: sequential_agents_def v)
  with assms ne show ?thesis
    by (simp add: completed_slots_filled_def step_slots_def)
qed

lemma step_why_reasoning_keeps:
  assumes "completed_slots_filled state"
  shows "completed_slots_filled (fst (step_why_reasoning (sequential_agents sv) state))"
proof -
  from decorated_agents_fill(1) [of sv state] obtain v
    where v: "py_get (why_reasoning_process sv state) ''why_reasoning'' (JObj []) = Inr v"
      and ne: "nonempty_mapping v"
    by (rule slot_filledE)
  have "fst (step_why_reasoning (sequential_agents sv) state) =
          state\<lparr>why_reasoning := v,
                completed_steps := completed_steps state @ [''why_reasoning''],
                current_step := ''business_impact''\<rparr>"
    unfolding step_why_reasoning_def
    by (subst run_step_state [where result = "why_reasoning_process sv state" and v = v])
       (simp_all add: sequential_agents_def v)
  with assms ne show ?thesis
    by (simp add: completed_slots_filled_def step_slots_def)
qed

lemma step_business_impact_keeps:
  assumes "completed_slots_filled state"
  shows "completed_slots_filled (fst (step_business_impact (sequential_agents sv) state))"
proof -
  from decorated_agents_fill(2) [of sv state] obtain v
    where v: "py_get (business_impact_process sv state) ''business_impact'' (JObj []) = Inr v"
      and ne: "nonempty_mapping v"
    by (rule slot_filledE)
  have "fst (step_business_impact (sequential_agents sv) state) =
          state\<lparr>business_impact := v,
                completed_steps := completed_steps state @ [''business_impact''],
                current_step := ''educational''\<rparr>"
    unfolding step_business_impact_def
    by (subst run_step_state [where result = "business_impact_process sv state" and v = v])
       (simp_all add: sequential_agents_def v)
  with assms ne show ?thesis
    by (simp add: completed_slots_filled_def step_slots_def)
qed

lemma step_educational_keeps:
  assumes "completed_slots_filled state"
  shows "completed_slots_filled (fst (step_educational sv (sequential_agents sv) state))"
proof -
  from decorated_agents_fill(3) [of sv state] obtain v
    where v: "py_get (educational_process sv state) ''educational_content'' (JObj []) = Inr v"
      and ne: "nonempty_mapping v"
    by (rule slot_filledE)
  have "fst (step_educational sv (sequential_agents sv) state) =
          state\<lparr>educational_content := v,
                completed_steps := completed_steps state @ [''educational''],
                current_step := ''documentation''\<rparr>"
    unfolding step_educational_def
    by (subst run_step_state [where result = "educational_process sv state" and v = v])
       (simp_all add: sequential_agents_def v)
  with assms ne show ?thesis
    by (simp add: completed_slots_filled_def step_slots_def)
qed

lemma step_documentation_keeps:
  assumes "completed_slots_filled state"
  shows "completed_slots_filled (fst (step_documentation (sequential_agents sv) state))"
proof -
  from decorated_agents_fill(4) [of sv state] obtain v
    where v: "py_get (documentation_process sv state) ''documentation'' (JObj []) = Inr v"
      and ne: "nonempty_mapping v"
    by (rule slot_filledE)
  have "fst (step_documentation (sequential_agents sv) state) =
          state\<lparr>documentation := v,
                completed_steps := completed_steps state @ [''documentation''],
                current_step := ''completed''\<rparr>"
    unfolding step_documentation_def
    by (subst run_step_state [where result = "documentation_process sv state" and v = v])
       (simp_all add: sequential_agents_def v)
  with assms ne show ?thesis
    by (simp add: completed_slots_filled_def step_slots_def)
qed

lemma run_steps_keeps:
  assumes "\<And>step s. step \<in> set steps \<Longrightarrow> P s \<Longrightarrow> P (fst (step s))"
      and "P state"
  shows "P (fst (run_steps steps state))"
  using assms
proof (induction steps arbitrary: state)
  case Nil
  then show ?case by simp
next
  case (Cons step steps)
  from Cons.prems have here: "P (fst (step state))" by simp
  obtain state' r where s: "step state = (state', r)" by (cases "step state")
  show ?case
  proof (cases r)
    case (Inl e)
    with s here show ?thesis by simp
  next
    case (Inr u)
    from here s have "P state'" by simp
    from Cons.IH [OF _ this] Cons.prems(1) have "P (fst (run_steps steps state'))" by simp
    with s Inr show ?thesis by simp
  qed
qed

lemma workflow_steps_keep:
  assumes "step \<in> set (workflow_steps sv (sequential_agents sv))"
      and "completed_slots_filled s"
  shows "completed_slots_filled (fst (step s))"
  using assms
  by (auto simp: workflow_steps_def step_orchestrator_keeps step_requirements_keeps
        step_research_keeps step_architecture_keeps step_why_reasoning_keeps
        step_business_impact_keeps step_educational_keeps step_documentation_keeps)

lemma execute_state:
  "fst (execute sv ag state) =
     (if validate_state state then fst (run_steps (workflow_steps sv ag) state) else state)"
  by (simp add: execute_def split: prod.splits sum.splits)

text \<open>
  C6. In a run of the workflow with the agents of the repository, whatever the
  completion client, the search client and the parsers do, the slot of every step named
  in \<^verbatim>\<open>completed_steps\<close> is a non-empty mapping: after every prefix of the eight blocks
  (also one cut short by an exception) and in the state the run ends with, provided it
  is so in the initial state (whose \<^verbatim>\<open>completed_steps\<close> is empty when the state is
  built from a request). The reason is that the \<^verbatim>\<open>process\<close> of each of the eight agents
  returns a non-empty mapping under its slot key, parsed data or its fallback.
\<close>

theorem completed_steps_have_outputs:
  assumes "completed_slots_filled state"
  shows "completed_slots_filled
           (fst (run_steps (take k (workflow_steps sv (sequential_agents sv))) state)) \<and>
         completed_slots_filled (fst (execute sv (sequential_agents sv) state)) \<and>
         list_all (\<lambda>name. slot_filled (process_of sv name s) (slot_key_of name)) step_names"
proof (intro conjI)
  show "completed_slots_filled
          (fst (run_steps (take k (workflow_steps sv (sequential_agents sv))) state))"
  proof (rule run_steps_keeps [where P = completed_slots_filled])
    fix step s
    assume "step \<in> set (take k (workflow_steps sv (sequential_agents sv)))"
      and "completed_slots_filled s"
    then show "completed_slots_filled (fst (step s))"
      by (auto dest: in_set_takeD intro: workflow_steps_keep)
  qed (rule assms)
  have "completed_slots_filled (fst (run_steps (workflow_steps sv (sequential_agents sv)) state))"
    by (rule run_steps_keeps [where P = completed_slots_filled])
       (auto intro: workflow_steps_keep assms)
  with assms show "completed_slots_filled (fst (execute sv (sequential_agents sv) state))"
    by (simp add: execute_state)
  show "list_all (\<lambda>name. slot_filled (process_of sv name s) (slot_key_of name)) step_names"
    by (rule all_processes_fill)
qed

theorem completed_steps_have_outputs_witness:
  "completed_slots_filled empty_state \<and>
   completed_slots_filled
     (fst (run_steps (take 4 (workflow_steps offline_services (sequential_agents offline_services)))
             empty_state)) \<and>
   completed_slots_filled
     (fst (execute offline_services (sequential_agents offline_services) empty_state))"
proof -
  have a: "completed_slots_filled empty_state"
    by (simp add: completed_slots_filled_def step_slots_def empty_state_def)
  from completed_steps_have_outputs [OF a, of 4 offline_services] a show ?thesis
    by simp
qed

subsection \<open>Failure of a step\<close>

lemma run_steps_append:
  "run_steps (xs @ ys) state =
     (case run_steps xs state of
        (state', Inl e) \<Rightarrow> (state', Inl e)
      | (state', Inr u) \<Rightarrow> run_steps ys state')"
  by (induction xs arbitrary: state) (auto split: prod.splits sum.splits)

lemma run_step_raises:
  "process state = Inl e \<Longrightarrow>
   run_step process key store name next_step summary state = (state, Inl e)"
  by (simp add: run_step_def)

lemma run_step_appends:
  assumes "run_step process key store name next_step summary state = (state', Inr u)"
      and "\<And>v s. completed_steps (store v s) = completed_steps s"
  shows "completed_steps state' = completed_steps state @ [name]"
  using assms by (auto simp: run_step_def Let_def split: sum.splits)

lemma below_eight:
  assumes "k < (8::nat)"
  obtains "k = 0" | "k = 1" | "k = 2" | "k = 3" | "k = 4" | "k = 5" | "k = 6" | "k = 7"
  using assms by linarith

lemma length_workflow_steps: "length (workflow_steps sv ag) = 8"
  by (simp add: workflow_steps_def)

lemma step_raises:
  assumes "k < 8" and "(agent_list ag ! k) state = Inl e"
  shows "(workflow_steps sv ag ! k) state = (state, Inl e)"
  using assms(1)
proof (cases rule: below_eight)
  case 1 with assms(2) show ?thesis
    by (simp add: workflow_steps_def agent_list_def step_orchestrator_def run_step_raises)
next
  case 2 with assms(2) show ?thesis
    by (simp add: workflow_steps_def agent_list_def step_requirements_def run_step_raises)
next
  case 3 with assms(2) show ?thesis
    by (simp add: workflow_steps_def agent_list_def step_research_def run_step_raises)
next
  case 4 with assms(2) show ?thesis
    by (simp add: workflow_steps_def agent_list_def step_architecture_def run_step_raises)
next
  case 5 with assms(2) show ?thesis
    by (simp add: workflow_steps_def agent_list_def step_why_reasoning_def run_step_raises)
next
  case 6 with assms(2) show ?thesis
    by (simp add: workflow_steps_def agent_list_def step_business_impact_def run_step_raises)
next
  case 7 with assms(2) show ?thesis
    by (simp add: workflow_steps_def agent_list_def step_educational_def run_step_raises)
next
  case 8 with assms(2) show ?thesis
    by (simp add: workflow_steps_def agent_list_def step_documentation_def run_step_raises)
qed

lemma step_appends:
  assumes "k < 8" and "(workflow_steps sv ag ! k) state = (state', Inr u)"
  shows "completed_steps state' = completed_steps state @ [step_names ! k]"
  using assms(1)
proof (cases rule: below_eight)
  case 1 with assms(2) show ?thesis
    by (simp add: workflow_steps_def step_names_def step_orchestrator_def)
       (erule run_step_appends, simp)
next
  case 2 with assms(2) show ?thesis
    by (simp add: workflow_steps_def step_names_def step_requirements_def)
       (erule run_step_appends, simp)
next
  case 3 with assms(2) show ?thesis
    by (simp add: workflow_steps_def step_names_def step_research_def)
       (erule run_step_appends, simp)
next
  case 4 with assms(2) show ?thesis
    by (simp add: workflow_steps_def step_names_def step_architecture_def)
       (erule run_step_appends, simp)
next
  case 5 with assms(2) show ?thesis
    by (simp add: workflow_steps_def step_names_def step_why_reasoning_def)
       (erule run_step_appends, simp)
next
  case 6 with assms(2) show ?thesis
    by (simp add: workflow_steps_def step_names_def step_business_impact_def)
       (erule run_step_appends, simp)
next
  case 7 with assms(2) show ?thesis
    by (simp add: workflow_steps_def step_names_def step_educational_def)
       (erule run_step_appends, simp)
next
  case 8 with assms(2) show ?thesis
    by (simp add: workflow_steps_def step_names_def step_documentation_def)
       (erule run_step_appends, simp)
qed

lemma prefix_completed:
  "k \<le> 8 \<Longrightarrow> run_steps (take k (workflow_steps sv ag)) state = (state', Inr u) \<Longrightarrow>
   completed_steps state' = completed_steps state @ take k step_names"
proof (induction k arbitrary: state' u)
  case 0
  then show ?case by simp
next
  case (Suc k)
  then have k: "k < 8" by simp
  have split: "take (Suc k) (workflow_steps sv ag) =
                 take k (workflow_steps sv ag) @ [workflow_steps sv ag ! k]"
    using k by (simp add: take_Suc_conv_app_nth length_workflow_steps)
  obtain mid r where mid: "run_steps (take k (workflow_steps sv ag)) state = (mid, r)"
    by (cases "run_steps (take k (workflow_steps sv ag)) state")
  from Suc.prems(2) mid obtain u' where r: "r = Inr u'"
    by (cases r) (auto simp: split run_steps_append)
  from Suc.prems(2) mid r have last: "(workflow_steps sv ag ! k) mid = (state', Inr u)"
    by (auto simp: split run_steps_append split: prod.splits sum.splits)
  from Suc.IH [of mid u'] k mid r
  have "completed_steps mid = completed_steps state @ take k step_names" by simp
  moreover from step_appends [OF k last]
  have "completed_steps state' = completed_steps mid @ [step_names ! k]" .
  moreover have "take (Suc k) step_names = take k step_names @ [step_names ! k]"
    using k by (intro take_Suc_conv_app_nth) (simp add: step_names_def)
  ultimately show ?case by simp
qed

lemma failing_step_ends_run:
  assumes "k < 8"
      and "run_steps (take k (workflow_steps sv ag)) state = (state', Inr u)"
      and "(agent_list ag ! k) state' = Inl e"
  shows "run_steps (workflow_steps sv ag) state = (state', Inl e)"
proof -
  have "workflow_steps sv ag =
          take k (workflow_steps sv ag) @ (workflow_steps sv ag ! k) #
          drop (Suc k) (workflow_steps sv ag)"
    using assms(1) by (simp add: id_take_nth_drop length_workflow_steps)
  then have "run_steps (workflow_steps sv ag) state =
          run_steps (take k (workflow_steps sv ag) @ (workflow_steps sv ag ! k) #
          drop (Suc k) (workflow_steps sv ag)) state"
    by simp
  also have "\<dots> = (state', Inl e)"
    by (simp add: run_steps_append assms(2) step_raises [OF assms(1) assms(3)])
  finally show ?thesis .
qed

subsection \<open>Failure of the completion client\<close>

lemma completion_failsD:
  "completion_fails_at sv name \<Longrightarrow> \<exists>e. groq_query sv name prompt system = Inl e"
  by (simp add: completion_fails_at_def)

lemma query_with_context_fails:
  assumes "completion_fails_at sv name"
  shows "\<exists>e. query_groq_with_context sv name prompt state = Inl e"
proof (cases "build_context_prompt sv prompt state")
  case (Inl e)
  then show ?thesis by (simp add: query_groq_with_context_def)
next
  case (Inr context_prompt)
  from completion_failsD [OF assms, of context_prompt "system_prompt sv name"]
  obtain e where "groq_query sv name context_prompt (system_prompt sv name) = Inl e" ..
  with Inr show ?thesis by (simp add: query_groq_with_context_def)
qed

lemma bind_fails_second:
  "(\<And>v. \<exists>e. f v = Inl e) \<Longrightarrow> \<exists>e. bind_result m f = Inl e"
  by (cases m) auto

lemma orchestrator_falls_back:
  assumes "completion_fails_at sv ''orchestrator''"
  shows "orchestrator_process sv state = JObj [(''orchestrator_plan'', get_fallback_plan)]"
proof -
  have "\<exists>e. bind_result (task_prompt sv ''orchestrator'' state) (\<lambda>orchestration_prompt.
             bind_result (query_groq_with_context sv ''orchestrator'' orchestration_prompt state)
               (\<lambda>response.
                  let plan = parse_orchestration_response sv response
                  in bind_result (len_of_key plan ''agents_required'')
                       (\<lambda>n. Inr (JObj [(''orchestrator_plan'', plan)])))) = Inl e"
  proof (rule bind_fails_second)
    fix p
    from query_with_context_fails [OF assms, of p state]
    show "\<exists>e. bind_result (query_groq_with_context sv ''orchestrator'' p state)
               (\<lambda>response.
                  let plan = parse_orchestration_response sv response
                  in bind_result (len_of_key plan ''agents_required'')
                       (\<lambda>n. Inr (JObj [(''orchestrator_plan'', plan)]))) = Inl e"
      by auto
  qed
  then show ?thesis by (auto simp: orchestrator_process_def)
qed

lemma requirements_falls_back:
  assumes "completion_fails_at sv ''requirements''"
  shows "requirements_process sv state = JObj [(''requirements_analysis'', get_fallback_analysis)]"
proof -
  have "\<exists>e. bind_result (task_prompt sv ''requirements'' state) (\<lambda>requirements_prompt.
             bind_result (query_groq_with_context sv ''requirements'' requirements_prompt state)
               (\<lambda>response.
                  let analysis = parse_requirements_response sv response
                  in bind_result (len_of_key analysis ''functional_requirements'') (\<lambda>n.
                     bind_result (len_of_key analysis ''non_functional_requirements'') (\<lambda>m.
                       Inr (JObj [(''requirements_analysis'', analysis)]))))) = Inl e"
  proof (rule bind_fails_second)
    fix p
    from query_with_context_fails [OF assms, of p state]
    show "\<exists>e. bind_result (query_groq_with_context sv ''requirements'' p state)
               (\<lambda>response.
                  let analysis = parse_requirements_response sv response
                  in bind_result (len_of_key analysis ''functional_requirements'') (\<lambda>n.
                     bind_result (len_of_key analysis ''non_functional_requirements'') (\<lambda>m.
                       Inr (JObj [(''requirements_analysis'', analysis)])))) = Inl e"
      by auto
  qed
  then show ?thesis by (auto simp: requirements_process_def)
qed

lemma research_falls_back:
  assumes "completion_fails_at sv ''research''"
  shows "py_get (research_process sv state) ''research_data'' (JObj []) = Inr get_fallback_research"
proof -
  have "\<exists>e. bind_result (task_prompt sv ''research'' state) (\<lambda>research_prompt.
             bind_result (groq_query sv ''research'' research_prompt (system_prompt sv ''research''))
               (\<lambda>research_response.
                  bind_result (add_external_sources sv (parse_research_response sv research_response))
                    (\<lambda>research_data.
                       bind_result (len_of_key research_data ''architecture_patterns'') (\<lambda>n.
                         bind_result (py_get research_data ''confidence_score'' (JNum (8 / 10)))
                           (\<lambda>confidence.
                              Inr (JObj [(''success'', JBool True),
                                         (''research_data'', research_data),
                                         (''agent'', JStr ''research''),
                                         (''confidence'', confidence)])))))) = Inl e"
  proof (rule bind_fails_second)
    fix p
    from completion_failsD [OF assms, of p "system_prompt sv ''research''"]
    show "\<exists>e. bind_result (groq_query sv ''research'' p (system_prompt sv ''research''))
               (\<lambda>research_response.
                  bind_result (add_external_sources sv (parse_research_response sv research_response))
                    (\<lambda>research_data.
                       bind_result (len_of_key research_data ''architecture_patterns'') (\<lambda>n.
                         bind_result (py_get research_data ''confidence_score'' (JNum (8 / 10)))
                           (\<lambda>confidence.
                              Inr (JObj [(''success'', JBool True),
                                         (''research_data'', research_data),
                                         (''agent'', JStr ''research''),
                                         (''confidence'', confidence)]))))) = Inl e"
      by auto
  qed
  then show ?thesis by (auto simp: research_process_def dict_get_def)
qed

lemma architecture_falls_back:
  assumes "completion_fails_at sv ''architecture''"
  shows "py_get (architecture_process sv state) ''architecture_design'' (JObj []) =
           Inr get_fallback_architecture"
proof -
  have "\<exists>e. bind_result (extract_existing_architecture state) (\<lambda>existing_architecture.
             bind_result (task_prompt sv ''architecture'' state) (\<lambda>architecture_prompt.
               bind_result
                 (groq_query sv ''architecture'' architecture_prompt (system_prompt sv ''architecture''))
                 (\<lambda>architecture_response.
                    let parsed = parse_architecture_response sv (Some existing_architecture)
                                   architecture_response
                    in bind_result (generate_visualization_data sv parsed) (\<lambda>visualization.
                         bind_result (py_setitem parsed ''visualization_data'' visualization)
                           (\<lambda>architecture_design.
                              bind_result (len_of_key architecture_design ''components'') (\<lambda>n.
                                bind_result
                                  (py_get architecture_design ''confidence_score'' (JNum (85 / 100)))
                                  (\<lambda>confidence.
                                     Inr (JObj [(''success'', JBool True),
                                                (''architecture_design'', architecture_design),
                                                (''agent'', JStr ''architecture''),
                                                (''confidence'', confidence)])))))))) = Inl e"
  proof (rule bind_fails_second, rule bind_fails_second)
    fix existing p
    from completion_failsD [OF assms, of p "system_prompt sv ''architecture''"]
    show "\<exists>e. bind_result
                 (groq_query sv ''architecture'' p (system_prompt sv ''architecture''))
                 (\<lambda>architecture_response.
                    let parsed = parse_architecture_response sv (Some existing)
                                   architecture_response
                    in bind_result (generate_visualization_data sv parsed) (\<lambda>visualization.
                         bind_result (py_setitem parsed ''visualization_data'' visualization)
                           (\<lambda>architecture_design.
                              bind_result (len_of_key architecture_design ''components'') (\<lambda>n.
                                bind_result
                                  (py_get architecture_design ''confidence_score'' (JNum (85 / 100)))
                                  (\<lambda>confidence.
                                     Inr (JObj [(''success'', JBool True),
                                                (''architecture_design'', architecture_design),
                                                (''agent'', JStr ''architecture''),
                                                (''confidence'', confidence)])))))) = Inl e"
      by auto
  qed
  then show ?thesis by (auto simp: architecture_process_def dict_get_def)
qed

lemma decorated_falls_back:
  assumes "completion_fails_at sv name" and "slot \<noteq> ''success''" and "slot \<noteq> ''error''"
  shows "py_get (decorated_process sv name slot parse extra_key extra counted conf fallback state)
           slot (JObj []) = Inr fallback"
proof -
  have "\<exists>e. bind_result (task_prompt sv name state) (\<lambda>prompt.
             bind_result (groq_query sv name prompt (system_prompt sv name)) (\<lambda>response.
               let parsed = parse response
               in bind_result (extra parsed) (\<lambda>derived.
                    bind_result (py_setitem parsed extra_key derived) (\<lambda>data.
                      bind_result (len_of_key data counted) (\<lambda>n.
                        bind_result (py_get data ''confidence_score'' (JNum conf))
                          (\<lambda>confidence.
                             Inr (JObj [(''success'', JBool True),
                                        (slot, data),
                                        (''agent'', JStr name),
                                        (''confidence'', confidence)]))))))) = Inl e"
  proof (rule bind_fails_second)
    fix p
    from completion_failsD [OF assms(1), of p "system_prompt sv name"]
    show "\<exists>e. bind_result (groq_query sv name p (system_prompt sv name)) (\<lambda>response.
               let parsed = parse response
               in bind_result (extra parsed) (\<lambda>derived.
                    bind_result (py_setitem parsed extra_key derived) (\<lambda>data.
                      bind_result (len_of_key data counted) (\<lambda>n.
                        bind_result (py_get data ''confidence_score'' (JNum conf))
                          (\<lambda>confidence.
                             Inr (JObj [(''success'', JBool True),
                                        (slot, data),
                                        (''agent'', JStr name),
                                        (''confidence'', confidence)])))))) = Inl e"
      by auto
  qed
  with assms(2,3) show ?thesis by (auto simp: decorated_process_def dict_get_def)
qed

lemma fallback_of_names:
  "fallback_of ''orchestrator'' = get_fallback_plan"
  "fallback_of ''requirements'' = get_fallback_analysis"
  "fallback_of ''research'' = get_fallback_research"
  "fallback_of ''architecture'' = get_fallback_architecture"
  "fallback_of ''why_reasoning'' = get_fallback_reasoning"
  "fallback_of ''business_impact'' = get_fallback_impact"
  "fallback_of ''educational'' = get_fallback_educational_content"
  "fallback_of ''documentation'' = get_fallback_documentation"
  by (simp_all add: fallback_of_def)

lemma all_agents_catch: "list_all (caught_by_agent sv state) step_names"
  unfolding step_names_def list.pred_inject caught_by_agent_def process_of_names
    slot_key_of_names fallback_of_names
proof (intro conjI impI list.pred_inject(1))
  show "completion_fails_at sv ''orchestrator'' \<Longrightarrow>
        py_get (orchestrator_process sv state) ''orchestrator_plan'' (JObj []) = Inr get_fallback_plan"
    by (simp add: orchestrator_falls_back dict_get_def)
  show "completion_fails_at sv ''requirements'' \<Longrightarrow>
        py_get (requirements_process sv state) ''requirements_analysis'' (JObj []) =
          Inr get_fallback_analysis"
    by (simp add: requirements_falls_back dict_get_def)
  show "completion_fails_at sv ''research'' \<Longrightarrow>
        py_get (research_process sv state) ''research_data'' (JObj []) = Inr get_fallback_research"
    by (rule research_falls_back)
  show "completion_fails_at sv ''architecture'' \<Longrightarrow>
        py_get (architecture_process sv state) ''architecture_design'' (JObj []) =
          Inr get_fallback_architecture"
    by (rule architecture_falls_back)
  show "completion_fails_at sv ''why_reasoning'' \<Longrightarrow>
        py_get (why_reasoning_process sv state) ''why_reasoning'' (JObj []) =
          Inr get_fallback_reasoning"
    unfolding why_reasoning_process_def by (rule decorated_falls_back) simp_all
  show "completion_fails_at sv ''business_impact'' \<Longrightarrow>
        py_get (business_impact_process sv state) ''business_impact'' (JObj []) =
          Inr get_fallback_impact"
    unfolding business_impact_process_def by (rule decorated_falls_back) simp_all
  show "completion_fails_at sv ''educational'' \<Longrightarrow>
        py_get (educational_process sv state) ''educational_content'' (JObj []) =
          Inr get_fallback_educational_content"
    unfolding educational_process_def by (rule decorated_falls_back) simp_all
  show "completion_fails_at sv ''documentation'' \<Longrightarrow>
        py_get (documentation_process sv state) ''documentation'' (JObj []) =
          Inr get_fallback_documentation"
    unfolding documentation_process_def by (rule decorated_falls_back) simp_all
qed

lemma offline_completion_fails: "completion_fails_at offline_services name"
  by (simp add: completion_fails_at_def offline_services_def)

text \<open>
  C5, as the code has it. When the \<^verbatim>\<open>process\<close> of the agent of a step raises, the
  step fails fatally: the workflow driver logs and raises the exception again, the caller
  receives no aggregate response, and \<^verbatim>\<open>completed_steps\<close> holds exactly the names of
  the steps before the failing one (for step 4, the architecture step, the first three).
  An exception of the completion client does not leave \<^verbatim>\<open>process\<close>: the agent of
  every step catches it and returns its fallback under its slot key.
\<close>

theorem failing_step_is_fatal:
  assumes "validate_state state"
      and "k < 8"
      and "run_steps (take k (workflow_steps sv ag)) state = (state', Inr u)"
      and "(agent_list ag ! k) state' = Inl e"
  shows "execute sv ag state = (state', Inl e) \<and>
         completed_steps state' = completed_steps state @ take k step_names \<and>
         list_all (caught_by_agent sv s) step_names"
proof (intro conjI)
  from failing_step_ends_run [OF assms(2) assms(3) assms(4)] assms(1)
  show "execute sv ag state = (state', Inl e)"
    by (simp add: execute_def)
  from prefix_completed [OF _ assms(3)] assms(2)
  show "completed_steps state' = completed_steps state @ take k step_names"
    by simp
  show "list_all (caught_by_agent sv s) step_names"
    by (rule all_agents_catch)
qed

theorem failing_step_is_fatal_witness:
  "validate_state empty_state \<and>
   snd (run_steps (take 3 (workflow_steps offline_services architecture_failing_agents))
          empty_state) = Inr () \<and>
   snd (execute offline_services architecture_failing_agents empty_state) =
     Inl (ServiceError ''architecture agent failed'') \<and>
   completed_steps (fst (execute offline_services architecture_failing_agents empty_state)) =
     [''orchestrator'', ''requirements'', ''research''] \<and>
   completion_fails_at offline_services ''architecture'' \<and>
   py_get (architecture_process offline_services empty_state) ''architecture_design'' (JObj []) =
     Inr get_fallback_architecture"
proof -
  let ?run = "run_steps (take 3 (workflow_steps offline_services architecture_failing_agents))
                empty_state"
  have a: "validate_state empty_state"
    by (simp add: validate_state_def empty_state_def)
  have b: "snd ?run = Inr ()"
    by code_simp
  then have c: "?run = (fst ?run, Inr ())"
    by (metis prod.collapse)
  have d: "(agent_list architecture_failing_agents ! 3) (fst ?run) =
             Inl (ServiceError ''architecture agent failed'')"
    by (simp add: agent_list_def architecture_failing_agents_def)
  have e: "completed_steps empty_state @ take 3 step_names =
             [''orchestrator'', ''requirements'', ''research'']"
    by (simp add: empty_state_def step_names_def)
  have f: "completion_fails_at offline_services ''architecture''"
    by (rule offline_completion_fails)
  have g: "(3::nat) < 8"
    by simp
  note fatal = failing_step_is_fatal [OF a g c d, where s = empty_state]
  from fatal have "caught_by_agent offline_services empty_state ''architecture''"
    unfolding step_names_def list.pred_inject by (elim conjE)
  with f have h: "py_get (architecture_process offline_services empty_state)
                    ''architecture_design'' (JObj []) = Inr get_fallback_architecture"
    unfolding caught_by_agent_def process_of_names slot_key_of_names fallback_of_names
    by (elim mp)
  from fatal have i: "execute offline_services architecture_failing_agents empty_state =
                        (fst ?run, Inl (ServiceError ''architecture agent failed''))"
    by (rule conjunct1)
  from fatal have j: "completed_steps (fst ?run) = completed_steps empty_state @ take 3 step_names"
    by (elim conjE)
  from a b e f h i j show ?thesis
    by simp
qed

text \<open>
  The claim as stated fails: with a completion client that raises on every call, also
  at the architecture step, every agent falls back, all eight steps complete and the
  caller receives an aggregate response.
\<close>

theorem completion_failure_is_not_fatal:
  "completion_fails_at offline_services ''architecture'' \<and>
   (case execute offline_services (sequential_agents offline_services) empty_state of
      (state, Inr response) \<Rightarrow>
        completed_steps state =
          [''orchestrator'', ''requirements'', ''research'', ''architecture'',
           ''why_reasoning'', ''business_impact'', ''educational'', ''documentation''] \<and>
        steps_done response =
          [''orchestrator'', ''requirements'', ''research'', ''architecture'',
           ''why_reasoning'', ''business_impact'', ''educational'', ''documentation'']
    | (state, Inl e) \<Rightarrow> False)"
proof
  show "completion_fails_at offline_services ''architecture''"
    by (rule offline_completion_fails)
  show "case execute offline_services (sequential_agents offline_services) empty_state of
      (state, Inr response) \<Rightarrow>
        completed_steps state =
          [''orchestrator'', ''requirements'', ''research'', ''architecture'',
           ''why_reasoning'', ''business_impact'', ''educational'', ''documentation''] \<and>
        steps_done response =
          [''orchestrator'', ''requirements'', ''research'', ''architecture'',
           ''why_reasoning'', ''business_impact'', ''educational'', ''documentation'']
    | (state, Inl e) \<Rightarrow> False"
    by code_simp
qed

end
